theory Spec2Isabelle
  imports Main "HOL-Library.AList"
begin

section \<open>Decoded JSON values and the Python operations applied to them\<close>

text \<open>
  Every provider answer reaches the program through \<^verbatim>\<open>response.json()\<close>, so the
  values the pollers inspect are decoded JSON documents: \<^verbatim>\<open>None\<close>, booleans, numbers,
  strings, lists and dictionaries with string keys. A dictionary is kept as an
  association list and read with \<open>map_of\<close>. Numbers are kept as integers; no branch
  of the program computes with them.
\<close>

datatype json =
    JNull
  | JBool bool
  | JNum int
  | JStr string
  | JArr "json list"
  | JObj "(string \<times> json) list"

text \<open>
  The exceptions the pipeline can raise. The four messages built by the pollers are kept
  structured (item name and payload) instead of being formatted into one string:
  \<^item> \<open>GenerationFailed item msg\<close>: \<^verbatim>\<open>Exception(f"{item_name} generation failed: {error_msg}")\<close>
  \<^item> \<open>TimedOut item n\<close>: \<^verbatim>\<open>Exception(f"{item_name} generation timed out after {max_wait_time} seconds")\<close>
  \<^item> \<open>BadRequest item text\<close>: \<^verbatim>\<open>Exception(f"Bad request for {item_name}: {response.text}")\<close>
  \<^item> \<open>NoVideoURLInResult item\<close>, \<open>NoVideoURLInResponse item\<close>:
    \<^verbatim>\<open>Exception(f"Could not find video URL in result for {item_name}")\<close> and its sibling
    \<^verbatim>\<open>"... in response for ..."\<close>
  \<open>RequestException\<close> stands for \<^verbatim>\<open>requests.exceptions.RequestException\<close> and its
  subclasses (connection errors, \<^verbatim>\<open>HTTPError\<close> from \<^verbatim>\<open>raise_for_status\<close>, and the
  \<^verbatim>\<open>JSONDecodeError\<close> of \<^verbatim>\<open>response.json()\<close>). \<open>ServiceError\<close> is an exception
  raised inside a collaborator that is not modelled further (the text-generation client,
  the file system).
\<close>

datatype exn =
    RequestException
  | KeyError
  | IndexError
  | TypeError
  | AttributeError
  | GenerationFailed string json
  | TimedOut string nat
  | BadRequest string string
  | NoVideoURLInResult string
  | NoVideoURLInResponse string
  | ServiceError string

definition ebind :: "exn + 'a \<Rightarrow> ('a \<Rightarrow> exn + 'b) \<Rightarrow> exn + 'b" where
  "ebind m f = (case m of Inl e \<Rightarrow> Inl e | Inr x \<Rightarrow> f x)"

text \<open>\<^verbatim>\<open>d.get(k, default)\<close>: only a dictionary has the method.\<close>

fun py_get :: "json \<Rightarrow> string \<Rightarrow> json \<Rightarrow> exn + json" where
  "py_get (JObj kvs) k d = Inr (case map_of kvs k of None \<Rightarrow> d | Some v \<Rightarrow> v)"
| "py_get _ k d = Inl AttributeError"

text \<open>\<^verbatim>\<open>d[k]\<close> with a string key.\<close>

fun py_item :: "json \<Rightarrow> string \<Rightarrow> exn + json" where
  "py_item (JObj kvs) k = (case map_of kvs k of None \<Rightarrow> Inl KeyError | Some v \<Rightarrow> Inr v)"
| "py_item _ k = Inl TypeError"

text \<open>\<^verbatim>\<open>d[0]\<close>: the first element of a list or string; no dictionary decoded from JSON
  has the key \<^verbatim>\<open>0\<close>.\<close>

fun py_first :: "json \<Rightarrow> exn + json" where
  "py_first (JArr []) = Inl IndexError"
| "py_first (JArr (x # xs)) = Inr x"
| "py_first (JStr []) = Inl IndexError"
| "py_first (JStr (c # cs)) = Inr (JStr [c])"
| "py_first (JObj kvs) = Inl KeyError"
| "py_first _ = Inl TypeError"

text \<open>\<^verbatim>\<open>needle in hay\<close> for two strings: \<open>needle\<close> occurs as a contiguous block.\<close>

fun str_contains :: "string \<Rightarrow> string \<Rightarrow> bool" where
  "str_contains needle [] = (needle = [])"
| "str_contains needle (c # cs) =
     (take (length needle) (c # cs) = needle \<or> str_contains needle cs)"

text \<open>\<^verbatim>\<open>k in d\<close> with a string \<open>k\<close>: key membership in a dictionary, element membership
  in a list, substring test in a string, \<^verbatim>\<open>TypeError\<close> otherwise.\<close>

fun py_in :: "string \<Rightarrow> json \<Rightarrow> exn + bool" where
  "py_in k (JObj kvs) = Inr (map_of kvs k \<noteq> None)"
| "py_in k (JArr xs) = Inr (JStr k \<in> set xs)"
| "py_in k (JStr s) = Inr (str_contains k s)"
| "py_in k _ = Inl TypeError"

text \<open>Truth value of a decoded value, as \<^verbatim>\<open>if x:\<close> and \<^verbatim>\<open>any(xs)\<close> test it.\<close>

fun truthy :: "json \<Rightarrow> bool" where
  "truthy JNull = False"
| "truthy (JBool b) = b"
| "truthy (JNum n) = (n \<noteq> 0)"
| "truthy (JStr s) = (s \<noteq> [])"
| "truthy (JArr xs) = (xs \<noteq> [])"
| "truthy (JObj kvs) = (kvs \<noteq> [])"

section \<open>The outside world: clock, HTTP exchanges, sleeping\<close>

text \<open>
  A URL is either a literal, an f-string with one formatted hole
  (\<^verbatim>\<open>f"{prefix}{value}{suffix}"\<close>, kept unformatted), or a value taken from a provider
  answer and handed to \<^verbatim>\<open>requests.get\<close> as it is.
\<close>

datatype url =
    Url string
  | UrlFmt string json string
  | UrlOf json

datatype request =
    GET url
  | POST url json

text \<open>
  What one call of \<^verbatim>\<open>requests.get\<close>/\<^verbatim>\<open>requests.post\<close> produces: a response with
  its status code, its body decoded as JSON (\<open>None\<close> when the body is not JSON) and its
  raw text; or no response at all (\<^verbatim>\<open>requests\<close> raised a \<^verbatim>\<open>RequestException\<close>).
\<close>

datatype reply =
    Reply nat "json option" string
  | NoReply

text \<open>
  The world a run acts on: the clock read by \<^verbatim>\<open>time.time()\<close> (in seconds), the HTTP
  requests issued so far, the durations slept so far, and the files written under
  \<^verbatim>\<open>generated_videos\<close> (names) and \<^verbatim>\<open>video_metadata\<close> (name and document).

  The providers are an oracle: the \<open>k\<close>-th HTTP exchange of a run takes \<open>fst (net k)\<close>
  seconds and produces \<open>snd (net k)\<close>. The program is deterministic, so every provider
  behaviour is some oracle. Request headers are constant per provider and not modelled.

  A call that \<^verbatim>\<open>requests\<close> refuses before any exchange (for a URL without a scheme it
  raises \<^verbatim>\<open>MissingSchema\<close>, which is a \<^verbatim>\<open>RequestException\<close>) is the answer
  \<open>NoReply\<close> here, with the request recorded although nothing was sent. The oracle is
  free to answer any URL, so the model has every run of the code and some more; the
  concrete runs evaluated below fetch absolute URLs only.
\<close>

type_synonym net = "nat \<Rightarrow> nat \<times> reply"

record world =
  clock :: nat
  requests :: "request list"
  sleeps :: "nat list"
  video_files :: "string list"
  metadata_files :: "(string \<times> json) list"

definition http :: "net \<Rightarrow> request \<Rightarrow> world \<Rightarrow> reply \<times> world" where
  "http nt r w =
     (snd (nt (length (requests w))),
      w\<lparr>clock := clock w + fst (nt (length (requests w))), requests := requests w @ [r]\<rparr>)"

text \<open>\<^verbatim>\<open>time.sleep(n)\<close>\<close>

definition sleep :: "nat \<Rightarrow> world \<Rightarrow> world" where
  "sleep n w = w\<lparr>clock := clock w + n, sleeps := sleeps w @ [n]\<rparr>"

text \<open>\<^verbatim>\<open>response.raise_for_status()\<close> raises \<^verbatim>\<open>HTTPError\<close> for 4xx and 5xx codes.\<close>

definition http_error :: "nat \<Rightarrow> bool" where
  "http_error code = (400 \<le> code \<and> code < 600)"

section \<open>The pollers\<close>

text \<open>
  One execution of a poller's loop body either leaves the function (a \<^verbatim>\<open>return\<close> or an
  exception that no handler of the loop catches) or falls through to the next test of
  the loop condition with a new world and a new \<^verbatim>\<open>poll_interval\<close>.
\<close>

datatype step =
    Leave "exn + json" world
  | Again world nat

text \<open>
  The URL lookup of \<^verbatim>\<open>_poll_fal_completion\<close> (lines 404-412 on the fetched result,
  415-423 on the status answer): three shapes in a fixed order, then the error \<open>err\<close>.
  \<^verbatim>\<open>a and b\<close> evaluates \<open>b\<close> only when \<open>a\<close> is true.
\<close>

definition has_nested :: "json \<Rightarrow> string \<Rightarrow> string \<Rightarrow> exn + bool" where
  "has_nested d outer inner =
     ebind (py_in outer d) (\<lambda>b. if b then ebind (py_item d outer) (py_in inner) else Inr False)"

definition find_video_url :: "json \<Rightarrow> exn \<Rightarrow> exn + json" where
  "find_video_url d err =
     ebind (has_nested d ''video'' ''url'') (\<lambda>b1.
       if b1 then ebind (py_item d ''video'') (\<lambda>v. py_item v ''url'')
       else ebind (py_in ''video_url'' d) (\<lambda>b2.
         if b2 then py_item d ''video_url''
         else ebind (has_nested d ''output'' ''video'') (\<lambda>b3.
           if b3 then ebind (py_item d ''output'') (\<lambda>out.
                        ebind (py_item out ''video'') (\<lambda>v. py_item v ''url''))
           else Inl err)))"

text \<open>
  Lines 366-383: the answer to HTTP 400. Whatever is raised inside the inner
  \<^verbatim>\<open>try\<close> (an undecodable body, \<^verbatim>\<open>.get\<close> on a non-dictionary, \<^verbatim>\<open>in\<close> on a
  non-container, the explicit \<^verbatim>\<open>raise\<close>) is caught by the bare \<^verbatim>\<open>except\<close>, which raises
  the bad-request exception; only a detail that contains the in-progress sentence
  continues.
\<close>

definition still_in_progress :: "json option \<Rightarrow> bool" where
  "still_in_progress body =
     (case body of
        None \<Rightarrow> False
      | Some error_data \<Rightarrow>
          (case ebind (py_get error_data ''detail'' (JStr ''''))
                      (py_in ''Request is still in progress'') of
             Inl e \<Rightarrow> False
           | Inr b \<Rightarrow> b))"

text \<open>Lines 361-439: the body of the \<^verbatim>\<open>while\<close> loop of \<^verbatim>\<open>_poll_fal_completion\<close>.\<close>

text \<open>The status vocabularies of lines 394 and 427 (Fal) and 330 and 336 (Wavespeed).\<close>

definition fal_completed_statuses :: "json list" where
  "fal_completed_statuses = [JStr ''completed'', JStr ''COMPLETED'']"

definition fal_processing_statuses :: "json list" where
  "fal_processing_statuses =
     [JStr ''IN_QUEUE'', JStr ''IN_PROGRESS'', JStr ''queued'', JStr ''in_progress'',
      JStr ''processing'']"

definition wavespeed_succeeded_statuses :: "json list" where
  "wavespeed_succeeded_statuses = [JStr ''succeeded'', JStr ''completed'']"

definition wavespeed_processing_statuses :: "json list" where
  "wavespeed_processing_statuses =
     [JStr ''starting'', JStr ''processing'', JStr ''pending'', JStr ''running'']"

text \<open>
  Lines 394-423 of \<^verbatim>\<open>_poll_fal_completion\<close>: the status is a completed one. The
  follow-up fetch of \<^verbatim>\<open>response_url\<close> sits inside the same \<^verbatim>\<open>try\<close>, so a
  \<^verbatim>\<open>RequestException\<close> there (no reply, an HTTP error code, an undecodable body) is
  handled like one of the status query: sleep and test the loop condition again.
\<close>

definition fal_completed :: "net \<Rightarrow> string \<Rightarrow> json \<Rightarrow> world \<Rightarrow> nat \<Rightarrow> step" where
  "fal_completed nt item_name result_data w poll_interval =
     (case py_in ''response_url'' result_data of
        Inl e \<Rightarrow> Leave (Inl e) w
      | Inr True \<Rightarrow>
          (case py_item result_data ''response_url'' of
             Inl e \<Rightarrow> Leave (Inl e) w
           | Inr response_url \<Rightarrow>
               (case http nt (GET (UrlOf response_url)) w of
                  (NoReply, w') \<Rightarrow> Again (sleep poll_interval w') poll_interval
                | (Reply code body txt, w') \<Rightarrow>
                    if http_error code then Again (sleep poll_interval w') poll_interval
                    else (case body of
                            None \<Rightarrow> Again (sleep poll_interval w') poll_interval
                          | Some result_content \<Rightarrow>
                              Leave (find_video_url result_content
                                       (NoVideoURLInResult item_name)) w')))
      | Inr False \<Rightarrow>
          Leave (find_video_url result_data (NoVideoURLInResponse item_name)) w)"

text \<open>Lines 387-435: the decoded status answer and the \<^verbatim>\<open>if/elif\<close> chain on its status.\<close>

definition fal_dispatch :: "net \<Rightarrow> string \<Rightarrow> json \<Rightarrow> world \<Rightarrow> nat \<Rightarrow> step" where
  "fal_dispatch nt item_name result_data w poll_interval =
     (case py_get result_data ''status'' (JStr ''unknown'') of
        Inl e \<Rightarrow> Leave (Inl e) w
      | Inr status \<Rightarrow>
          if status \<in> set fal_completed_statuses
          then fal_completed nt item_name result_data w poll_interval
          else if status = JStr ''failed''
          then (case py_get result_data ''error'' (JStr ''Unknown error'') of
                  Inl e \<Rightarrow> Leave (Inl e) w
                | Inr error_msg \<Rightarrow> Leave (Inl (GenerationFailed item_name error_msg)) w)
          else if status \<in> set fal_processing_statuses
          then Again (sleep poll_interval w) (min (poll_interval + 2) 15)
          else Again (sleep poll_interval w) poll_interval)"

text \<open>Lines 361-439: the body of the \<^verbatim>\<open>while\<close> loop of \<^verbatim>\<open>_poll_fal_completion\<close>.\<close>

definition fal_body :: "net \<Rightarrow> url \<Rightarrow> string \<Rightarrow> world \<Rightarrow> nat \<Rightarrow> step" where
  "fal_body nt status_url item_name w poll_interval =
     (case http nt (GET status_url) w of
        (NoReply, w') \<Rightarrow> Again (sleep poll_interval w') poll_interval
      | (Reply code body txt, w') \<Rightarrow>
          if code = 400 then
            (if still_in_progress body
             then Again (sleep poll_interval w') (min (poll_interval + 2) 15)
             else Leave (Inl (BadRequest item_name txt)) w')
          else if http_error code then Again (sleep poll_interval w') poll_interval
          else (case body of
                  None \<Rightarrow> Again (sleep poll_interval w') poll_interval
                | Some result_data \<Rightarrow> fal_dispatch nt item_name result_data w' poll_interval))"

text \<open>
  Lines 325-328 of \<^verbatim>\<open>_poll_wavespeed_completion\<close>: the status is read at the top
  level and, when absent there, under \<^verbatim>\<open>data\<close>.
\<close>

definition wavespeed_status :: "json \<Rightarrow> exn + json" where
  "wavespeed_status result_data =
     ebind (py_get result_data ''status'' (JStr ''unknown'')) (\<lambda>status.
       if status = JStr ''unknown''
       then ebind (py_get result_data ''data'' (JObj []))
                  (\<lambda>d. py_get d ''status'' (JStr ''unknown''))
       else Inr status)"

text \<open>Lines 318-345: the decoded answer and the \<^verbatim>\<open>if/elif\<close> chain on its status.\<close>

definition wavespeed_dispatch :: "string \<Rightarrow> json \<Rightarrow> world \<Rightarrow> nat \<Rightarrow> step" where
  "wavespeed_dispatch item_name result_data w poll_interval =
     (case wavespeed_status result_data of
        Inl e \<Rightarrow> Leave (Inl e) w
      | Inr status \<Rightarrow>
          if status \<in> set wavespeed_succeeded_statuses
          then Leave (ebind (py_item result_data ''data'') (\<lambda>d.
                        ebind (py_item d ''outputs'') py_first)) w
          else if status = JStr ''failed''
          then (case py_get result_data ''error'' (JStr ''Unknown error'') of
                  Inl e \<Rightarrow> Leave (Inl e) w
                | Inr error_msg \<Rightarrow> Leave (Inl (GenerationFailed item_name error_msg)) w)
          else if status \<in> set wavespeed_processing_statuses
          then Again (sleep poll_interval w) (min (poll_interval + 2) 15)
          else Again (sleep poll_interval w) poll_interval)"

text \<open>Lines 314-349: the body of the \<^verbatim>\<open>while\<close> loop of \<^verbatim>\<open>_poll_wavespeed_completion\<close>.\<close>

definition wavespeed_body :: "net \<Rightarrow> url \<Rightarrow> string \<Rightarrow> world \<Rightarrow> nat \<Rightarrow> step" where
  "wavespeed_body nt result_url item_name w poll_interval =
     (case http nt (GET result_url) w of
        (NoReply, w') \<Rightarrow> Again (sleep poll_interval w') poll_interval
      | (Reply code body txt, w') \<Rightarrow>
          if http_error code then Again (sleep poll_interval w') poll_interval
          else (case body of
                  None \<Rightarrow> Again (sleep poll_interval w') poll_interval
                | Some result_data \<Rightarrow> wavespeed_dispatch item_name result_data w' poll_interval))"

text \<open>
  The loop both pollers are written around:
  \<^verbatim>\<open>while time.time() - start_time < max_wait_time: <body>\<close> followed by the timeout
  exception. Nothing in the loop bounds the number of iterations but the clock, so the
  loop is a partial function; \<open>None\<close> is a run that never leaves it.
\<close>

partial_function (option) poll_loop ::
  "(world \<Rightarrow> nat \<Rightarrow> step) \<Rightarrow> string \<Rightarrow> nat \<Rightarrow> nat \<Rightarrow> world \<Rightarrow> nat \<Rightarrow> ((exn + json) \<times> world) option"
where
  "poll_loop body item_name max_wait_time start_time w poll_interval =
     (if clock w - start_time < max_wait_time
      then (case body w poll_interval of
              Leave r w' \<Rightarrow> Some (r, w')
            | Again w' poll_interval' \<Rightarrow>
                poll_loop body item_name max_wait_time start_time w' poll_interval')
      else Some (Inl (TimedOut item_name max_wait_time), w))"

declare poll_loop.simps [code]

text \<open>
  \<^verbatim>\<open>_poll_wavespeed_completion(prediction_id, headers, item_name, max_wait_time=300)\<close>:
  line 309 builds the URL, lines 310-311 read the clock and set \<^verbatim>\<open>poll_interval = 5\<close>.
\<close>

definition wavespeed_result_url :: "json \<Rightarrow> url" where
  "wavespeed_result_url prediction_id =
     UrlFmt ''https://api.wavespeed.ai/api/v3/predictions/'' prediction_id ''/result''"

definition poll_wavespeed_completion ::
  "net \<Rightarrow> json \<Rightarrow> string \<Rightarrow> nat \<Rightarrow> world \<Rightarrow> ((exn + json) \<times> world) option" where
  "poll_wavespeed_completion nt prediction_id item_name max_wait_time w =
     poll_loop (wavespeed_body nt (wavespeed_result_url prediction_id) item_name)
       item_name max_wait_time (clock w) w 5"

text \<open>
  \<^verbatim>\<open>_poll_fal_completion(request_id, headers, item_name, base_url, max_wait_time=300)\<close>:
  line 356 builds the status URL from \<^verbatim>\<open>request_id\<close>, lines 357-358 read the clock and
  set \<^verbatim>\<open>poll_interval = 5\<close>. The parameter \<^verbatim>\<open>base_url\<close> occurs nowhere in the body.
\<close>

definition fal_status_url :: "json \<Rightarrow> url" where
  "fal_status_url request_id =
     UrlFmt ''https://queue.fal.run/fal-ai/mmaudio-v2/requests/'' request_id ''/status''"

definition poll_fal_completion ::
  "net \<Rightarrow> json \<Rightarrow> string \<Rightarrow> string \<Rightarrow> nat \<Rightarrow> world \<Rightarrow> ((exn + json) \<times> world) option" where
  "poll_fal_completion nt request_id item_name base_url max_wait_time w =
     poll_loop (fal_body nt (fal_status_url request_id) item_name)
       item_name max_wait_time (clock w) w 5"


section \<open>Stage executors\<close>

text \<open>Decimal rendering of a natural number, as an f-string formats an \<^verbatim>\<open>int\<close>.\<close>

definition digit_char :: "nat \<Rightarrow> char" where
  "digit_char d = ''0123456789'' ! d"

fun str_of_nat :: "nat \<Rightarrow> string" where
  "str_of_nat n = (if n < 10 then [digit_char n] else str_of_nat (n div 10) @ [digit_char (n mod 10)])"

declare str_of_nat.simps [simp del]

record VideoIdea =
  caption :: string
  idea :: string
  environment :: string
  sound :: string
  idea_status :: string

record VideoScene =
  description :: string

text \<open>
  What a run receives from its collaborators besides the HTTP providers:
  \<^item> \<open>generator_init\<close>: the exception raised by \<^verbatim>\<open>AIVideoGenerator()\<close>, if any;
  \<^item> \<open>idea_reply\<close>: the outcome of \<^verbatim>\<open>generate_creative_video_idea\<close> (a synchronous call of
    the text-generation client and the decoding of its answer);
  \<^item> \<open>scenes_reply\<close>: in \<^verbatim>\<open>generate_detailed_video_prompts\<close>, the message content returned
    by the text-generation client, or the exception raised on the way to it;
  \<^item> \<open>video_save\<close>, \<open>metadata_save\<close>: the exception raised while writing the video file or
    the metadata file, if any;
  \<^item> \<open>stamp\<close>, \<open>iso_stamp\<close>: \<^verbatim>\<open>datetime.now()\<close> formatted with \<^verbatim>\<open>strftime\<close> and with
    \<^verbatim>\<open>isoformat\<close>.
\<close>

record env =
  net :: net
  generator_init :: "exn option"
  idea_reply :: "exn + VideoIdea"
  scenes_reply :: "exn + string"
  video_save :: "exn option"
  metadata_save :: "exn option"
  stamp :: string
  iso_stamp :: string

definition wavespeed_url :: string where
  "wavespeed_url = ''https://api.wavespeed.ai/api/v3/bytedance/seedance-v1-pro-t2v-480p''"

definition fal_audio_url :: string where
  "fal_audio_url = ''https://queue.fal.run/fal-ai/mmaudio-v2''"

definition fal_ffmpeg_url :: string where
  "fal_ffmpeg_url = ''https://queue.fal.run/fal-ai/ffmpeg-api/compose''"

text \<open>
  The submission idiom of the three executors (lines 288-291, 462-469, 535-538):
  \<^verbatim>\<open>requests.post\<close>, \<^verbatim>\<open>raise_for_status\<close>, \<^verbatim>\<open>response.json()\<close>, inside a
  \<^verbatim>\<open>try\<close> whose handler re-raises. In \<^verbatim>\<open>generate_asmr_sound\<close> the call of
  \<^verbatim>\<open>raise_for_status\<close> is guarded by \<^verbatim>\<open>status_code != 200\<close>, which changes nothing:
  the call raises for 4xx and 5xx only.
\<close>

definition post_json :: "net \<Rightarrow> url \<Rightarrow> json \<Rightarrow> world \<Rightarrow> (exn + json) \<times> world" where
  "post_json nt u payload w =
     (case http nt (POST u payload) w of
        (NoReply, w') \<Rightarrow> (Inl RequestException, w')
      | (Reply code body txt, w') \<Rightarrow>
          if http_error code then (Inl RequestException, w')
          else (case body of
                  None \<Rightarrow> (Inl RequestException, w')
                | Some result \<Rightarrow> (Inr result, w')))"

subsection \<open>Ideation and scripting\<close>

definition generate_creative_video_idea :: "env \<Rightarrow> exn + VideoIdea" where
  "generate_creative_video_idea ev = idea_reply ev"

text \<open>
  The characters \<^verbatim>\<open>str.strip()\<close> removes, among the code points below 256:
  \<^verbatim>\<open>\t \n \x0b \x0c \r \x1c \x1d \x1e \x1f\<close>, space, \<^verbatim>\<open>\x85\<close> and \<^verbatim>\<open>\xa0\<close>.
\<close>

definition is_space :: "char \<Rightarrow> bool" where
  "is_space c = ((of_char c :: nat) \<in> {9, 10, 11, 12, 13, 28, 29, 30, 31, 32, 133, 160})"

definition strip_where :: "(char \<Rightarrow> bool) \<Rightarrow> string \<Rightarrow> string" where
  "strip_where p s = rev (dropWhile p (rev (dropWhile p s)))"

text \<open>\<^verbatim>\<open>s.split('\n')\<close>: the pieces between separators; one piece for a string without one.\<close>

fun split_on :: "char \<Rightarrow> string \<Rightarrow> string list" where
  "split_on sep [] = [[]]"
| "split_on sep (c # cs) =
     (if c = sep then [] # split_on sep cs
      else (case split_on sep cs of [] \<Rightarrow> [[c]] | p # ps \<Rightarrow> (c # p) # ps))"

text \<open>\<^verbatim>\<open>line.split(':', 1)[1]\<close>: what follows the first colon; \<^verbatim>\<open>IndexError\<close> without one.\<close>

fun after_first :: "char \<Rightarrow> string \<Rightarrow> exn + string" where
  "after_first sep [] = Inl IndexError"
| "after_first sep (c # cs) = (if c = sep then Inr cs else after_first sep cs)"

definition starts_with :: "string \<Rightarrow> string \<Rightarrow> bool" where
  "starts_with p s = (take (length p) s = p)"

text \<open>Lines 252-257: the loop over the lines of the answer.\<close>

fun scenes_of_lines :: "string list \<Rightarrow> VideoScene list \<Rightarrow> exn + VideoScene list" where
  "scenes_of_lines [] scenes = Inr scenes"
| "scenes_of_lines (line # rest) scenes =
     (if starts_with ''Scene '' (strip_where is_space line)
      then (case after_first CHR '':'' line of
              Inl e \<Rightarrow> Inl e
            | Inr t \<Rightarrow>
                scenes_of_lines rest
                  (scenes @ [\<lparr>description =
                     strip_where (\<lambda>c. c = CHR 0x22) (strip_where is_space t)\<rparr>]))
      else scenes_of_lines rest scenes)"

text \<open>Lines 239-263 of \<^verbatim>\<open>generate_detailed_video_prompts\<close>; \<^verbatim>\<open>scenes[:3]\<close> is \<open>take 3\<close>.\<close>

definition generate_detailed_video_prompts :: "env \<Rightarrow> VideoIdea \<Rightarrow> exn + VideoScene list" where
  "generate_detailed_video_prompts ev vi =
     (case scenes_reply ev of
        Inl e \<Rightarrow> Inl e
      | Inr answer \<Rightarrow>
          (case scenes_of_lines (split_on CHR 0x0A (strip_where is_space answer)) [] of
             Inl e \<Rightarrow> Inl e
           | Inr scenes \<Rightarrow> Inr (take 3 scenes)))"

subsection \<open>Clip synthesis\<close>

definition clip_payload :: "VideoIdea \<Rightarrow> VideoScene \<Rightarrow> json" where
  "clip_payload vi scene =
     JObj [(''aspect_ratio'', JStr ''9:16''),
           (''duration'', JNum 10),
           (''prompt'', JStr (''VIDEO THEME: '' @ idea vi @
                              '' | WHAT HAPPENS IN THE VIDEO: '' @ description scene @
                              '' | WHERE THE VIDEO IS SHOT: '' @ environment vi))]"

text \<open>
  Lines 271-303: the loop of \<^verbatim>\<open>generate_video_clips\<close> over \<^verbatim>\<open>enumerate(scenes)\<close>, with
  the index \<open>i\<close> and the list \<^verbatim>\<open>video_urls\<close> built so far. Any exception ends the
  function.
\<close>

fun clips_loop ::
  "net \<Rightarrow> VideoIdea \<Rightarrow> nat \<Rightarrow> VideoScene list \<Rightarrow> json list \<Rightarrow> world \<Rightarrow> ((exn + json list) \<times> world) option"
where
  "clips_loop nt vi i [] video_urls w = Some (Inr video_urls, w)"
| "clips_loop nt vi i (scene # rest) video_urls w =
     (case post_json nt (Url wavespeed_url) (clip_payload vi scene) w of
        (Inl e, w1) \<Rightarrow> Some (Inl e, w1)
      | (Inr result, w1) \<Rightarrow>
          (case ebind (py_item result ''data'') (\<lambda>d. py_item d ''id'') of
             Inl e \<Rightarrow> Some (Inl e, w1)
           | Inr prediction_id \<Rightarrow>
               (case poll_wavespeed_completion nt prediction_id
                       (''clip '' @ str_of_nat (i + 1)) 300 w1 of
                  None \<Rightarrow> None
                | Some (Inl e, w2) \<Rightarrow> Some (Inl e, w2)
                | Some (Inr video_url, w2) \<Rightarrow>
                    clips_loop nt vi (i + 1) rest (video_urls @ [video_url]) w2)))"

definition generate_video_clips ::
  "net \<Rightarrow> VideoScene list \<Rightarrow> VideoIdea \<Rightarrow> world \<Rightarrow> ((exn + json list) \<times> world) option" where
  "generate_video_clips nt scenes vi w = clips_loop nt vi 0 scenes [] w"

subsection \<open>Audio synthesis\<close>

definition sound_payload :: "json \<Rightarrow> VideoIdea \<Rightarrow> json" where
  "sound_payload video_url vi =
     JObj [(''prompt'', JStr (''ASMR Soothing sound effects. '' @ sound vi)),
           (''duration'', JNum 10),
           (''video_url'', video_url)]"

text \<open>Lines 443-482 of \<^verbatim>\<open>generate_asmr_sound\<close>.\<close>

definition generate_asmr_sound ::
  "net \<Rightarrow> json \<Rightarrow> VideoIdea \<Rightarrow> world \<Rightarrow> ((exn + json) \<times> world) option" where
  "generate_asmr_sound nt video_url vi w =
     (case post_json nt (Url fal_audio_url) (sound_payload video_url vi) w of
        (Inl e, w1) \<Rightarrow> Some (Inl e, w1)
      | (Inr result, w1) \<Rightarrow>
          (case py_item result ''request_id'' of
             Inl e \<Rightarrow> Some (Inl e, w1)
           | Inr request_id \<Rightarrow>
               poll_fal_completion nt request_id ''ASMR sound''
                 ''https://queue.fal.run/fal-ai/mmaudio-v2/requests/'' 300 w1))"

subsection \<open>Composition\<close>

definition keyframe :: "nat \<times> json \<Rightarrow> json" where
  "keyframe p =
     JObj [(''url'', snd p), (''timestamp'', JNum (int (fst p * 10))), (''duration'', JNum 10)]"

definition video_track :: "json list \<Rightarrow> json" where
  "video_track video_urls =
     JObj [(''id'', JStr ''1''), (''type'', JStr ''video''),
           (''keyframes'', JArr (map keyframe (enumerate 0 video_urls)))]"

definition audio_keyframes :: "json list \<Rightarrow> json list" where
  "audio_keyframes sound_urls =
     map keyframe (filter (\<lambda>p. truthy (snd p)) (enumerate 0 sound_urls))"

definition audio_track :: "json list \<Rightarrow> json" where
  "audio_track sound_urls =
     JObj [(''id'', JStr ''2''), (''type'', JStr ''audio''),
           (''keyframes'', JArr (audio_keyframes sound_urls))]"

text \<open>
  Lines 488-527 of \<^verbatim>\<open>merge_video_clips\<close>: the tracks of the composition request.
  \<^verbatim>\<open>if sound_urls and any(sound_urls)\<close> tests that the list is not empty and that one
  of its entries is true; \<^verbatim>\<open>if audio_keyframes\<close> that the list built is not empty.
\<close>

definition compose_tracks :: "json list \<Rightarrow> json list \<Rightarrow> json list" where
  "compose_tracks video_urls sound_urls =
     [video_track video_urls] @
     (if sound_urls \<noteq> [] \<and> list_ex truthy sound_urls
      then (if audio_keyframes sound_urls \<noteq> [] then [audio_track sound_urls] else [])
      else [])"

definition compose_payload :: "json list \<Rightarrow> json list \<Rightarrow> json" where
  "compose_payload video_urls sound_urls =
     JObj [(''tracks'', JArr (compose_tracks video_urls sound_urls))]"

text \<open>Lines 484-550 of \<^verbatim>\<open>merge_video_clips\<close>; both callers pass a list of sound URLs.\<close>

definition merge_video_clips ::
  "net \<Rightarrow> json list \<Rightarrow> json list \<Rightarrow> world \<Rightarrow> ((exn + json) \<times> world) option" where
  "merge_video_clips nt video_urls sound_urls w =
     (case post_json nt (Url fal_ffmpeg_url) (compose_payload video_urls sound_urls) w of
        (Inl e, w1) \<Rightarrow> Some (Inl e, w1)
      | (Inr result, w1) \<Rightarrow>
          (case py_item result ''request_id'' of
             Inl e \<Rightarrow> Some (Inl e, w1)
           | Inr request_id \<Rightarrow>
               poll_fal_completion nt request_id ''video rendering''
                 ''https://queue.fal.run/fal-ai/ffmpeg-api/requests/'' 300 w1))"


section \<open>The coordinators\<close>

text \<open>
  The audio loop, written twice in the source with the same body (lines 588-597 of
  \<^verbatim>\<open>run_pipeline\<close>, lines 289-296 of \<^verbatim>\<open>run_video_generation\<close>): one call of
  \<^verbatim>\<open>generate_asmr_sound\<close> per clip inside \<^verbatim>\<open>try ... except Exception\<close>, whose handler
  appends \<^verbatim>\<open>None\<close>. \<open>sound_urls\<close> is the list built so far.
\<close>

fun sounds_loop ::
  "net \<Rightarrow> VideoIdea \<Rightarrow> json list \<Rightarrow> json list \<Rightarrow> world \<Rightarrow> (json list \<times> world) option"
where
  "sounds_loop nt vi [] sound_urls w = Some (sound_urls, w)"
| "sounds_loop nt vi (video_url # rest) sound_urls w =
     (case generate_asmr_sound nt video_url vi w of
        None \<Rightarrow> None
      | Some (Inl e, w1) \<Rightarrow> sounds_loop nt vi rest (sound_urls @ [JNull]) w1
      | Some (Inr sound_url, w1) \<Rightarrow> sounds_loop nt vi rest (sound_urls @ [sound_url]) w1)"

subsection \<open>The command-line coordinator\<close>

record pipeline_result =
  result_idea :: VideoIdea
  result_scenes :: "VideoScene list"
  result_video_urls :: "json list"
  result_sound_urls :: "json list"
  result_final_video_url :: json

text \<open>
  Lines 568-619 of \<^verbatim>\<open>run_pipeline\<close>. \<^verbatim>\<open>log_results\<close> only writes to the log.
\<close>

definition run_pipeline :: "env \<Rightarrow> world \<Rightarrow> ((exn + pipeline_result) \<times> world) option" where
  "run_pipeline ev w =
     (case generate_creative_video_idea ev of
        Inl e \<Rightarrow> Some (Inl e, w)
      | Inr vi \<Rightarrow>
     (case generate_detailed_video_prompts ev vi of
        Inl e \<Rightarrow> Some (Inl e, w)
      | Inr scenes \<Rightarrow>
     (case generate_video_clips (net ev) scenes vi w of
        None \<Rightarrow> None
      | Some (Inl e, w1) \<Rightarrow> Some (Inl e, w1)
      | Some (Inr video_urls, w1) \<Rightarrow>
     (case (if video_urls \<noteq> [] then sounds_loop (net ev) vi video_urls [] w1
            else Some (replicate (length video_urls) JNull, w1)) of
        None \<Rightarrow> None
      | Some (sound_urls, w2) \<Rightarrow>
     (case merge_video_clips (net ev) video_urls sound_urls w2 of
        None \<Rightarrow> None
      | Some (Inl e, w3) \<Rightarrow> Some (Inl e, w3)
      | Some (Inr final_video_url, w3) \<Rightarrow>
          Some (Inr \<lparr>result_idea = vi, result_scenes = scenes,
                     result_video_urls = video_urls, result_sound_urls = sound_urls,
                     result_final_video_url = final_video_url\<rparr>, w3))))))"

subsection \<open>The job registry and the background coordinator of the API\<close>

record VideoGenerationRequest =
  custom_prompt :: "string option"
  include_sound :: bool

text \<open>
  The progress text of a job: a literal, or
  \<^verbatim>\<open>f"Generation failed: {str(e)}"\<close> for the exception \<open>e\<close>.
\<close>

datatype progress_text =
    Progress string
  | GenerationFailedText exn

text \<open>
  One entry of \<^verbatim>\<open>active_jobs\<close>. The keys \<^verbatim>\<open>result\<close> and \<^verbatim>\<open>error\<close> are absent until
  they are written; \<^verbatim>\<open>error\<close> holds \<^verbatim>\<open>str(e)\<close>, kept as the exception itself.
\<close>

record job =
  status :: string
  progress :: progress_text
  created_at :: string
  request :: VideoGenerationRequest
  result :: "json option"
  error :: "exn option"

text \<open>
  The state of the API process: the dictionary \<^verbatim>\<open>active_jobs\<close> in insertion order, the
  background tasks added with \<^verbatim>\<open>background_tasks.add_task\<close> and not yet started, and
  \<open>updates\<close>, the journal of every write to \<^verbatim>\<open>active_jobs\<close> in the order it
  happened (the job identifier and the job's record after the write). The journal is what
  an observer polling \<^verbatim>\<open>/status/{job_id}\<close> could see over time.
\<close>

record server =
  active_jobs :: "(string \<times> job) list"
  background_tasks :: "(string \<times> string option \<times> bool) list"
  updates :: "(string \<times> job) list"

definition initial_server :: server where
  "initial_server = \<lparr>active_jobs = [], background_tasks = [], updates = []\<rparr>"

text \<open>
  Lines 104-127 of \<^verbatim>\<open>generate_video\<close>. \<open>ts\<close> and \<open>created\<close> are the two readings of
  \<^verbatim>\<open>datetime.now()\<close>, formatted with \<^verbatim>\<open>strftime('%Y%m%d_%H%M%S')\<close> and with
  \<^verbatim>\<open>isoformat()\<close>. The function returns the response's \<^verbatim>\<open>job_id\<close>; the other two
  fields of the response are constants.
\<close>

definition generate_video ::
  "string \<Rightarrow> string \<Rightarrow> VideoGenerationRequest \<Rightarrow> server \<Rightarrow> string \<times> server" where
  "generate_video ts created rq s =
     (let job_id = ''job_'' @ ts @ ''_'' @ str_of_nat (length (active_jobs s));
          j = \<lparr>status = ''started'',
               progress = Progress ''Initializing video generation...'',
               created_at = created, request = rq, result = None, error = None\<rparr>
      in (job_id,
          s\<lparr>active_jobs := AList.update job_id j (active_jobs s),
            background_tasks :=
              background_tasks s @ [(job_id, custom_prompt rq, include_sound rq)],
            updates := updates s @ [(job_id, j)]\<rparr>))"

text \<open>
  \<^verbatim>\<open>active_jobs[job_id][key] = value\<close> for a job that is registered; \<open>f\<close> is the change
  of the record.
\<close>

definition set_job :: "string \<Rightarrow> (job \<Rightarrow> job) \<Rightarrow> server \<Rightarrow> server" where
  "set_job job_id f s =
     (case map_of (active_jobs s) job_id of
        None \<Rightarrow> s
      | Some j \<Rightarrow>
          s\<lparr>active_jobs := AList.update job_id (f j) (active_jobs s),
            updates := updates s @ [(job_id, f j)]\<rparr>)"

definition set_progress :: "string \<Rightarrow> string \<Rightarrow> server \<Rightarrow> server" where
  "set_progress job_id msg s = set_job job_id (\<lambda>j. j\<lparr>progress := Progress msg\<rparr>) s"

text \<open>Lines 350-372 of \<^verbatim>\<open>download_and_save_video\<close>.\<close>

definition download_and_save_video ::
  "env \<Rightarrow> json \<Rightarrow> string \<Rightarrow> world \<Rightarrow> (exn + string) \<times> world" where
  "download_and_save_video ev video_url job_id w =
     (let filename = ''asmr_video_'' @ stamp ev @ ''_'' @ job_id @ ''.mp4'' in
      case http (net ev) (GET (UrlOf video_url)) w of
        (NoReply, w1) \<Rightarrow> (Inl RequestException, w1)
      | (Reply code body txt, w1) \<Rightarrow>
          if http_error code then (Inl RequestException, w1)
          else (case video_save ev of
                  Some e \<Rightarrow> (Inl e, w1)
                | None \<Rightarrow> (Inr filename, w1\<lparr>video_files := video_files w1 @ [filename]\<rparr>)))"

text \<open>Lines 310-324: the metadata document.\<close>

definition metadata_of ::
  "env \<Rightarrow> string \<Rightarrow> VideoIdea \<Rightarrow> VideoScene list \<Rightarrow> json list \<Rightarrow> json list \<Rightarrow> json \<Rightarrow> string \<Rightarrow> bool \<Rightarrow> json"
where
  "metadata_of ev job_id vi scenes video_urls sound_urls final_video_url video_filename
               include_snd =
     JObj [(''job_id'', JStr job_id),
           (''idea'', JStr (idea vi)),
           (''caption'', JStr (caption vi)),
           (''environment'', JStr (environment vi)),
           (''sound'', JStr (sound vi)),
           (''status'', JStr (idea_status vi)),
           (''scenes'', JArr (map (\<lambda>scene. JStr (description scene)) scenes)),
           (''video_urls'', JArr video_urls),
           (''sound_urls'', JArr sound_urls),
           (''final_video_url'', final_video_url),
           (''local_filename'', JStr video_filename),
           (''timestamp'', JStr (iso_stamp ev)),
           (''include_sound'', JBool include_snd)]"

text \<open>Lines 326-328: the metadata file is written.\<close>

definition save_metadata :: "env \<Rightarrow> string \<Rightarrow> json \<Rightarrow> world \<Rightarrow> (exn + unit) \<times> world" where
  "save_metadata ev job_id metadata w =
     (case metadata_save ev of
        Some e \<Rightarrow> (Inl e, w)
      | None \<Rightarrow> (Inr (), w\<lparr>metadata_files := metadata_files w @ [(job_id @ ''.json'', metadata)]\<rparr>))"

text \<open>Lines 333-340: the \<^verbatim>\<open>result\<close> entry of a completed job.\<close>

definition job_result :: "string \<Rightarrow> VideoIdea \<Rightarrow> json \<Rightarrow> string \<Rightarrow> json" where
  "job_result job_id vi final_video_url video_filename =
     JObj [(''video_id'', JStr job_id),
           (''filename'', JStr video_filename),
           (''idea'', JStr (idea vi)),
           (''caption'', JStr (caption vi)),
           (''final_video_url'', final_video_url),
           (''download_url'', JStr (''/videos/'' @ job_id @ ''/download''))]"

text \<open>
  Lines 286-298: the audio stage of \<^verbatim>\<open>run_video_generation\<close>. With
  \<^verbatim>\<open>include_sound\<close> false, or without clips, the list is \<^verbatim>\<open>[None] * len(video_urls)\<close>
  and nothing is written or requested.
\<close>

definition sound_stage ::
  "env \<Rightarrow> string \<Rightarrow> bool \<Rightarrow> VideoIdea \<Rightarrow> json list \<Rightarrow> server \<Rightarrow> world \<Rightarrow> (json list \<times> server \<times> world) option"
where
  "sound_stage ev job_id include_snd vi video_urls s w =
     (if include_snd \<and> video_urls \<noteq> []
      then (case sounds_loop (net ev) vi video_urls [] w of
              None \<Rightarrow> None
            | Some (sound_urls, w') \<Rightarrow>
                Some (sound_urls, set_progress job_id ''Generating ASMR sounds...'' s, w'))
      else Some (replicate (length video_urls) JNull, s, w))"

text \<open>
  Lines 300-342: composition, download, metadata and the three writes that complete the
  job. The result is the exception that reaches the handler of line 344, if any.
\<close>

definition finish_generation ::
  "env \<Rightarrow> string \<Rightarrow> bool \<Rightarrow> VideoIdea \<Rightarrow> VideoScene list \<Rightarrow> json list \<Rightarrow> json list \<Rightarrow> server \<Rightarrow> world \<Rightarrow> (exn option \<times> server \<times> world) option"
where
  "finish_generation ev job_id include_snd vi scenes video_urls sound_urls s w =
     (let s1 = set_progress job_id ''Merging video clips into final video...'' s in
      case merge_video_clips (net ev) video_urls sound_urls w of
        None \<Rightarrow> None
      | Some (Inl e, w1) \<Rightarrow> Some (Some e, s1, w1)
      | Some (Inr final_video_url, w1) \<Rightarrow>
     (let s2 = set_progress job_id ''Downloading and saving final video...'' s1 in
      case download_and_save_video ev final_video_url job_id w1 of
        (Inl e, w2) \<Rightarrow> Some (Some e, s2, w2)
      | (Inr video_filename, w2) \<Rightarrow>
     (case save_metadata ev job_id
             (metadata_of ev job_id vi scenes video_urls sound_urls final_video_url
                video_filename include_snd) w2 of
        (Inl e, w3) \<Rightarrow> Some (Some e, s2, w3)
      | (Inr u, w3) \<Rightarrow>
          Some (None,
                set_job job_id
                  (\<lambda>j. j\<lparr>result :=
                           Some (job_result job_id vi final_video_url video_filename)\<rparr>)
                  (set_progress job_id ''Video generation completed successfully!''
                     (set_job job_id (\<lambda>j. j\<lparr>status := ''completed''\<rparr>) s2)),
                w3))))"

text \<open>
  Lines 263-342: the body of the \<^verbatim>\<open>try\<close> of \<^verbatim>\<open>run_video_generation\<close>, for a job
  that is registered.
\<close>

definition video_generation_body ::
  "env \<Rightarrow> string \<Rightarrow> bool \<Rightarrow> server \<Rightarrow> world \<Rightarrow> (exn option \<times> server \<times> world) option"
where
  "video_generation_body ev job_id include_snd s w =
     (let s1 = set_progress job_id ''Initializing AI video generator...''
                 (set_job job_id (\<lambda>j. j\<lparr>status := ''processing''\<rparr>) s) in
      case generator_init ev of
        Some e \<Rightarrow> Some (Some e, s1, w)
      | None \<Rightarrow>
     (let s2 = set_progress job_id ''Generating creative video idea...'' s1 in
      case generate_creative_video_idea ev of
        Inl e \<Rightarrow> Some (Some e, s2, w)
      | Inr vi \<Rightarrow>
     (let s3 = set_progress job_id ''Creating detailed video scenes...'' s2 in
      case generate_detailed_video_prompts ev vi of
        Inl e \<Rightarrow> Some (Some e, s3, w)
      | Inr scenes \<Rightarrow>
     (let s4 = set_progress job_id
                 ''Generating video clips (this may take several minutes)...'' s3 in
      case generate_video_clips (net ev) scenes vi w of
        None \<Rightarrow> None
      | Some (Inl e, w1) \<Rightarrow> Some (Some e, s4, w1)
      | Some (Inr video_urls, w1) \<Rightarrow>
     (case sound_stage ev job_id include_snd vi video_urls s4 w1 of
        None \<Rightarrow> None
      | Some (sound_urls, s5, w2) \<Rightarrow>
          finish_generation ev job_id include_snd vi scenes video_urls sound_urls s5 w2)))))"

text \<open>Lines 344-348: the handler of \<^verbatim>\<open>run_video_generation\<close>.\<close>

definition fail_job :: "string \<Rightarrow> exn \<Rightarrow> server \<Rightarrow> server" where
  "fail_job job_id e s =
     set_job job_id (\<lambda>j. j\<lparr>error := Some e\<rparr>)
       (set_job job_id (\<lambda>j. j\<lparr>progress := GenerationFailedText e\<rparr>)
          (set_job job_id (\<lambda>j. j\<lparr>status := ''failed''\<rparr>) s))"

text \<open>
  Lines 260-348 of \<^verbatim>\<open>run_video_generation\<close>. The first component of the result is
  the exception that leaves the coroutine: for an identifier that is not in
  \<^verbatim>\<open>active_jobs\<close> the first statement of the \<^verbatim>\<open>try\<close> raises \<^verbatim>\<open>KeyError\<close>, and so
  does the first statement of the handler. \<^verbatim>\<open>custom_prompt\<close> is not used by the body.
\<close>

definition run_video_generation ::
  "env \<Rightarrow> string \<Rightarrow> string option \<Rightarrow> bool \<Rightarrow> server \<Rightarrow> world \<Rightarrow> (exn option \<times> server \<times> world) option"
where
  "run_video_generation ev job_id custom_prmpt include_snd s w =
     (case map_of (active_jobs s) job_id of
        None \<Rightarrow> Some (Some KeyError, s, w)
      | Some j \<Rightarrow>
          (case video_generation_body ev job_id include_snd s w of
             None \<Rightarrow> None
           | Some (Some e, s', w') \<Rightarrow> Some (None, fail_job job_id e s', w')
           | Some (None, s', w') \<Rightarrow> Some (None, s', w')))"

text \<open>
  The API process over time. A request to \<^verbatim>\<open>/generate\<close> runs \<^verbatim>\<open>generate_video\<close>; the
  framework later starts each background task once, with the arguments it was added
  with. A task is taken as one step here. The coroutine gives up control only at its
  \<^verbatim>\<open>await\<close>s (lines 307 and 328); whatever runs meanwhile, a submission or another
  task, neither removes a key of \<^verbatim>\<open>active_jobs\<close> nor writes to this job's entry, and
  the task itself writes to its own job's entry only and adds no key. So the order in
  which the writes of different coroutines interleave changes neither what is recorded
  for any one job nor the identifiers that submissions get.
\<close>

inductive server_step :: "server \<Rightarrow> server \<Rightarrow> bool" where
  submit: "server_step s (snd (generate_video ts created rq s))"
| run: "(job_id, cp, inc) \<in> set (background_tasks s) \<Longrightarrow>
        run_video_generation ev job_id cp inc
          (s\<lparr>background_tasks := remove1 (job_id, cp, inc) (background_tasks s)\<rparr>) w
          = Some (x, s', w') \<Longrightarrow>
        server_step s s'"

definition reachable :: "server \<Rightarrow> bool" where
  "reachable s = server_step\<^sup>*\<^sup>* initial_server s"

section \<open>Notions used in the statements and proofs\<close>

definition stepped :: "world \<Rightarrow> nat \<Rightarrow> world \<Rightarrow> nat \<Rightarrow> bool" where
  "stepped w iv w2 iv2 \<longleftrightarrow>
     clock w + iv \<le> clock w2 \<and> sleeps w2 = sleeps w @ [iv] \<and>
     (iv2 = iv \<or> iv2 = min (iv + 2) 15) \<and>
     video_files w2 = video_files w \<and> metadata_files w2 = metadata_files w"

definition left :: "world \<Rightarrow> world \<Rightarrow> bool" where
  "left w w2 \<longleftrightarrow>
     clock w \<le> clock w2 \<and> sleeps w2 = sleeps w \<and>
     video_files w2 = video_files w \<and> metadata_files w2 = metadata_files w"

definition polled :: "url \<Rightarrow> world \<Rightarrow> world \<Rightarrow> bool" where
  "polled u w w2 \<longleftrightarrow>
     (\<exists>qs. requests w2 = requests w @ GET u # qs \<and> (\<forall>q\<in>set qs. \<exists>x. q = GET (UrlOf x)))"

fun fal_raises :: "string \<Rightarrow> exn \<Rightarrow> bool" where
  "fal_raises item (GenerationFailed i m) = (i = item)"
| "fal_raises item (BadRequest i t) = (i = item)"
| "fal_raises item (NoVideoURLInResult i) = (i = item)"
| "fal_raises item (NoVideoURLInResponse i) = (i = item)"
| "fal_raises item KeyError = True"
| "fal_raises item TypeError = True"
| "fal_raises item AttributeError = True"
| "fal_raises item e = False"

fun wavespeed_raises :: "string \<Rightarrow> exn \<Rightarrow> bool" where
  "wavespeed_raises item (GenerationFailed i m) = (i = item)"
| "wavespeed_raises item KeyError = True"
| "wavespeed_raises item IndexError = True"
| "wavespeed_raises item TypeError = True"
| "wavespeed_raises item AttributeError = True"
| "wavespeed_raises item e = False"

definition poller_body :: "url \<Rightarrow> string \<Rightarrow> (string \<Rightarrow> exn \<Rightarrow> bool) \<Rightarrow> (world \<Rightarrow> nat \<Rightarrow> step) \<Rightarrow> bool" where
  "poller_body u item raises body \<longleftrightarrow>
     (\<forall>w iv w2 iv2. body w iv = Again w2 iv2 \<longrightarrow> stepped w iv w2 iv2 \<and> polled u w w2) \<and>
     (\<forall>w iv r w2. body w iv = Leave r w2 \<longrightarrow>
        left w w2 \<and> polled u w w2 \<and> (\<forall>e. r = Inl e \<longrightarrow> raises item e))"

definition backoff :: "nat list \<Rightarrow> bool" where
  "backoff ss \<longleftrightarrow>
     (ss \<noteq> [] \<longrightarrow> hd ss = 5) \<and>
     successively (\<lambda>a b. b = a \<or> b = min (a + 2) 15) ss \<and>
     sorted ss \<and> (\<forall>x\<in>set ss. x \<le> 15)"

definition backoff_inv :: "nat list \<Rightarrow> nat \<Rightarrow> bool" where
  "backoff_inv ss iv \<longleftrightarrow>
     backoff ss \<and> 5 \<le> iv \<and> iv \<le> 15 \<and> (ss = [] \<longrightarrow> iv = 5) \<and>
     (ss \<noteq> [] \<longrightarrow> iv = last ss \<or> iv = min (last ss + 2) 15)"

definition poll_inv :: "url \<Rightarrow> world \<Rightarrow> world \<Rightarrow> nat \<Rightarrow> bool" where
  "poll_inv u w w2 iv \<longleftrightarrow>
     clock w \<le> clock w2 \<and> video_files w2 = video_files w \<and>
     metadata_files w2 = metadata_files w \<and>
     (\<exists>ss. sleeps w2 = sleeps w @ ss \<and> backoff_inv ss iv) \<and>
     (\<exists>qs. requests w2 = requests w @ qs \<and> (\<forall>q\<in>set qs. q = GET u \<or> (\<exists>x. q = GET (UrlOf x))))"

definition poll_post :: "url \<Rightarrow> world \<Rightarrow> world \<Rightarrow> bool" where
  "poll_post u w w2 \<longleftrightarrow>
     clock w \<le> clock w2 \<and> video_files w2 = video_files w \<and>
     metadata_files w2 = metadata_files w \<and>
     (\<exists>ss. sleeps w2 = sleeps w @ ss \<and> backoff ss) \<and>
     (\<exists>qs. requests w2 = requests w @ qs \<and> (\<forall>q\<in>set qs. q = GET u \<or> (\<exists>x. q = GET (UrlOf x))))"

text \<open>Concrete worlds and provider scripts, for evaluating the model.\<close>

definition w0 :: world where
  "w0 = \<lparr>clock = 0, requests = [], sleeps = [], video_files = [], metadata_files = []\<rparr>"

definition script :: "(nat \<times> reply) list \<Rightarrow> net" where
  "script rs k = (if k < length rs then rs ! k else (0, NoReply))"

definition ok :: "json \<Rightarrow> nat \<times> reply" where
  "ok d = (0, Reply 200 (Some d) [])"

definition always_FAILED :: net where
  "always_FAILED k = (1, Reply 200 (Some (JObj [(''status'', JStr ''FAILED'')])) [])"

definition compose_script :: net where
  "compose_script =
     script [ok (JObj [(''request_id'', JStr ''r1'')]),
             ok (JObj [(''status'', JStr ''COMPLETED''), (''video_url'', JStr ''https://cdn/out.mp4'')])]"

definition completed_without_url :: net where
  "completed_without_url = script [ok (JObj [(''status'', JStr ''completed'')])]"

definition pending_pending_succeeded_script :: net where
  "pending_pending_succeeded_script =
     script [ok (JObj [(''status'', JStr ''pending'')]),
             ok (JObj [(''status'', JStr ''pending'')]),
             ok (JObj [(''status'', JStr ''succeeded''),
                       (''data'', JObj [(''outputs'', JArr [JStr ''https://cdn/c1.mp4''])])])]"

definition unrecognized_then_unreachable_script :: net where
  "unrecognized_then_unreachable_script =
     script [ok (JObj [(''status'', JStr ''warming_up'')]),
             (0, NoReply),
             ok (JObj [(''status'', JStr ''succeeded''),
                       (''data'', JObj [(''outputs'', JArr [JStr ''https://cdn/c1.mp4''])])])]"

fun is_get :: "request \<Rightarrow> bool" where
  "is_get (GET u) = True"
| "is_get (POST u p) = False"

fun submits_to :: "string \<Rightarrow> request \<Rightarrow> bool" where
  "submits_to target (POST (Url u) p) = (u = target)"
| "submits_to target q = False"

definition grows :: "(request \<Rightarrow> bool) \<Rightarrow> world \<Rightarrow> world \<Rightarrow> bool" where
  "grows P w w' \<longleftrightarrow>
     (\<exists>qs. requests w' = requests w @ qs \<and> list_all P qs) \<and>
     metadata_files w' = metadata_files w"

fun sound_outcomes :: "net \<Rightarrow> VideoIdea \<Rightarrow> json list \<Rightarrow> world \<Rightarrow> (exn + json) list" where
  "sound_outcomes nt vi [] w = []"
| "sound_outcomes nt vi (video_url # rest) w =
     (case generate_asmr_sound nt video_url vi w of
        None \<Rightarrow> []
      | Some (r, w1) \<Rightarrow> r # sound_outcomes nt vi rest w1)"

definition sound_entry :: "exn + json \<Rightarrow> json" where
  "sound_entry r = (case r of Inl e \<Rightarrow> JNull | Inr sound_url \<Rightarrow> sound_url)"

definition job_of :: "server \<Rightarrow> string \<Rightarrow> job option" where
  "job_of s job_id = map_of (active_jobs s) job_id"

definition job_writes :: "string \<Rightarrow> server \<Rightarrow> job list" where
  "job_writes job_id s = map snd (filter (\<lambda>u. fst u = job_id) (updates s))"

definition job_wrote :: "string \<Rightarrow> server \<Rightarrow> job list \<Rightarrow> server \<Rightarrow> bool" where
  "job_wrote job_id s js s' \<longleftrightarrow>
     map fst (active_jobs s') = map fst (active_jobs s) \<and>
     background_tasks s' = background_tasks s \<and>
     updates s' = updates s @ map (Pair job_id) js \<and>
     (\<forall>k. k \<noteq> job_id \<longrightarrow> job_of s' k = job_of s k) \<and>
     job_of s' job_id = (if js = [] then job_of s job_id else Some (last js))"

definition processing_writes :: "string \<Rightarrow> server \<Rightarrow> server \<Rightarrow> bool" where
  "processing_writes job_id s s' \<longleftrightarrow>
     (\<exists>js. js \<noteq> [] \<and> job_wrote job_id s js s' \<and> (\<forall>j\<in>set js. status j = ''processing''))"

definition completed_server ::
  "string \<Rightarrow> VideoIdea \<Rightarrow> json \<Rightarrow> string \<Rightarrow> server \<Rightarrow> server" where
  "completed_server job_id vi final_video_url video_filename s =
     set_job job_id
       (\<lambda>j. j\<lparr>result := Some (job_result job_id vi final_video_url video_filename)\<rparr>)
       (set_progress job_id ''Video generation completed successfully!''
          (set_job job_id (\<lambda>j. j\<lparr>status := ''completed''\<rparr>)
             (set_progress job_id ''Downloading and saving final video...''
                (set_progress job_id ''Merging video clips into final video...'' s))))"

definition started_server :: "string \<Rightarrow> server \<Rightarrow> server" where
  "started_server job_id s =
     set_progress job_id ''Initializing AI video generator...''
       (set_job job_id (\<lambda>j. j\<lparr>status := ''processing''\<rparr>) s)"

definition clips_server :: "string \<Rightarrow> server \<Rightarrow> server" where
  "clips_server job_id s =
     set_progress job_id ''Generating video clips (this may take several minutes)...''
       (set_progress job_id ''Creating detailed video scenes...''
          (set_progress job_id ''Generating creative video idea...'' (started_server job_id s)))"

definition demo_idea :: VideoIdea where
  "demo_idea = \<lparr>caption = ''Glass apple #asmr'', idea = ''Blue glass shaped like an apple'',
     environment = ''Studio table, macro close-up'', sound = ''Crisp glass slicing'',
     idea_status = ''for production''\<rparr>"

definition demo_env :: "net \<Rightarrow> string \<Rightarrow> env" where
  "demo_env nt answer =
     \<lparr>net = nt, generator_init = None, idea_reply = Inr demo_idea,
      scenes_reply = Inr answer, video_save = None, metadata_save = None,
      stamp = ''20250101_000000'', iso_stamp = ''2025-01-01T00:00:00''\<rparr>"

definition demo_request :: VideoGenerationRequest where
  "demo_request = \<lparr>custom_prompt = None, include_sound = True\<rparr>"

definition one_job :: server where
  "one_job =
     snd (generate_video ''20250101_000000'' ''2025-01-01T00:00:00'' demo_request initial_server)"

definition demo_job_id :: string where
  "demo_job_id = ''job_20250101_000000_0''"

definition demo_job :: job where
  "demo_job = \<lparr>status = ''started'', progress = Progress ''Initializing video generation...'',
     created_at = ''2025-01-01T00:00:00'', request = demo_request, result = None, error = None\<rparr>"

definition demo_video_file :: string where
  "demo_video_file = ''asmr_video_20250101_000000_job_20250101_000000_0.mp4''"

definition asked :: "request list \<Rightarrow> world" where
  "asked qs = w0\<lparr>requests := qs\<rparr>"

definition clip_replies :: "string \<Rightarrow> string \<Rightarrow> (nat \<times> reply) list" where
  "clip_replies pid u =
     [ok (JObj [(''data'', JObj [(''id'', JStr pid)])]),
      ok (JObj [(''status'', JStr ''completed''), (''data'', JObj [(''outputs'', JArr [JStr u])])])]"

definition fal_replies :: "string \<Rightarrow> string \<Rightarrow> (nat \<times> reply) list" where
  "fal_replies rid u =
     [ok (JObj [(''request_id'', JStr rid)]),
      ok (JObj [(''status'', JStr ''COMPLETED''), (''video_url'', JStr u)])]"

definition clip_requests :: "string \<Rightarrow> string \<Rightarrow> request list" where
  "clip_requests what pid =
     [POST (Url wavespeed_url) (clip_payload demo_idea \<lparr>description = what\<rparr>),
      GET (wavespeed_result_url (JStr pid))]"

definition sound_requests :: "string \<Rightarrow> string \<Rightarrow> request list" where
  "sound_requests clip rid =
     [POST (Url fal_audio_url) (sound_payload (JStr clip) demo_idea),
      GET (fal_status_url (JStr rid))]"

definition merge_requests :: "json list \<Rightarrow> json list \<Rightarrow> request list" where
  "merge_requests vus sus =
     [POST (Url fal_ffmpeg_url) (compose_payload vus sus), GET (fal_status_url (JStr ''m1''))]"

definition three_scenes_answer :: string where
  "three_scenes_answer =
     ''Scene 1: first cut'' @ [CHR 0x0A] @ ''Scene 2: second cut'' @ [CHR 0x0A] @
     ''Scene 3: third cut''"

definition three_scenes :: "VideoScene list" where
  "three_scenes = [\<lparr>description = ''first cut''\<rparr>, \<lparr>description = ''second cut''\<rparr>,
                   \<lparr>description = ''third cut''\<rparr>]"

definition three_clips :: "json list" where
  "three_clips = [JStr ''https://cdn/c1.mp4'', JStr ''https://cdn/c2.mp4'', JStr ''https://cdn/c3.mp4'']"

definition three_sounds :: "json list" where
  "three_sounds = [JStr ''https://cdn/s1.wav'', JNull, JStr ''https://cdn/s3.wav'']"

definition second_audio_fails :: net where
  "second_audio_fails =
     script (clip_replies ''p1'' ''https://cdn/c1.mp4'' @ clip_replies ''p2'' ''https://cdn/c2.mp4'' @
             clip_replies ''p3'' ''https://cdn/c3.mp4'' @
             fal_replies ''a1'' ''https://cdn/s1.wav'' @ [(0, Reply 500 None ''Internal Server Error'')] @
             fal_replies ''a3'' ''https://cdn/s3.wav'' @
             fal_replies ''m1'' ''https://cdn/final.mp4'' @ [(0, Reply 200 None [])])"

definition three_clip_requests :: "request list" where
  "three_clip_requests =
     clip_requests ''first cut'' ''p1'' @ clip_requests ''second cut'' ''p2'' @
     clip_requests ''third cut'' ''p3''"

definition three_sound_requests :: "request list" where
  "three_sound_requests =
     sound_requests ''https://cdn/c1.mp4'' ''a1'' @
     [POST (Url fal_audio_url) (sound_payload (JStr ''https://cdn/c2.mp4'') demo_idea)] @
     sound_requests ''https://cdn/c3.mp4'' ''a3''"

definition three_clips_world :: world where
  "three_clips_world =
     (asked (three_clip_requests @ three_sound_requests @
             merge_requests three_clips three_sounds @ [GET (UrlOf (JStr ''https://cdn/final.mp4''))]))
       \<lparr>video_files := [demo_video_file],
        metadata_files :=
          [(demo_job_id @ ''.json'',
            metadata_of (demo_env second_audio_fails three_scenes_answer) demo_job_id demo_idea
              three_scenes three_clips three_sounds (JStr ''https://cdn/final.mp4'') demo_video_file True)]\<rparr>"

definition one_scene_answer :: string where
  "one_scene_answer = ''Scene 1: only cut''"

definition empty_audio_url :: net where
  "empty_audio_url =
     script (clip_replies ''p1'' ''https://cdn/c1.mp4'' @ fal_replies ''a1'' [] @
             fal_replies ''m1'' ''https://cdn/final.mp4'' @ [(0, Reply 200 None [])])"

definition empty_audio_world :: world where
  "empty_audio_world =
     (asked (clip_requests ''only cut'' ''p1'' @ sound_requests ''https://cdn/c1.mp4'' ''a1'' @
             merge_requests [JStr ''https://cdn/c1.mp4''] [JStr []] @ [GET (UrlOf (JStr ''https://cdn/final.mp4''))]))
       \<lparr>video_files := [demo_video_file],
        metadata_files :=
          [(demo_job_id @ ''.json'',
            metadata_of (demo_env empty_audio_url one_scene_answer) demo_job_id demo_idea
              [\<lparr>description = ''only cut''\<rparr>] [JStr ''https://cdn/c1.mp4''] [JStr []] (JStr ''https://cdn/final.mp4'')
              demo_video_file True)]\<rparr>"

definition no_scene_answer :: string where
  "no_scene_answer = ''I cannot describe this idea.''"

definition compose_only :: net where
  "compose_only = script (fal_replies ''m1'' ''https://cdn/final.mp4'' @ [(0, Reply 200 None [])])"

definition no_scene_world :: world where
  "no_scene_world =
     (asked (merge_requests [] [] @ [GET (UrlOf (JStr ''https://cdn/final.mp4''))]))
       \<lparr>video_files := [demo_video_file],
        metadata_files :=
          [(demo_job_id @ ''.json'',
            metadata_of (demo_env compose_only no_scene_answer) demo_job_id demo_idea
              [] [] [] (JStr ''https://cdn/final.mp4'') demo_video_file True)]\<rparr>"

definition silent_request :: VideoGenerationRequest where
  "silent_request = \<lparr>custom_prompt = None, include_sound = False\<rparr>"

definition silent_job :: server where
  "silent_job =
     snd (generate_video ''20250101_000000'' ''2025-01-01T00:00:00'' silent_request initial_server)"

definition no_audio_replies :: net where
  "no_audio_replies =
     script (clip_replies ''p1'' ''https://cdn/c1.mp4'' @ fal_replies ''m1'' ''https://cdn/final.mp4'' @
             [(0, Reply 200 None [])])"

definition silent_world :: world where
  "silent_world =
     (asked (clip_requests ''only cut'' ''p1'' @ merge_requests [JStr ''https://cdn/c1.mp4''] [JNull] @
             [GET (UrlOf (JStr ''https://cdn/final.mp4''))]))
       \<lparr>video_files := [demo_video_file],
        metadata_files :=
          [(demo_job_id @ ''.json'',
            metadata_of (demo_env no_audio_replies one_scene_answer) demo_job_id demo_idea
              [\<lparr>description = ''only cut''\<rparr>] [JStr ''https://cdn/c1.mp4''] [JNull] (JStr ''https://cdn/final.mp4'')
              demo_video_file False)]\<rparr>"

text \<open>Further provider scripts.\<close>

definition in_queue_in_progress_completed_script :: net where
  "in_queue_in_progress_completed_script =
     script [ok (JObj [(''status'', JStr ''IN_QUEUE'')]),
             ok (JObj [(''status'', JStr ''IN_PROGRESS'')]),
             ok (JObj [(''status'', JStr ''COMPLETED''),
                       (''video_url'', JStr ''https://cdn/s1.wav'')])]"

definition reports_failed :: net where
  "reports_failed =
     script [ok (JObj [(''status'', JStr ''failed''), (''error'', JStr ''out of memory'')])]"

definition in_progress_then_FAILED :: net where
  "in_progress_then_FAILED k =
     (1, Reply 200
           (Some (JObj [(''status'', if k < 2 then JStr ''IN_PROGRESS'' else JStr ''FAILED'')]))
           [])"

definition composition_unreachable :: net where
  "composition_unreachable = script []"

text \<open>
  Reading a job identifier back: the digits after its last underscore are the number of
  registered jobs at the time of the submission.
\<close>

definition digit_val :: "char \<Rightarrow> nat" where
  "digit_val c = length (takeWhile (\<lambda>d. d \<noteq> c) ''0123456789'')"

definition nat_of_str :: "string \<Rightarrow> nat" where
  "nat_of_str cs = foldl (\<lambda>a c. 10 * a + digit_val c) 0 cs"

definition after_last :: "char \<Rightarrow> string \<Rightarrow> string" where
  "after_last c cs = rev (takeWhile (\<lambda>x. x \<noteq> c) (rev cs))"

definition job_key :: "string \<Rightarrow> nat \<Rightarrow> string" where
  "job_key ts n = ''job_'' @ ts @ ''_'' @ str_of_nat n"

definition job_number :: "string \<Rightarrow> nat" where
  "job_number job_id = nat_of_str (after_last CHR ''_'' job_id)"

text \<open>
  What holds of every reachable state of the API process: the key at position \<open>i\<close> of
  \<^verbatim>\<open>active_jobs\<close> ends with the number \<open>i\<close>; the pending background tasks belong to
  distinct registered jobs, each of which has been written exactly once, with the status
  \<^verbatim>\<open>started\<close>; only registered jobs are written; and the statuses written for a job
  are \<^verbatim>\<open>started\<close>, then \<^verbatim>\<open>processing\<close> at least once, then three times
  \<^verbatim>\<open>completed\<close> or three times \<^verbatim>\<open>failed\<close>, or a prefix of this that stops after
  \<^verbatim>\<open>started\<close>.
\<close>

definition numbered :: "(string \<times> job) list \<Rightarrow> bool" where
  "numbered al \<longleftrightarrow> (\<forall>i<length al. job_number (fst (al ! i)) = i)"

definition lifecycle :: "string list \<Rightarrow> bool" where
  "lifecycle ss \<longleftrightarrow>
     ss = [] \<or> ss = [''started''] \<or>
     (\<exists>n X. 0 < n \<and> (X = ''completed'' \<or> X = ''failed'') \<and>
        ss = ''started'' # replicate n ''processing'' @ replicate 3 X)"

definition server_inv :: "server \<Rightarrow> bool" where
  "server_inv s \<longleftrightarrow>
     numbered (active_jobs s) \<and>
     distinct (map fst (background_tasks s)) \<and>
     fst ` set (background_tasks s) \<subseteq> fst ` set (active_jobs s) \<and>
     fst ` set (updates s) \<subseteq> fst ` set (active_jobs s) \<and>
     (\<forall>t\<in>set (background_tasks s). map status (job_writes (fst t) s) = [''started'']) \<and>
     (\<forall>job_id. lifecycle (map status (job_writes job_id s)))"

text \<open>
  The states of a job as an observer of the registry sees them over time, and their
  order in the life of a job: \<^verbatim>\<open>started\<close> (Created), \<^verbatim>\<open>processing\<close> (Running),
  then \<^verbatim>\<open>completed\<close> or \<^verbatim>\<open>failed\<close>.
\<close>

definition job_states :: "string \<Rightarrow> server \<Rightarrow> string list" where
  "job_states job_id s = map status (job_writes job_id s)"

definition job_state_rank :: "string \<Rightarrow> nat" where
  "job_state_rank st = (if st = ''started'' then 0 else if st = ''processing'' then 1 else 2)"

text \<open>Two submissions within the same second, and the three-clip job after its task has run.\<close>

definition two_jobs :: server where
  "two_jobs =
     snd (generate_video ''20250101_000000'' ''2025-01-01T00:00:00'' demo_request one_job)"

definition three_clips_done :: server where
  "three_clips_done =
     completed_server demo_job_id demo_idea (JStr ''https://cdn/final.mp4'') demo_video_file
       (set_progress demo_job_id ''Generating ASMR sounds...''
          (clips_server demo_job_id (one_job\<lparr>background_tasks := []\<rparr>)))"

section \<open>Lemmas\<close>

lemma poll_loop_rule:
  assumes run: "poll_loop body item mw st w iv = Some (r, w')"
    and init: "I w iv"
    and again: "\<And>w iv w2 iv2. I w iv \<Longrightarrow> clock w - st < mw \<Longrightarrow> body w iv = Again w2 iv2 \<Longrightarrow> I w2 iv2"
    and leave: "\<And>w iv r w2. I w iv \<Longrightarrow> clock w - st < mw \<Longrightarrow> body w iv = Leave r w2 \<Longrightarrow> Q r w2"
    and timeout: "\<And>w iv. I w iv \<Longrightarrow> \<not> clock w - st < mw \<Longrightarrow> Q (Inl (TimedOut item mw)) w"
  shows "Q r w'"
proof -
  have "body = body \<and> item = item \<and> mw = mw \<and> st = st \<longrightarrow> I w iv \<longrightarrow> Q (fst (r, w')) (snd (r, w'))"
  proof (rule poll_loop.raw_induct[where P = "\<lambda>b it m s w iv y. b = body \<and> it = item \<and> m = mw \<and> s = st \<longrightarrow> I w iv \<longrightarrow> Q (fst y) (snd y)", OF _ run])
    fix f b it m s w iv y
    assume IH: "\<And>it m s w iv b' y. f it m s w iv b' = Some y \<Longrightarrow> it = body \<and> m = item \<and> s = mw \<and> w = st \<longrightarrow> I iv b' \<longrightarrow> Q (fst y) (snd y)"
      and eq: "(if clock w - s < m then case b w iv of Leave r w' \<Rightarrow> Some (r, w') | Again w' iv' \<Rightarrow> f b it m s w' iv' else Some (Inl (TimedOut it m), w)) = Some y"
    show "b = body \<and> it = item \<and> m = mw \<and> s = st \<longrightarrow> I w iv \<longrightarrow> Q (fst y) (snd y)"
    proof (intro impI, elim conjE)
      assume *: "b = body" "it = item" "m = mw" "s = st" and inv: "I w iv"
      show "Q (fst y) (snd y)"
      proof (cases "clock w - st < mw")
        case False
        with eq * have "y = (Inl (TimedOut item mw), w)" by simp
        with timeout[OF inv False] show ?thesis by simp
      next
        case True
        show ?thesis
        proof (cases "body w iv")
          case (Leave r2 w2)
          with eq * True have "y = (r2, w2)" by simp
          with leave[OF inv True Leave] show ?thesis by simp
        next
          case (Again w2 iv2)
          with eq * True have "f body item mw st w2 iv2 = Some y" by simp
          from IH[OF this] again[OF inv True Again] show ?thesis by simp
        qed
      qed
    qed
  qed
  with init show ?thesis by simp
qed

lemma poll_loop_halts:
  assumes adv: "\<And>w iv w2 iv2. 0 < iv \<Longrightarrow> body w iv = Again w2 iv2 \<Longrightarrow> clock w + iv \<le> clock w2 \<and> 0 < iv2"
    and pos: "0 < iv"
  shows "\<exists>y. poll_loop body item mw st w iv = Some y"
  using pos
proof (induction "st + mw - clock w" arbitrary: w iv rule: less_induct)
  case less
  show ?case
  proof (cases "clock w - st < mw")
    case False
    then show ?thesis by (subst poll_loop.simps) simp
  next
    case True
    show ?thesis
    proof (cases "body w iv")
      case (Leave r w2)
      with True show ?thesis by (subst poll_loop.simps) simp
    next
      case (Again w2 iv2)
      from adv[OF less.prems Again] have a: "clock w + iv \<le> clock w2" and b: "0 < iv2" by auto
      from a True less.prems have "st + mw - clock w2 < st + mw - clock w" by arith
      from less.hyps[OF this b] obtain y where "poll_loop body item mw st w2 iv2 = Some y" by blast
      with True Again show ?thesis by (subst poll_loop.simps) simp
    qed
  qed
qed

lemma http_world:
  assumes "http nt q w = (rep, w1)"
  shows "clock w \<le> clock w1" "sleeps w1 = sleeps w" "requests w1 = requests w @ [q]"
    "video_files w1 = video_files w" "metadata_files w1 = metadata_files w"
    "nt (length (requests w)) = (clock w1 - clock w, rep)"
  using assms by (auto simp: http_def)

lemma sleep_world:
  "clock (sleep n w) = clock w + n" "sleeps (sleep n w) = sleeps w @ [n]"
  "requests (sleep n w) = requests w" "video_files (sleep n w) = video_files w"
  "metadata_files (sleep n w) = metadata_files w"
  by (simp_all add: sleep_def)

lemma py_in_Inl: "py_in k d = Inl e \<Longrightarrow> e = TypeError"
  by (cases d) auto

lemma py_item_Inl: "py_item d k = Inl e \<Longrightarrow> e = KeyError \<or> e = TypeError"
  by (cases d) (auto split: option.splits)

lemma py_get_Inl: "py_get d k x = Inl e \<Longrightarrow> e = AttributeError"
  by (cases d) auto

lemma py_first_Inl: "py_first d = Inl e \<Longrightarrow> e = KeyError \<or> e = TypeError \<or> e = IndexError"
  by (induction d rule: py_first.induct) auto

lemma ebind_Inl: "ebind m f = Inl e \<Longrightarrow> m = Inl e \<or> (\<exists>x. m = Inr x \<and> f x = Inl e)"
  by (cases m) (auto simp: ebind_def)

lemma has_nested_Inl: "has_nested d a b = Inl e \<Longrightarrow> e = KeyError \<or> e = TypeError"
  by (auto simp: has_nested_def dest!: ebind_Inl split: if_splits; blast dest: py_in_Inl py_item_Inl)

lemma find_video_url_Inl:
  "find_video_url d err = Inl e \<Longrightarrow> e = err \<or> e = KeyError \<or> e = TypeError"
  unfolding find_video_url_def
  by (auto dest!: ebind_Inl split: if_splits; blast dest: has_nested_Inl py_in_Inl py_item_Inl)

lemma find_video_url_raises:
  "fal_raises item err \<Longrightarrow> find_video_url d err = Inl e \<Longrightarrow> fal_raises item e"
  by (auto dest: find_video_url_Inl)

lemma fal_completed_cases:
  obtains (raised) e where "fal_completed nt item d w iv = Leave (Inl e) w" "e = KeyError \<or> e = TypeError"
  | (direct) "fal_completed nt item d w iv = Leave (find_video_url d (NoVideoURLInResponse item)) w"
  | (retry) x rep w1 where "http nt (GET (UrlOf x)) w = (rep, w1)" "fal_completed nt item d w iv = Again (sleep iv w1) iv"
  | (fetched) x rep w1 c where "http nt (GET (UrlOf x)) w = (rep, w1)"
      "fal_completed nt item d w iv = Leave (find_video_url c (NoVideoURLInResult item)) w1"
proof (cases "py_in ''response_url'' d")
  case (Inl e)
  then show ?thesis using raised[of e] by (auto simp: fal_completed_def dest: py_in_Inl)
next
  case (Inr b)
  show ?thesis
  proof (cases b)
    case False
    with Inr show ?thesis using direct by (simp add: fal_completed_def)
  next
    case True
    show ?thesis
    proof (cases "py_item d ''response_url''")
      case (Inl e)
      with Inr True show ?thesis using raised[of e] by (auto simp: fal_completed_def dest: py_item_Inl)
    next
      case u: (Inr x)
      obtain rep w1 where h: "http nt (GET (UrlOf x)) w = (rep, w1)"
        by (cases "http nt (GET (UrlOf x)) w") auto
      show ?thesis
      proof (cases "\<exists>code c raw. rep = Reply code (Some c) raw \<and> \<not> http_error code")
        case True
        then obtain code c raw where "rep = Reply code (Some c) raw" "\<not> http_error code" by blast
        with Inr \<open>b\<close> u h show ?thesis using fetched[OF h, of c] by (simp add: fal_completed_def)
      next
        case False
        with Inr \<open>b\<close> u h have "fal_completed nt item d w iv = Again (sleep iv w1) iv"
          by (auto simp add: fal_completed_def split: reply.splits option.splits)
        with h show ?thesis using retry by blast
      qed
    qed
  qed
qed

lemma fal_completed_Again:
  assumes "fal_completed nt item d w iv = Again w2 iv2"
  shows "stepped w iv w2 iv2 \<and> (\<exists>qs. requests w2 = requests w @ qs \<and> (\<forall>q\<in>set qs. \<exists>x. q = GET (UrlOf x)))"
proof (cases rule: fal_completed_cases[of nt item d w iv])
  case (retry x rep w1)
  with assms have "w2 = sleep iv w1" "iv2 = iv" by auto
  with http_world[OF retry(1)] show ?thesis by (auto simp: stepped_def sleep_world)
qed (use assms in auto)

lemma fal_completed_Leave:
  assumes "fal_completed nt item d w iv = Leave r w2"
  shows "left w w2 \<and> (\<exists>qs. requests w2 = requests w @ qs \<and> (\<forall>q\<in>set qs. \<exists>x. q = GET (UrlOf x)))
     \<and> (\<forall>e. r = Inl e \<longrightarrow> fal_raises item e)"
proof (cases rule: fal_completed_cases[of nt item d w iv])
  case (raised e)
  with assms show ?thesis by (auto simp: left_def)
next
  case direct
  with assms show ?thesis by (auto simp: left_def dest: find_video_url_raises[rotated])
next
  case (retry x rep w1)
  with assms show ?thesis by simp
next
  case (fetched x rep w1 c)
  with assms have "w2 = w1" "r = find_video_url c (NoVideoURLInResult item)" by auto
  with http_world[OF fetched(1)] show ?thesis
    by (auto simp: left_def dest: find_video_url_raises[rotated])
qed

lemma fal_statuses_disjoint:
  "st \<in> set fal_processing_statuses \<Longrightarrow> st \<notin> set fal_completed_statuses \<and> st \<noteq> JStr ''failed''"
  by (auto simp: fal_processing_statuses_def fal_completed_statuses_def)

lemma fal_dispatch_processing:
  assumes "py_get d ''status'' (JStr ''unknown'') = Inr st" "st \<in> set fal_processing_statuses"
  shows "fal_dispatch nt item d w iv = Again (sleep iv w) (min (iv + 2) 15)"
  using assms fal_statuses_disjoint[OF assms(2)] by (simp add: fal_dispatch_def)

lemma fal_dispatch_unrecognized:
  assumes "py_get d ''status'' (JStr ''unknown'') = Inr st" "st \<notin> set fal_completed_statuses"
    "st \<noteq> JStr ''failed''" "st \<notin> set fal_processing_statuses"
  shows "fal_dispatch nt item d w iv = Again (sleep iv w) iv"
  using assms by (simp add: fal_dispatch_def)

lemma fal_dispatch_failed:
  assumes "py_get d ''status'' (JStr ''unknown'') = Inr (JStr ''failed'')"
  shows "\<exists>m. py_get d ''error'' (JStr ''Unknown error'') = Inr m \<and>
    fal_dispatch nt item d w iv = Leave (Inl (GenerationFailed item m)) w"
  using assms by (cases d) (auto simp add: fal_dispatch_def fal_completed_statuses_def)

lemma fal_dispatch_Again:
  assumes "fal_dispatch nt item d w iv = Again w2 iv2"
  shows "stepped w iv w2 iv2 \<and> (\<exists>qs. requests w2 = requests w @ qs \<and> (\<forall>q\<in>set qs. \<exists>x. q = GET (UrlOf x)))"
proof (cases "py_get d ''status'' (JStr ''unknown'')")
  case (Inl e)
  with assms show ?thesis by (simp add: fal_dispatch_def)
next
  case (Inr st)
  show ?thesis
  proof (cases "st \<in> set fal_completed_statuses")
    case True
    with assms Inr have "fal_completed nt item d w iv = Again w2 iv2" by (simp add: fal_dispatch_def)
    then show ?thesis by (rule fal_completed_Again)
  next
    case False
    with assms Inr have "w2 = sleep iv w \<and> (iv2 = iv \<or> iv2 = min (iv + 2) 15)"
      by (auto simp add: fal_dispatch_def split: if_splits sum.splits)
    then show ?thesis by (auto simp add: stepped_def sleep_world)
  qed
qed

lemma fal_dispatch_Leave:
  assumes "fal_dispatch nt item d w iv = Leave r w2"
  shows "left w w2 \<and> (\<exists>qs. requests w2 = requests w @ qs \<and> (\<forall>q\<in>set qs. \<exists>x. q = GET (UrlOf x)))
     \<and> (\<forall>e. r = Inl e \<longrightarrow> fal_raises item e)"
proof (cases "py_get d ''status'' (JStr ''unknown'')")
  case (Inl e)
  with assms show ?thesis by (auto simp add: fal_dispatch_def left_def dest: py_get_Inl)
next
  case (Inr st)
  show ?thesis
  proof (cases "st \<in> set fal_completed_statuses")
    case True
    with assms Inr have "fal_completed nt item d w iv = Leave r w2" by (simp add: fal_dispatch_def)
    then show ?thesis by (rule fal_completed_Leave)
  next
    case False
    with assms Inr show ?thesis
      by (auto simp add: fal_dispatch_def left_def split: if_splits sum.splits dest: py_get_Inl)
  qed
qed

lemma fal_body_cases:
  obtains (retry) rep w1 where "http nt (GET u) w = (rep, w1)"
      "fal_body nt u item w iv = Again (sleep iv w1) iv"
  | (in_progress) rep w1 where "http nt (GET u) w = (rep, w1)"
      "fal_body nt u item w iv = Again (sleep iv w1) (min (iv + 2) 15)"
  | (bad_request) rep w1 raw where "http nt (GET u) w = (rep, w1)"
      "fal_body nt u item w iv = Leave (Inl (BadRequest item raw)) w1"
  | (answered) code d raw w1 where "http nt (GET u) w = (Reply code (Some d) raw, w1)"
      "code \<noteq> 400" "\<not> http_error code"
      "fal_body nt u item w iv = fal_dispatch nt item d w1 iv"
proof -
  obtain rep w1 where h: "http nt (GET u) w = (rep, w1)"
    by (cases "http nt (GET u) w") auto
  show ?thesis
  proof (cases rep)
    case NoReply
    with h show ?thesis using retry[OF h] by (simp add: fal_body_def)
  next
    case (Reply code body raw)
    show ?thesis
    proof (cases "code = 400")
      case True
      with h Reply show ?thesis using in_progress[OF h] bad_request[OF h, of raw]
        by (cases "still_in_progress body") (simp_all add: fal_body_def)
    next
      case False
      show ?thesis
      proof (cases "http_error code \<or> body = None")
        case True
        with h Reply False show ?thesis using retry[OF h] by (auto simp add: fal_body_def)
      next
        case ok: False
        then obtain d where "body = Some d" by auto
        with h Reply False ok show ?thesis using answered[of code d raw w1] by (simp add: fal_body_def)
      qed
    qed
  qed
qed

lemma fal_body_Again:
  assumes "fal_body nt u item w iv = Again w2 iv2"
  shows "stepped w iv w2 iv2 \<and> polled u w w2"
proof (cases rule: fal_body_cases[of nt u w item iv])
  case (retry rep w1)
  with assms http_world[OF retry(1)] show ?thesis by (auto simp: stepped_def polled_def sleep_world)
next
  case (in_progress rep w1)
  with assms http_world[OF in_progress(1)] show ?thesis by (auto simp: stepped_def polled_def sleep_world)
next
  case (bad_request rep w1 raw)
  with assms show ?thesis by simp
next
  case (answered code d raw w1)
  with assms have "fal_dispatch nt item d w1 iv = Again w2 iv2" by simp
  from fal_dispatch_Again[OF this] http_world[OF answered(1)] show ?thesis
    by (auto simp: stepped_def polled_def)
qed

lemma fal_body_Leave:
  assumes "fal_body nt u item w iv = Leave r w2"
  shows "left w w2 \<and> polled u w w2 \<and> (\<forall>e. r = Inl e \<longrightarrow> fal_raises item e)"
proof (cases rule: fal_body_cases[of nt u w item iv])
  case (retry rep w1)
  with assms show ?thesis by simp
next
  case (in_progress rep w1)
  with assms show ?thesis by simp
next
  case (bad_request rep w1 raw)
  with assms http_world[OF bad_request(1)] show ?thesis by (auto simp: left_def polled_def)
next
  case (answered code d raw w1)
  with assms have "fal_dispatch nt item d w1 iv = Leave r w2" by simp
  from fal_dispatch_Leave[OF this] http_world[OF answered(1)] show ?thesis
    by (auto simp: left_def polled_def)
qed

lemma wavespeed_statuses_disjoint:
  "st \<in> set wavespeed_processing_statuses \<Longrightarrow>
     st \<notin> set wavespeed_succeeded_statuses \<and> st \<noteq> JStr ''failed''"
  by (auto simp: wavespeed_processing_statuses_def wavespeed_succeeded_statuses_def)

lemma wavespeed_status_Inl: "wavespeed_status d = Inl e \<Longrightarrow> e = AttributeError"
  by (auto simp: wavespeed_status_def dest!: ebind_Inl dest: py_get_Inl split: if_splits)

lemma wavespeed_status_dict: "wavespeed_status d = Inr st \<Longrightarrow> \<exists>kvs. d = JObj kvs"
  by (cases d) (auto simp: wavespeed_status_def ebind_def)

lemma wavespeed_dispatch_processing:
  assumes "wavespeed_status d = Inr st" "st \<in> set wavespeed_processing_statuses"
  shows "wavespeed_dispatch item d w iv = Again (sleep iv w) (min (iv + 2) 15)"
  using assms wavespeed_statuses_disjoint[OF assms(2)] by (simp add: wavespeed_dispatch_def)

lemma wavespeed_dispatch_unrecognized:
  assumes "wavespeed_status d = Inr st" "st \<notin> set wavespeed_succeeded_statuses"
    "st \<noteq> JStr ''failed''" "st \<notin> set wavespeed_processing_statuses"
  shows "wavespeed_dispatch item d w iv = Again (sleep iv w) iv"
  using assms by (simp add: wavespeed_dispatch_def)

lemma wavespeed_dispatch_succeeded:
  assumes "wavespeed_status d = Inr st" "st \<in> set wavespeed_succeeded_statuses"
  shows "wavespeed_dispatch item d w iv =
     Leave (ebind (py_item d ''data'') (\<lambda>x. ebind (py_item x ''outputs'') py_first)) w"
  using assms by (simp add: wavespeed_dispatch_def)

lemma wavespeed_dispatch_Again:
  assumes "wavespeed_dispatch item d w iv = Again w2 iv2"
  shows "w2 = sleep iv w \<and> (iv2 = iv \<or> iv2 = min (iv + 2) 15)"
  using assms by (auto simp add: wavespeed_dispatch_def split: if_splits sum.splits)

lemma wavespeed_outputs_Inl:
  "ebind (py_item d ''data'') (\<lambda>x. ebind (py_item x ''outputs'') py_first) = Inl e \<Longrightarrow>
     e = KeyError \<or> e = TypeError \<or> e = IndexError"
  by (auto dest!: ebind_Inl; blast dest: py_item_Inl py_first_Inl)

lemma wavespeed_dispatch_Leave:
  assumes "wavespeed_dispatch item d w iv = Leave r w2"
  shows "w2 = w \<and> (\<forall>e. r = Inl e \<longrightarrow> wavespeed_raises item e)"
proof (cases "wavespeed_status d")
  case (Inl e)
  with assms show ?thesis by (auto simp: wavespeed_dispatch_def dest: wavespeed_status_Inl)
next
  case (Inr st)
  show ?thesis
  proof (cases "st \<in> set wavespeed_succeeded_statuses")
    case True
    from assms wavespeed_dispatch_succeeded[OF Inr True, of item w iv] show ?thesis
      by (auto dest: wavespeed_outputs_Inl)
  next
    case False
    with assms Inr show ?thesis
      by (auto simp add: wavespeed_dispatch_def split: if_splits sum.splits dest: py_get_Inl)
  qed
qed

lemma wavespeed_body_cases:
  obtains (retry) rep w1 where "http nt (GET u) w = (rep, w1)"
      "wavespeed_body nt u item w iv = Again (sleep iv w1) iv"
  | (answered) code d raw w1 where "http nt (GET u) w = (Reply code (Some d) raw, w1)"
      "\<not> http_error code"
      "wavespeed_body nt u item w iv = wavespeed_dispatch item d w1 iv"
proof -
  obtain rep w1 where h: "http nt (GET u) w = (rep, w1)"
    by (cases "http nt (GET u) w") auto
  show ?thesis
  proof (cases "\<exists>code d raw. rep = Reply code (Some d) raw \<and> \<not> http_error code")
    case True
    then obtain code d raw where "rep = Reply code (Some d) raw" "\<not> http_error code" by blast
    with h show ?thesis using answered[of code d raw w1] by (simp add: wavespeed_body_def)
  next
    case False
    with h have "wavespeed_body nt u item w iv = Again (sleep iv w1) iv"
      by (auto simp add: wavespeed_body_def split: reply.splits option.splits)
    with h show ?thesis using retry by blast
  qed
qed

lemma wavespeed_body_Again:
  assumes "wavespeed_body nt u item w iv = Again w2 iv2"
  shows "stepped w iv w2 iv2 \<and> polled u w w2"
proof (cases rule: wavespeed_body_cases[of nt u w item iv])
  case (retry rep w1)
  with assms http_world[OF retry(1)] show ?thesis by (auto simp: stepped_def polled_def sleep_world)
next
  case (answered code d raw w1)
  with assms have "wavespeed_dispatch item d w1 iv = Again w2 iv2" by simp
  from wavespeed_dispatch_Again[OF this] http_world[OF answered(1)] show ?thesis
    by (auto simp: stepped_def polled_def sleep_world)
qed

lemma wavespeed_body_Leave:
  assumes "wavespeed_body nt u item w iv = Leave r w2"
  shows "left w w2 \<and> polled u w w2 \<and> (\<forall>e. r = Inl e \<longrightarrow> wavespeed_raises item e)"
proof (cases rule: wavespeed_body_cases[of nt u w item iv])
  case (retry rep w1)
  with assms show ?thesis by simp
next
  case (answered code d raw w1)
  with assms have "wavespeed_dispatch item d w1 iv = Leave r w2" by simp
  from wavespeed_dispatch_Leave[OF this] http_world[OF answered(1)] show ?thesis
    by (auto simp: left_def polled_def)
qed

lemma poller_body_fal: "poller_body u item fal_raises (fal_body nt u item)"
  unfolding poller_body_def using fal_body_Again fal_body_Leave by blast

lemma poller_body_wavespeed: "poller_body u item wavespeed_raises (wavespeed_body nt u item)"
  unfolding poller_body_def using wavespeed_body_Again wavespeed_body_Leave by blast

lemma poller_halts:
  assumes "poller_body u item raises body" "0 < iv"
  shows "\<exists>y. poll_loop body item mw st w iv = Some y"
proof (rule poll_loop_halts[OF _ assms(2)])
  fix w iv w2 iv2
  assume "0 < (iv::nat)" "body w iv = Again w2 iv2"
  with assms(1) have "stepped w iv w2 iv2" by (auto simp: poller_body_def)
  with \<open>0 < iv\<close> show "clock w + iv \<le> clock w2 \<and> 0 < iv2" by (auto simp: stepped_def)
qed

lemma sorted_le_last: "sorted (xs::nat list) \<Longrightarrow> x \<in> set xs \<Longrightarrow> x \<le> last xs"
  by (induction xs) (auto split: if_splits)

lemma backoff_inv_init: "backoff_inv [] 5"
  by (simp add: backoff_inv_def backoff_def)

lemma backoff_inv_step:
  assumes "backoff_inv ss iv" "iv2 = iv \<or> iv2 = min (iv + 2) 15"
  shows "backoff_inv (ss @ [iv]) iv2"
proof -
  from assms(1) have b: "backoff ss" and r: "5 \<le> iv" "iv \<le> 15"
    and e: "ss = [] \<longrightarrow> iv = 5" and l: "ss \<noteq> [] \<longrightarrow> iv = last ss \<or> iv = min (last ss + 2) 15"
    by (auto simp: backoff_inv_def)
  from b have srt: "sorted ss" and bd: "\<forall>x\<in>set ss. x \<le> 15"
    and suc: "successively (\<lambda>a b. b = a \<or> b = min (a + 2) 15) ss"
    and h: "ss \<noteq> [] \<longrightarrow> hd ss = 5" by (auto simp: backoff_def)
  have le: "\<forall>x\<in>set ss. x \<le> iv"
  proof
    fix x assume x: "x \<in> set ss"
    then have ne: "ss \<noteq> []" by auto
    from srt x have "x \<le> last ss" by (rule sorted_le_last)
    moreover from ne bd have "last ss \<le> 15" by simp
    ultimately show "x \<le> iv" using l ne by auto
  qed
  have "backoff (ss @ [iv])"
    unfolding backoff_def
  proof (intro conjI)
    show "ss @ [iv] \<noteq> [] \<longrightarrow> hd (ss @ [iv]) = 5" using e h by (cases ss) auto
    show "successively (\<lambda>a b. b = a \<or> b = min (a + 2) 15) (ss @ [iv])"
      using suc l by (auto simp: successively_append_iff)
    show "sorted (ss @ [iv])" using srt le by (simp add: sorted_append)
    show "\<forall>x\<in>set (ss @ [iv]). x \<le> 15" using bd r by auto
  qed
  with assms(2) r show ?thesis by (auto simp: backoff_inv_def)
qed

lemma poll_inv_init: "poll_inv u w w 5"
  by (simp add: poll_inv_def backoff_inv_init)

lemma poll_inv_stepped:
  assumes "poll_inv u w w1 iv" "stepped w1 iv w2 iv2" "polled u w1 w2"
  shows "poll_inv u w w2 iv2"
proof -
  from assms(1) obtain ss qs where a: "clock w \<le> clock w1" "video_files w1 = video_files w"
    "metadata_files w1 = metadata_files w" "sleeps w1 = sleeps w @ ss" "backoff_inv ss iv"
    "requests w1 = requests w @ qs" "\<forall>q\<in>set qs. q = GET u \<or> (\<exists>x. q = GET (UrlOf x))"
    by (auto simp: poll_inv_def)
  from assms(2) have b: "clock w1 + iv \<le> clock w2" "sleeps w2 = sleeps w1 @ [iv]"
    "iv2 = iv \<or> iv2 = min (iv + 2) 15" "video_files w2 = video_files w1"
    "metadata_files w2 = metadata_files w1" by (auto simp: stepped_def)
  from assms(3) obtain qs2 where c: "requests w2 = requests w1 @ GET u # qs2"
    "\<forall>q\<in>set qs2. \<exists>x. q = GET (UrlOf x)" by (auto simp: polled_def)
  have "sleeps w2 = sleeps w @ (ss @ [iv])" using a b by simp
  moreover have "backoff_inv (ss @ [iv]) iv2" using backoff_inv_step[OF a(5) b(3)] .
  moreover have "requests w2 = requests w @ (qs @ GET u # qs2)" using a c by simp
  moreover have "\<forall>q\<in>set (qs @ GET u # qs2). q = GET u \<or> (\<exists>x. q = GET (UrlOf x))"
    using a(7) c(2) by auto
  moreover have "clock w \<le> clock w2" using a(1) b(1) by simp
  moreover have "video_files w2 = video_files w" "metadata_files w2 = metadata_files w"
    using a b by simp_all
  ultimately show ?thesis unfolding poll_inv_def by (intro conjI exI) assumption+
qed

lemma poll_inv_left:
  assumes "poll_inv u w w1 iv" "left w1 w2" "polled u w1 w2"
  shows "poll_post u w w2"
proof -
  from assms(1) obtain ss qs where a: "clock w \<le> clock w1" "video_files w1 = video_files w"
    "metadata_files w1 = metadata_files w" "sleeps w1 = sleeps w @ ss" "backoff_inv ss iv"
    "requests w1 = requests w @ qs" "\<forall>q\<in>set qs. q = GET u \<or> (\<exists>x. q = GET (UrlOf x))"
    by (auto simp: poll_inv_def)
  from assms(2) have b: "clock w1 \<le> clock w2" "sleeps w2 = sleeps w1" "video_files w2 = video_files w1"
    "metadata_files w2 = metadata_files w1" by (auto simp: left_def)
  from assms(3) obtain qs2 where c: "requests w2 = requests w1 @ GET u # qs2"
    "\<forall>q\<in>set qs2. \<exists>x. q = GET (UrlOf x)" by (auto simp: polled_def)
  have "requests w2 = requests w @ (qs @ GET u # qs2)" using a c by simp
  moreover have "\<forall>q\<in>set (qs @ GET u # qs2). q = GET u \<or> (\<exists>x. q = GET (UrlOf x))"
    using a(7) c(2) by auto
  moreover have "sleeps w2 = sleeps w @ ss" "backoff ss" using a b by (auto simp: backoff_inv_def)
  moreover have "clock w \<le> clock w2" using a(1) b(1) by simp
  moreover have "video_files w2 = video_files w" "metadata_files w2 = metadata_files w"
    using a b by simp_all
  ultimately show ?thesis unfolding poll_post_def by (intro conjI exI) assumption+
qed

lemma poll_inv_post: "poll_inv u w w1 iv \<Longrightarrow> poll_post u w w1"
  by (auto simp: poll_inv_def poll_post_def backoff_inv_def)

lemma poller_summary:
  assumes pb: "poller_body u item raises body"
    and run: "poll_loop body item mw (clock w) w 5 = Some (r, w')"
  shows "poll_post u w w' \<and> (\<forall>e. r = Inl e \<longrightarrow> e = TimedOut item mw \<or> raises item e)"
proof (rule poll_loop_rule[OF run, where I = "poll_inv u w"])
  show "poll_inv u w w 5" by (rule poll_inv_init)
next
  fix w1 iv w2 iv2
  assume "poll_inv u w w1 iv" "body w1 iv = Again w2 iv2"
  with pb show "poll_inv u w w2 iv2" by (auto simp: poller_body_def intro: poll_inv_stepped)
next
  fix w1 iv r w2
  assume "poll_inv u w w1 iv" "body w1 iv = Leave r w2"
  with pb show "poll_post u w w2 \<and> (\<forall>e. r = Inl e \<longrightarrow> e = TimedOut item mw \<or> raises item e)"
    by (auto simp: poller_body_def intro: poll_inv_left)
next
  fix w1 iv
  assume "poll_inv u w w1 iv"
  then show "poll_post u w w1 \<and> (\<forall>e. Inl (TimedOut item mw) = Inl e \<longrightarrow> e = TimedOut item mw \<or> raises item e)"
    by (auto intro: poll_inv_post)
qed

lemma poller_timeout_late:
  assumes pb: "poller_body u item raises body" and nt: "\<not> raises item (TimedOut item mw)"
    and run: "poll_loop body item mw (clock w) w 5 = Some (Inl (TimedOut item mw), w')"
  shows "mw \<le> clock w' - clock w"
proof -
  have "Inl (TimedOut item mw) = (Inl (TimedOut item mw) :: exn + json) \<longrightarrow> mw \<le> clock w' - clock w"
  proof (rule poll_loop_rule[OF run, where I = "\<lambda>w iv. True"
        and Q = "\<lambda>r w2. r = Inl (TimedOut item mw) \<longrightarrow> mw \<le> clock w2 - clock w"])
    fix w1 iv r w2
    assume "body w1 iv = Leave r w2"
    with pb nt show "r = Inl (TimedOut item mw) \<longrightarrow> mw \<le> clock w2 - clock w"
      by (auto simp: poller_body_def)
  qed auto
  then show ?thesis by simp
qed

lemma fal_completed_not_failed:
  "fal_completed nt item d w iv \<noteq> Leave (Inl (GenerationFailed i m)) w2"
proof (cases rule: fal_completed_cases[of nt item d w iv])
  case (raised e)
  then show ?thesis by auto
next
  case direct
  then show ?thesis by (auto dest: find_video_url_Inl)
next
  case (retry x rep w1)
  then show ?thesis by simp
next
  case (fetched x rep w1 c)
  then show ?thesis by (auto dest: find_video_url_Inl)
qed

lemma fal_dispatch_failed_only:
  assumes "fal_dispatch nt item d w iv = Leave (Inl (GenerationFailed i m)) w2"
  shows "py_get d ''status'' (JStr ''unknown'') = Inr (JStr ''failed'')"
proof (cases "py_get d ''status'' (JStr ''unknown'')")
  case (Inl e)
  with assms show ?thesis by (auto simp: fal_dispatch_def dest: py_get_Inl)
next
  case (Inr st)
  show ?thesis
  proof (cases "st \<in> set fal_completed_statuses")
    case True
    with assms Inr have "fal_completed nt item d w iv = Leave (Inl (GenerationFailed i m)) w2"
      by (simp add: fal_dispatch_def)
    with fal_completed_not_failed show ?thesis by blast
  next
    case False
    with assms Inr show ?thesis
      by (auto simp add: fal_dispatch_def split: if_splits sum.splits)
  qed
qed

lemma fal_body_failed_only:
  assumes "fal_body nt u item w iv = Leave (Inl (GenerationFailed i m)) w2"
  shows "\<exists>code d raw w1. http nt (GET u) w = (Reply code (Some d) raw, w1) \<and>
           py_get d ''status'' (JStr ''unknown'') = Inr (JStr ''failed'')"
proof (cases rule: fal_body_cases[of nt u w item iv])
  case (answered code d raw w1)
  with assms have "fal_dispatch nt item d w1 iv = Leave (Inl (GenerationFailed i m)) w2" by simp
  from fal_dispatch_failed_only[OF this] answered(1) show ?thesis by blast
qed (use assms in auto)

lemma FAILED_unrecognized:
  "JStr ''FAILED'' \<notin> set fal_completed_statuses" "JStr ''FAILED'' \<noteq> JStr ''failed''"
  "JStr ''FAILED'' \<notin> set fal_processing_statuses"
  by (simp_all add: fal_completed_statuses_def fal_processing_statuses_def)

lemma post_json_world:
  assumes "post_json nt u p w = (r, w1)"
  shows "clock w \<le> clock w1" "sleeps w1 = sleeps w" "requests w1 = requests w @ [POST u p]"
    "video_files w1 = video_files w" "metadata_files w1 = metadata_files w"
proof -
  obtain rep w2 where h: "http nt (POST u p) w = (rep, w2)"
    by (cases "http nt (POST u p) w") auto
  from assms h have "w1 = w2"
    by (auto simp: post_json_def split: reply.splits if_splits option.splits)
  with http_world[OF h] show "clock w \<le> clock w1" "sleeps w1 = sleeps w"
    "requests w1 = requests w @ [POST u p]"
    "video_files w1 = video_files w" "metadata_files w1 = metadata_files w" by simp_all
qed

lemma poll_fal_summary:
  assumes "poll_fal_completion nt rid item b mw w = Some (r, w')"
  shows "poll_post (fal_status_url rid) w w'"
    "\<forall>e. r = Inl e \<longrightarrow> e = TimedOut item mw \<or> fal_raises item e"
proof -
  from assms have "poll_loop (fal_body nt (fal_status_url rid) item) item mw (clock w) w 5 = Some (r, w')"
    by (simp add: poll_fal_completion_def)
  from poller_summary[OF poller_body_fal this]
  show "poll_post (fal_status_url rid) w w'"
    "\<forall>e. r = Inl e \<longrightarrow> e = TimedOut item mw \<or> fal_raises item e" by simp_all
qed

lemma poll_wavespeed_summary:
  assumes "poll_wavespeed_completion nt pid item mw w = Some (r, w')"
  shows "poll_post (wavespeed_result_url pid) w w'"
    "\<forall>e. r = Inl e \<longrightarrow> e = TimedOut item mw \<or> wavespeed_raises item e"
proof -
  from assms have "poll_loop (wavespeed_body nt (wavespeed_result_url pid) item) item mw (clock w) w 5 = Some (r, w')"
    by (simp add: poll_wavespeed_completion_def)
  from poller_summary[OF poller_body_wavespeed this]
  show "poll_post (wavespeed_result_url pid) w w'"
    "\<forall>e. r = Inl e \<longrightarrow> e = TimedOut item mw \<or> wavespeed_raises item e" by simp_all
qed

lemma poll_fal_halts: "\<exists>y. poll_fal_completion nt rid item b mw w = Some y"
  unfolding poll_fal_completion_def by (rule poller_halts[OF poller_body_fal]) simp

lemma poll_wavespeed_halts: "\<exists>y. poll_wavespeed_completion nt pid item mw w = Some y"
  unfolding poll_wavespeed_completion_def by (rule poller_halts[OF poller_body_wavespeed]) simp

lemma compose_run:
  "merge_video_clips compose_script [JStr ''https://cdn/c1.mp4''] [JNull] w0 =
     Some (Inr (JStr ''https://cdn/out.mp4''),
           \<lparr>clock = 0,
            requests = [POST (Url fal_ffmpeg_url) (compose_payload [JStr ''https://cdn/c1.mp4''] [JNull]),
                        GET (UrlFmt ''https://queue.fal.run/fal-ai/mmaudio-v2/requests/'' (JStr ''r1'') ''/status'')],
            sleeps = [], video_files = [], metadata_files = []\<rparr>)"
  by (simp add: merge_video_clips_def post_json_def poll_fal_completion_def poll_loop.simps
      fal_body_def fal_dispatch_def fal_completed_def find_video_url_def has_nested_def
      fal_completed_statuses_def fal_status_url_def
      compose_script_def script_def ok_def w0_def http_def http_error_def ebind_def)

lemma completed_without_url_run:
  "poll_fal_completion completed_without_url (JStr ''r1'') ''video rendering''
      ''https://queue.fal.run/fal-ai/ffmpeg-api/requests/'' 300 w0 =
   Some (Inl (NoVideoURLInResponse ''video rendering''),
         \<lparr>clock = 0, requests = [GET (fal_status_url (JStr ''r1''))], sleeps = [],
          video_files = [], metadata_files = []\<rparr>)"
  by (simp add: poll_fal_completion_def poll_loop.simps
      fal_body_def fal_dispatch_def fal_completed_def find_video_url_def has_nested_def
      fal_completed_statuses_def
      completed_without_url_def script_def ok_def w0_def http_def http_error_def ebind_def)

lemma wavespeed_body_answered:
  assumes "http nt (GET u) w = (Reply code (Some d) raw, w1)" "\<not> http_error code"
  shows "wavespeed_body nt u item w iv = wavespeed_dispatch item d w1 iv"
  using assms by (simp add: wavespeed_body_def)

lemma wavespeed_body_no_reply:
  assumes "http nt (GET u) w = (NoReply, w1)"
  shows "wavespeed_body nt u item w iv = Again (sleep iv w1) iv"
  using assms by (simp add: wavespeed_body_def)

lemma fal_body_answered:
  assumes "http nt (GET u) w = (Reply code (Some d) raw, w1)" "code \<noteq> 400" "\<not> http_error code"
  shows "fal_body nt u item w iv = fal_dispatch nt item d w1 iv"
  using assms by (simp add: fal_body_def)

lemma fal_body_no_reply:
  assumes "http nt (GET u) w = (NoReply, w1)"
  shows "fal_body nt u item w iv = Again (sleep iv w1) iv"
  using assms by (simp add: fal_body_def)

lemma http_at:
  assumes "nt (length (requests w)) = (lat, rep)"
  shows "http nt q w = (rep, w\<lparr>clock := clock w + lat, requests := requests w @ [q]\<rparr>)"
  using assms by (simp add: http_def)

lemma wavespeed_body_http_error:
  assumes "http nt (GET u) w = (Reply code body raw, w1)" "http_error code"
  shows "wavespeed_body nt u item w iv = Again (sleep iv w1) iv"
  using assms by (simp add: wavespeed_body_def)

lemma fal_body_http_error:
  assumes "http nt (GET u) w = (Reply code body raw, w1)" "http_error code" "code \<noteq> 400"
  shows "fal_body nt u item w iv = Again (sleep iv w1) iv"
  using assms by (simp add: fal_body_def)

lemma fal_body_still_in_progress:
  assumes "http nt (GET u) w = (Reply 400 body raw, w1)" "still_in_progress body"
  shows "fal_body nt u item w iv = Again (sleep iv w1) (min (iv + 2) 15)"
  using assms by (simp add: fal_body_def)

lemma grows_refl: "grows P w w"
  by (simp add: grows_def)

lemma grows_trans: "grows P w w1 \<Longrightarrow> grows P w1 w2 \<Longrightarrow> grows P w w2"
  by (auto simp: grows_def)

lemma grows_mono: "grows P w w' \<Longrightarrow> (\<And>q. P q \<Longrightarrow> Q q) \<Longrightarrow> grows Q w w'"
  by (auto simp: grows_def list_all_iff)

lemma poll_post_grows: "poll_post u w w' \<Longrightarrow> grows is_get w w'"
  unfolding poll_post_def grows_def list_all_iff by (elim conjE exE) fastforce

lemma poll_fal_grows:
  "poll_fal_completion nt rid item b mw w = Some (r, w') \<Longrightarrow> grows is_get w w'"
  by (rule poll_post_grows[OF poll_fal_summary(1)])

lemma poll_wavespeed_grows:
  "poll_wavespeed_completion nt pid item mw w = Some (r, w') \<Longrightarrow> grows is_get w w'"
  by (rule poll_post_grows[OF poll_wavespeed_summary(1)])

lemma post_json_grows:
  assumes "post_json nt (Url u) p w = (r, w1)"
  shows "grows (\<lambda>q. submits_to u q \<or> is_get q) w w1"
  using post_json_world[OF assms] by (simp add: grows_def)

lemma clips_loop_grows:
  "clips_loop nt vi i scenes acc w = Some (r, w') \<Longrightarrow>
     grows (\<lambda>q. submits_to wavespeed_url q \<or> is_get q) w w'"
proof (induction scenes arbitrary: i acc w)
  case Nil
  then show ?case by (simp add: grows_refl)
next
  case (Cons scene rest)
  let ?P = "\<lambda>q. submits_to wavespeed_url q \<or> is_get q"
  obtain r1 w1 where post: "post_json nt (Url wavespeed_url) (clip_payload vi scene) w = (r1, w1)"
    by (cases "post_json nt (Url wavespeed_url) (clip_payload vi scene) w") auto
  note g1 = post_json_grows[OF post]
  show ?case
  proof (cases "\<exists>result pid. r1 = Inr result \<and> ebind (py_item result ''data'') (\<lambda>d. py_item d ''id'') = Inr pid")
    case False
    with Cons.prems post have "w' = w1" by (auto split: sum.splits)
    with g1 show ?thesis by simp
  next
    case True
    then obtain result pid where r1: "r1 = Inr result"
      and pid: "ebind (py_item result ''data'') (\<lambda>d. py_item d ''id'') = Inr pid" by blast
    let ?poll = "poll_wavespeed_completion nt pid (''clip '' @ str_of_nat (i + 1)) 300 w1"
    from poll_wavespeed_halts obtain r2 w2 where poll: "?poll = Some (r2, w2)" by (metis surj_pair)
    from poll_wavespeed_grows[OF poll] have g2: "grows ?P w1 w2" by (rule grows_mono) simp
    show ?thesis
    proof (cases r2)
      case (Inl e)
      with Cons.prems post r1 pid poll have "w' = w2" by simp
      with g1 g2 show ?thesis by (auto intro: grows_trans)
    next
      case (Inr video_url)
      with Cons.prems post r1 pid poll
      have "clips_loop nt vi (i + 1) rest (acc @ [video_url]) w2 = Some (r, w')" by simp
      from Cons.IH[OF this] g1 g2 show ?thesis by (auto intro: grows_trans)
    qed
  qed
qed

lemma clips_loop_halts: "\<exists>y. clips_loop nt vi i scenes acc w = Some y"
proof (induction scenes arbitrary: i acc w)
  case Nil
  show ?case by simp
next
  case (Cons scene rest)
  obtain r1 w1 where post: "post_json nt (Url wavespeed_url) (clip_payload vi scene) w = (r1, w1)"
    by (cases "post_json nt (Url wavespeed_url) (clip_payload vi scene) w") auto
  show ?case
  proof (cases "\<exists>result pid. r1 = Inr result \<and> ebind (py_item result ''data'') (\<lambda>d. py_item d ''id'') = Inr pid")
    case False
    with post show ?thesis by (auto split: sum.splits)
  next
    case True
    then obtain result pid where r1: "r1 = Inr result"
      and pid: "ebind (py_item result ''data'') (\<lambda>d. py_item d ''id'') = Inr pid" by blast
    from poll_wavespeed_halts obtain r2 w2 where
      poll: "poll_wavespeed_completion nt pid (''clip '' @ str_of_nat (i + 1)) 300 w1 = Some (r2, w2)"
      by (metis surj_pair)
    show ?thesis
    proof (cases r2)
      case (Inl e)
      with post r1 pid poll show ?thesis by simp
    next
      case (Inr video_url)
      with post r1 pid poll Cons.IH[of "i + 1" "acc @ [video_url]" w2] show ?thesis by simp
    qed
  qed
qed

lemma generate_asmr_sound_halts: "\<exists>y. generate_asmr_sound nt v vi w = Some y"
proof -
  obtain r1 w1 where post: "post_json nt (Url fal_audio_url) (sound_payload v vi) w = (r1, w1)"
    by (cases "post_json nt (Url fal_audio_url) (sound_payload v vi) w") auto
  show ?thesis
  proof (cases "\<exists>result rid. r1 = Inr result \<and> py_item result ''request_id'' = Inr rid")
    case False
    with post show ?thesis by (auto simp: generate_asmr_sound_def split: sum.splits)
  next
    case True
    then obtain result rid where "r1 = Inr result" "py_item result ''request_id'' = Inr rid" by blast
    with post poll_fal_halts[of nt rid "''ASMR sound''" _ 300 w1] show ?thesis
      by (simp add: generate_asmr_sound_def)
  qed
qed

lemma generate_asmr_sound_grows:
  assumes "generate_asmr_sound nt v vi w = Some (r, w')"
  shows "grows (\<lambda>q. submits_to fal_audio_url q \<or> is_get q) w w'"
proof -
  let ?P = "\<lambda>q. submits_to fal_audio_url q \<or> is_get q"
  obtain r1 w1 where post: "post_json nt (Url fal_audio_url) (sound_payload v vi) w = (r1, w1)"
    by (cases "post_json nt (Url fal_audio_url) (sound_payload v vi) w") auto
  note g1 = post_json_grows[OF post]
  show ?thesis
  proof (cases "\<exists>result rid. r1 = Inr result \<and> py_item result ''request_id'' = Inr rid")
    case False
    with assms post have "w' = w1" by (auto simp: generate_asmr_sound_def split: sum.splits)
    with g1 show ?thesis by simp
  next
    case True
    then obtain result rid where "r1 = Inr result" "py_item result ''request_id'' = Inr rid" by blast
    with assms post have "poll_fal_completion nt rid ''ASMR sound''
        ''https://queue.fal.run/fal-ai/mmaudio-v2/requests/'' 300 w1 = Some (r, w')"
      by (simp add: generate_asmr_sound_def)
    from poll_fal_grows[OF this] have "grows ?P w1 w'" by (rule grows_mono) simp
    with g1 show ?thesis by (rule grows_trans)
  qed
qed

lemma sounds_loop_result:
  "\<exists>w'. sounds_loop nt vi vs acc w =
     Some (acc @ map sound_entry (sound_outcomes nt vi vs w), w') \<and>
     length (sound_outcomes nt vi vs w) = length vs \<and>
     grows (\<lambda>q. submits_to fal_audio_url q \<or> is_get q) w w'"
proof (induction vs arbitrary: acc w)
  case Nil
  show ?case by (simp add: grows_refl)
next
  case (Cons v rest)
  from generate_asmr_sound_halts obtain r w1 where
    call: "generate_asmr_sound nt v vi w = Some (r, w1)" by (metis surj_pair)
  note g1 = generate_asmr_sound_grows[OF call]
  from Cons.IH[of "acc @ [sound_entry r]" w1] obtain w' where
    ih: "sounds_loop nt vi rest (acc @ [sound_entry r]) w1 =
       Some ((acc @ [sound_entry r]) @ map sound_entry (sound_outcomes nt vi rest w1), w')"
      "length (sound_outcomes nt vi rest w1) = length rest"
      "grows (\<lambda>q. submits_to fal_audio_url q \<or> is_get q) w1 w'" by blast
  have "sounds_loop nt vi (v # rest) acc w = sounds_loop nt vi rest (acc @ [sound_entry r]) w1"
    using call by (cases r) (simp_all add: sound_entry_def)
  with ih call g1 show ?case by (auto intro: grows_trans)
qed

lemma job_wrote_set_job:
  assumes "job_of s job_id = Some j"
  shows "job_wrote job_id s [f j] (set_job job_id f s)"
proof -
  from assms have k: "job_id \<in> fst ` set (active_jobs s)"
    by (auto simp: job_of_def dest: map_of_SomeD intro: rev_image_eqI)
  then have "map fst (AList.update job_id (f j) (active_jobs s)) = map fst (active_jobs s)"
    by (simp add: update_keys)
  with assms show ?thesis
    by (simp add: job_wrote_def set_job_def job_of_def update_conv')
qed

lemma job_wrote_trans:
  assumes "job_wrote job_id s js s1" "job_wrote job_id s1 js' s2"
  shows "job_wrote job_id s (js @ js') s2"
  using assms by (auto simp: job_wrote_def)

lemma processing_writes_start:
  assumes "job_of s job_id = Some j"
  shows "processing_writes job_id s (set_job job_id (\<lambda>j. j\<lparr>status := ''processing''\<rparr>) s)"
  unfolding processing_writes_def
  using job_wrote_set_job[OF assms, of "\<lambda>j. j\<lparr>status := ''processing''\<rparr>"]
  by (intro exI[of _ "[j\<lparr>status := ''processing''\<rparr>]"]) simp

lemma processing_writes_progress:
  assumes "processing_writes job_id s s1"
  shows "processing_writes job_id s (set_progress job_id msg s1)"
proof -
  from assms obtain js where js: "js \<noteq> []" "job_wrote job_id s js s1"
    "\<forall>j\<in>set js. status j = ''processing''" by (auto simp: processing_writes_def)
  then have cur: "job_of s1 job_id = Some (last js)" by (simp add: job_wrote_def)
  from job_wrote_set_job[OF cur, of "\<lambda>j. j\<lparr>progress := Progress msg\<rparr>"]
  have "job_wrote job_id s1 [(last js)\<lparr>progress := Progress msg\<rparr>] (set_progress job_id msg s1)"
    by (simp add: set_progress_def)
  from job_wrote_trans[OF js(2) this] js(1,3) show ?thesis
    unfolding processing_writes_def
    by (intro exI[of _ "js @ [(last js)\<lparr>progress := Progress msg\<rparr>]"]) auto
qed

lemma merge_video_clips_halts: "\<exists>y. merge_video_clips nt vus sus w = Some y"
proof -
  obtain r1 w1 where post: "post_json nt (Url fal_ffmpeg_url) (compose_payload vus sus) w = (r1, w1)"
    by (cases "post_json nt (Url fal_ffmpeg_url) (compose_payload vus sus) w") auto
  show ?thesis
  proof (cases "\<exists>result rid. r1 = Inr result \<and> py_item result ''request_id'' = Inr rid")
    case False
    with post show ?thesis by (auto simp: merge_video_clips_def split: sum.splits)
  next
    case True
    then obtain result rid where "r1 = Inr result" "py_item result ''request_id'' = Inr rid" by blast
    with post poll_fal_halts[of nt rid "''video rendering''" _ 300 w1] show ?thesis
      by (simp add: merge_video_clips_def)
  qed
qed

lemma merge_video_clips_requests:
  assumes "merge_video_clips nt vus sus w = Some (r, w')"
  shows "\<exists>qs. requests w' = requests w @ POST (Url fal_ffmpeg_url) (compose_payload vus sus) # qs \<and>
           list_all is_get qs"
    and "metadata_files w' = metadata_files w"
proof -
  obtain r1 w1 where post: "post_json nt (Url fal_ffmpeg_url) (compose_payload vus sus) w = (r1, w1)"
    by (cases "post_json nt (Url fal_ffmpeg_url) (compose_payload vus sus) w") auto
  note pw = post_json_world[OF post]
  have "(\<exists>qs. requests w' = requests w @ POST (Url fal_ffmpeg_url) (compose_payload vus sus) # qs \<and>
           list_all is_get qs) \<and> metadata_files w' = metadata_files w"
  proof (cases "\<exists>result rid. r1 = Inr result \<and> py_item result ''request_id'' = Inr rid")
    case False
    with assms post have "w' = w1" by (auto simp: merge_video_clips_def split: sum.splits)
    with pw show ?thesis by simp
  next
    case True
    then obtain result rid where "r1 = Inr result" "py_item result ''request_id'' = Inr rid" by blast
    with assms post have "poll_fal_completion nt rid ''video rendering''
        ''https://queue.fal.run/fal-ai/ffmpeg-api/requests/'' 300 w1 = Some (r, w')"
      by (simp add: merge_video_clips_def)
    from poll_fal_grows[OF this] pw show ?thesis by (auto simp: grows_def)
  qed
  then show "\<exists>qs. requests w' = requests w @ POST (Url fal_ffmpeg_url) (compose_payload vus sus) # qs \<and>
           list_all is_get qs" and "metadata_files w' = metadata_files w" by simp_all
qed

lemma download_world:
  assumes "download_and_save_video ev final job_id w = (r, w')"
  shows "requests w' = requests w @ [GET (UrlOf final)]" "metadata_files w' = metadata_files w"
proof -
  obtain rep w1 where h: "http (net ev) (GET (UrlOf final)) w = (rep, w1)"
    by (cases "http (net ev) (GET (UrlOf final)) w") auto
  from assms h have "requests w' = requests w1 \<and> metadata_files w' = metadata_files w1"
    by (auto simp: download_and_save_video_def Let_def split: reply.splits if_splits option.splits)
  with http_world[OF h] show "requests w' = requests w @ [GET (UrlOf final)]"
    "metadata_files w' = metadata_files w" by simp_all
qed

lemma finish_generation_completed:
  assumes "finish_generation ev job_id inc vi scenes vus sus s w = Some (x, s', w')"
    and "merge_video_clips (net ev) vus sus w = Some (Inr final, w1)"
    and "download_and_save_video ev final job_id w1 = (Inr fname, w2)"
    and "metadata_save ev = None"
  shows "x = None \<and> s' = completed_server job_id vi final fname s \<and>
     w' = w2\<lparr>metadata_files := metadata_files w2 @
            [(job_id @ ''.json'', metadata_of ev job_id vi scenes vus sus final fname inc)]\<rparr>"
  using assms
  apply (simp add: finish_generation_def save_metadata_def)
  apply (simp add: completed_server_def)
  done

lemma finish_generation_cases:
  assumes "finish_generation ev job_id inc vi scenes vus sus s w = Some (x, s', w')"
  obtains
    (merge_failed) e where "merge_video_clips (net ev) vus sus w = Some (Inl e, w')" "x = Some e"
      "s' = set_progress job_id ''Merging video clips into final video...'' s"
  | (download_failed) final w1 e where "merge_video_clips (net ev) vus sus w = Some (Inr final, w1)"
      "download_and_save_video ev final job_id w1 = (Inl e, w')" "x = Some e"
      "s' = set_progress job_id ''Downloading and saving final video...''
              (set_progress job_id ''Merging video clips into final video...'' s)"
  | (metadata_failed) final w1 fname e where "merge_video_clips (net ev) vus sus w = Some (Inr final, w1)"
      "download_and_save_video ev final job_id w1 = (Inr fname, w')" "metadata_save ev = Some e"
      "x = Some e"
      "s' = set_progress job_id ''Downloading and saving final video...''
              (set_progress job_id ''Merging video clips into final video...'' s)"
  | (completed) final w1 fname w2 where "merge_video_clips (net ev) vus sus w = Some (Inr final, w1)"
      "download_and_save_video ev final job_id w1 = (Inr fname, w2)" "metadata_save ev = None"
      "x = None" "s' = completed_server job_id vi final fname s"
      "w' = w2\<lparr>metadata_files := metadata_files w2 @
                 [(job_id @ ''.json'', metadata_of ev job_id vi scenes vus sus final fname inc)]\<rparr>"
proof -
  from merge_video_clips_halts obtain r1 w1 where
    m: "merge_video_clips (net ev) vus sus w = Some (r1, w1)" by (metis surj_pair)
  show ?thesis
  proof (cases r1)
    case (Inl e)
    with m have m': "merge_video_clips (net ev) vus sus w = Some (Inl e, w1)" by simp
    have "x = Some e \<and> w' = w1 \<and>
      s' = set_progress job_id ''Merging video clips into final video...'' s"
      using assms m' by (simp add: finish_generation_def)
    with m' show ?thesis by (intro merge_failed[of e]) blast+
  next
    case (Inr final)
    with m have m': "merge_video_clips (net ev) vus sus w = Some (Inr final, w1)" by simp
    obtain r2 w2 where d: "download_and_save_video ev final job_id w1 = (r2, w2)"
      by (cases "download_and_save_video ev final job_id w1") auto
    show ?thesis
    proof (cases r2)
      case (Inl e)
      with d have d': "download_and_save_video ev final job_id w1 = (Inl e, w2)" by simp
      have "x = Some e \<and> w' = w2 \<and>
        s' = set_progress job_id ''Downloading and saving final video...''
              (set_progress job_id ''Merging video clips into final video...'' s)"
        using assms m' d' by (simp add: finish_generation_def)
      with m' d' show ?thesis by (intro download_failed[of final w1 e]) blast+
    next
      case fn: (Inr fname)
      with d have d': "download_and_save_video ev final job_id w1 = (Inr fname, w2)" by simp
      show ?thesis
      proof (cases "metadata_save ev")
        case (Some e)
        have "x = Some e \<and> w' = w2 \<and>
          s' = set_progress job_id ''Downloading and saving final video...''
              (set_progress job_id ''Merging video clips into final video...'' s)"
          using assms m' d' Some by (simp add: finish_generation_def save_metadata_def)
        with m' d' Some show ?thesis by (intro metadata_failed[of final w1 fname e]) blast+
      next
        case None
        from finish_generation_completed[OF assms m' d' None]
        have "x = None" "s' = completed_server job_id vi final fname s"
          "w' = w2\<lparr>metadata_files := metadata_files w2 @
                 [(job_id @ ''.json'', metadata_of ev job_id vi scenes vus sus final fname inc)]\<rparr>"
          by blast+
        with m' d' None show ?thesis by (intro completed[of final w1 fname w2])
      qed
    qed
  qed
qed

lemma finish_generation_halts:
  "\<exists>y. finish_generation ev job_id inc vi scenes vus sus s w = Some y"
proof -
  from merge_video_clips_halts obtain r1 w1 where
    m: "merge_video_clips (net ev) vus sus w = Some (r1, w1)" by (metis surj_pair)
  then show ?thesis
    by (cases r1) (auto simp: finish_generation_def Let_def split: prod.splits sum.splits)
qed

lemma sound_stage_halts: "\<exists>y. sound_stage ev job_id inc vi vus s w = Some y"
  using sounds_loop_result[of "net ev" vi vus "[]" w]
  by (auto simp: sound_stage_def)

lemma sound_stage_cases:
  assumes "sound_stage ev job_id inc vi vus s w = Some (sus, s', w')"
  obtains (with_sound) "inc" "vus \<noteq> []"
      "sounds_loop (net ev) vi vus [] w = Some (sus, w')"
      "s' = set_progress job_id ''Generating ASMR sounds...'' s"
  | (without_sound) "\<not> (inc \<and> vus \<noteq> [])" "sus = replicate (length vus) JNull" "s' = s" "w' = w"
  using assms by (auto simp: sound_stage_def split: if_splits option.splits)

lemma video_generation_body_finishing:
  assumes "video_generation_body ev job_id inc s w = Some y"
    and "generator_init ev = None"
      "generate_creative_video_idea ev = Inr vi"
      "generate_detailed_video_prompts ev vi = Inr scenes"
      "generate_video_clips (net ev) scenes vi w = Some (Inr vus, w1)"
      "sound_stage ev job_id inc vi vus (clips_server job_id s) w1 = Some (sus, s5, w2)"
  shows "finish_generation ev job_id inc vi scenes vus sus s5 w2 = Some y"
  using assms
  apply (simp add: video_generation_body_def clips_server_def started_server_def)
  done

lemma video_generation_body_finishing':
  assumes "finish_generation ev job_id inc vi scenes vus sus s5 w2 = Some y"
    and "generator_init ev = None"
      "generate_creative_video_idea ev = Inr vi"
      "generate_detailed_video_prompts ev vi = Inr scenes"
      "generate_video_clips (net ev) scenes vi w = Some (Inr vus, w1)"
      "sound_stage ev job_id inc vi vus (clips_server job_id s) w1 = Some (sus, s5, w2)"
  shows "video_generation_body ev job_id inc s w = Some y"
  using assms
  apply (simp add: video_generation_body_def clips_server_def started_server_def)
  done

lemma video_generation_body_cases:
  assumes "video_generation_body ev job_id inc s w = Some (x, s', w')"
  obtains
    (init_failed) e where "generator_init ev = Some e" "x = Some e" "w' = w"
      "s' = started_server job_id s"
  | (idea_failed) e where "generator_init ev = None" "generate_creative_video_idea ev = Inl e"
      "x = Some e" "w' = w"
      "s' = set_progress job_id ''Generating creative video idea...'' (started_server job_id s)"
  | (scenes_failed) vi e where "generator_init ev = None" "generate_creative_video_idea ev = Inr vi"
      "generate_detailed_video_prompts ev vi = Inl e" "x = Some e" "w' = w"
      "s' = set_progress job_id ''Creating detailed video scenes...''
              (set_progress job_id ''Generating creative video idea...'' (started_server job_id s))"
  | (clips_failed) vi scenes e where "generator_init ev = None"
      "generate_creative_video_idea ev = Inr vi"
      "generate_detailed_video_prompts ev vi = Inr scenes"
      "generate_video_clips (net ev) scenes vi w = Some (Inl e, w')" "x = Some e"
      "s' = clips_server job_id s"
  | (finishing) vi scenes vus w1 sus s5 w2 where "generator_init ev = None"
      "generate_creative_video_idea ev = Inr vi"
      "generate_detailed_video_prompts ev vi = Inr scenes"
      "generate_video_clips (net ev) scenes vi w = Some (Inr vus, w1)"
      "sound_stage ev job_id inc vi vus (clips_server job_id s) w1 = Some (sus, s5, w2)"
      "finish_generation ev job_id inc vi scenes vus sus s5 w2 = Some (x, s', w')"
proof (cases "generator_init ev")
  case (Some e)
  have "x = Some e \<and> w' = w \<and> s' = started_server job_id s"
    using assms Some by (simp add: video_generation_body_def started_server_def)
  with Some show ?thesis by (intro init_failed[of e]) blast+
next
  case None
  show ?thesis
  proof (cases "generate_creative_video_idea ev")
    case (Inl e)
    have "x = Some e \<and> w' = w \<and>
      s' = set_progress job_id ''Generating creative video idea...'' (started_server job_id s)"
      using assms None Inl by (simp add: video_generation_body_def started_server_def)
    with None Inl show ?thesis by (intro idea_failed[of e]) blast+
  next
    case (Inr vi)
    show ?thesis
    proof (cases "generate_detailed_video_prompts ev vi")
      case (Inl e)
      have "x = Some e \<and> w' = w \<and>
        s' = set_progress job_id ''Creating detailed video scenes...''
              (set_progress job_id ''Generating creative video idea...'' (started_server job_id s))"
        using assms None Inr Inl by (simp add: video_generation_body_def started_server_def)
      with None Inr Inl show ?thesis by (intro scenes_failed[of vi e]) blast+
    next
      case sc: (Inr scenes)
      from clips_loop_halts obtain r1 w1 where
        c: "generate_video_clips (net ev) scenes vi w = Some (r1, w1)"
        unfolding generate_video_clips_def by (metis surj_pair)
      show ?thesis
      proof (cases r1)
        case (Inl e)
        with c have c': "generate_video_clips (net ev) scenes vi w = Some (Inl e, w1)" by simp
        have "x = Some e \<and> w' = w1 \<and> s' = clips_server job_id s"
          using assms None Inr sc c'
          by (simp add: video_generation_body_def started_server_def clips_server_def)
        with None Inr sc c' show ?thesis by (intro clips_failed[of vi scenes e]) blast+
      next
        case vu: (Inr vus)
        from sound_stage_halts obtain sus s5 w2 where
          ss: "sound_stage ev job_id inc vi vus (clips_server job_id s) w1 = Some (sus, s5, w2)"
          by (metis surj_pair)
        have c': "generate_video_clips (net ev) scenes vi w = Some (Inr vus, w1)"
          using c vu by simp
        have "finish_generation ev job_id inc vi scenes vus sus s5 w2 = Some (x, s', w')"
          by (rule video_generation_body_finishing[OF assms None Inr sc c' ss])
        with None Inr sc c' ss show ?thesis
          by (intro finishing[of vi scenes vus w1 sus s5 w2])
      qed
    qed
  qed
qed

lemma video_generation_body_halts: "\<exists>y. video_generation_body ev job_id inc s w = Some y"
proof (cases "generator_init ev")
  case (Some e)
  then show ?thesis by (simp add: video_generation_body_def)
next
  case None
  show ?thesis
  proof (cases "generate_creative_video_idea ev")
    case (Inl e)
    with None show ?thesis by (simp add: video_generation_body_def)
  next
    case (Inr vi)
    show ?thesis
    proof (cases "generate_detailed_video_prompts ev vi")
      case (Inl e)
      with None Inr show ?thesis by (simp add: video_generation_body_def)
    next
      case sc: (Inr scenes)
      from clips_loop_halts obtain r1 w1 where
        c: "generate_video_clips (net ev) scenes vi w = Some (r1, w1)"
        unfolding generate_video_clips_def by (metis surj_pair)
      show ?thesis
      proof (cases r1)
        case (Inl e)
        with None Inr sc c show ?thesis by (simp add: video_generation_body_def)
      next
        case vu: (Inr vus)
        from sound_stage_halts obtain sus s5 w2 where
          ss: "sound_stage ev job_id inc vi vus (clips_server job_id s) w1 = Some (sus, s5, w2)"
          by (metis surj_pair)
        have c': "generate_video_clips (net ev) scenes vi w = Some (Inr vus, w1)"
          using c vu by simp
        from finish_generation_halts obtain y where
          "finish_generation ev job_id inc vi scenes vus sus s5 w2 = Some y" by blast
        from video_generation_body_finishing'[OF this None Inr sc c' ss]
        show ?thesis by blast
      qed
    qed
  qed
qed

lemma run_video_generation_halts: "\<exists>y. run_video_generation ev job_id cp inc s w = Some y"
  using video_generation_body_halts[of ev job_id inc s w]
  by (auto simp: run_video_generation_def split: option.splits)

lemma processing_writes_started:
  assumes "job_of s job_id = Some j"
  shows "processing_writes job_id s (started_server job_id s)"
  unfolding started_server_def
  by (intro processing_writes_progress processing_writes_start[OF assms])

lemma processing_writes_clips:
  assumes "job_of s job_id = Some j"
  shows "processing_writes job_id s (clips_server job_id s)"
  unfolding clips_server_def
  by (intro processing_writes_progress processing_writes_started[OF assms])

lemma job_wrote_current:
  assumes "job_wrote job_id s js s1" "js \<noteq> []"
  shows "job_of s1 job_id = Some (last js)"
  using assms by (simp add: job_wrote_def)

lemma terminal_writes:
  assumes pw: "processing_writes job_id s s1"
    and f1: "status (f1 j1) = X" "\<And>j. status (f2 j) = status j" "\<And>j. status (f3 j) = status j"
    and j1: "\<And>js. job_wrote job_id s js s1 \<Longrightarrow> js \<noteq> [] \<Longrightarrow> j1 = last js"
  shows "\<exists>js n. job_wrote job_id s js (set_job job_id f3 (set_job job_id f2 (set_job job_id f1 s1))) \<and>
     0 < n \<and> map status js = replicate n ''processing'' @ replicate 3 X \<and>
     last js = f3 (f2 (f1 j1))"
proof -
  from pw obtain js where js: "js \<noteq> []" "job_wrote job_id s js s1"
    "\<forall>j\<in>set js. status j = ''processing''" by (auto simp: processing_writes_def)
  from j1[OF js(2,1)] have l: "j1 = last js" .
  let ?a = "f1 j1" and ?b = "f2 (f1 j1)" and ?c = "f3 (f2 (f1 j1))"
  have c0: "job_of s1 job_id = Some j1" using job_wrote_current[OF js(2,1)] l by simp
  from job_wrote_set_job[OF c0, of f1]
  have w1: "job_wrote job_id s1 [?a] (set_job job_id f1 s1)" .
  then have c1: "job_of (set_job job_id f1 s1) job_id = Some ?a" by (simp add: job_wrote_def)
  from job_wrote_set_job[OF c1, of f2]
  have w2: "job_wrote job_id (set_job job_id f1 s1) [?b] (set_job job_id f2 (set_job job_id f1 s1))" .
  then have c2: "job_of (set_job job_id f2 (set_job job_id f1 s1)) job_id = Some ?b"
    by (simp add: job_wrote_def)
  from job_wrote_set_job[OF c2, of f3]
  have w3: "job_wrote job_id (set_job job_id f2 (set_job job_id f1 s1)) [?c]
      (set_job job_id f3 (set_job job_id f2 (set_job job_id f1 s1)))" .
  from job_wrote_trans[OF job_wrote_trans[OF job_wrote_trans[OF js(2) w1] w2] w3]
  have "job_wrote job_id s (js @ [?a, ?b, ?c])
      (set_job job_id f3 (set_job job_id f2 (set_job job_id f1 s1)))" by simp
  moreover have "map status js = replicate (length js) ''processing''"
    using js(3) by (simp add: map_replicate_const[symmetric] cong: map_cong)
  then have "map status (js @ [?a, ?b, ?c]) = replicate (length js) ''processing'' @ replicate 3 X"
    using f1 by (simp add: numeral_3_eq_3)
  moreover have "0 < length js" using js(1) by simp
  ultimately show ?thesis by (intro exI[of _ "js @ [?a, ?b, ?c]"] exI[of _ "length js"]) simp
qed

lemma completed_server_writes:
  assumes "processing_writes job_id s s5"
  shows "\<exists>js n. job_wrote job_id s js (completed_server job_id vi final fname s5) \<and> 0 < n \<and>
     map status js = replicate n ''processing'' @ replicate 3 ''completed'' \<and>
     result (last js) = Some (job_result job_id vi final fname)"
proof -
  let ?s = "set_progress job_id ''Downloading and saving final video...''
                (set_progress job_id ''Merging video clips into final video...'' s5)"
  have pw: "processing_writes job_id s ?s"
    by (intro processing_writes_progress assms)
  then obtain js0 where js0: "js0 \<noteq> []" "job_wrote job_id s js0 ?s"
    by (auto simp: processing_writes_def)
  have uniq: "\<And>js. job_wrote job_id s js ?s \<Longrightarrow> js \<noteq> [] \<Longrightarrow> last js0 = last js"
    using js0 by (simp add: job_wrote_def)
  from terminal_writes[OF pw, of "\<lambda>j. j\<lparr>status := ''completed''\<rparr>" "last js0" "''completed''"
      "\<lambda>j. j\<lparr>progress := Progress ''Video generation completed successfully!''\<rparr>"
      "\<lambda>j. j\<lparr>result := Some (job_result job_id vi final fname)\<rparr>"] uniq
  show ?thesis
    by (fastforce simp add: completed_server_def set_progress_def)
qed

lemma fail_job_writes:
  assumes pw: "processing_writes job_id s s1"
  shows "\<exists>js n. job_wrote job_id s js (fail_job job_id e s1) \<and> 0 < n \<and>
     map status js = replicate n ''processing'' @ replicate 3 ''failed'' \<and>
     error (last js) = Some e"
proof -
  from pw obtain js0 where js0: "js0 \<noteq> []" "job_wrote job_id s js0 s1"
    by (auto simp: processing_writes_def)
  have uniq: "\<And>js. job_wrote job_id s js s1 \<Longrightarrow> js \<noteq> [] \<Longrightarrow> last js0 = last js"
    using js0 by (simp add: job_wrote_def)
  from terminal_writes[OF pw, of "\<lambda>j. j\<lparr>status := ''failed''\<rparr>" "last js0" "''failed''"
      "\<lambda>j. j\<lparr>progress := GenerationFailedText e\<rparr>"
      "\<lambda>j. j\<lparr>error := Some e\<rparr>"] uniq
  show ?thesis
    by (fastforce simp add: fail_job_def)
qed

lemma sound_stage_processing:
  assumes "processing_writes job_id s s4" "sound_stage ev job_id inc vi vus s4 w = Some (sus, s5, w')"
  shows "processing_writes job_id s s5"
  using assms(2)
proof (cases rule: sound_stage_cases)
  case with_sound
  with assms(1) show ?thesis by (simp add: processing_writes_progress)
next
  case without_sound
  with assms(1) show ?thesis by simp
qed

lemma finish_generation_writes:
  assumes pw: "processing_writes job_id s s5"
    and fin: "finish_generation ev job_id inc vi scenes vus sus s5 w = Some (x, s', w')"
  shows "(\<exists>e. x = Some e \<and> processing_writes job_id s s') \<or>
     (x = None \<and> (\<exists>js n. job_wrote job_id s js s' \<and> 0 < n \<and>
        map status js = replicate n ''processing'' @ replicate 3 ''completed''))"
  using fin
proof (cases rule: finish_generation_cases)
  case (merge_failed e)
  with pw show ?thesis by (simp add: processing_writes_progress)
next
  case (download_failed final w1 e)
  with pw show ?thesis by (simp add: processing_writes_progress)
next
  case (metadata_failed final w1 fname e)
  with pw show ?thesis by (simp add: processing_writes_progress)
next
  case (completed final w1 fname w2)
  with completed_server_writes[OF pw, of vi final fname] show ?thesis by blast
qed

lemma video_generation_body_writes:
  assumes reg: "job_of s job_id = Some j"
    and body: "video_generation_body ev job_id inc s w = Some (x, s', w')"
  shows "(\<exists>e. x = Some e \<and> processing_writes job_id s s') \<or>
     (x = None \<and> (\<exists>js n. job_wrote job_id s js s' \<and> 0 < n \<and>
        map status js = replicate n ''processing'' @ replicate 3 ''completed''))"
  using body
proof (cases rule: video_generation_body_cases)
  case (init_failed e)
  with processing_writes_started[OF reg] show ?thesis by simp
next
  case (idea_failed e)
  with processing_writes_started[OF reg] show ?thesis by (simp add: processing_writes_progress)
next
  case (scenes_failed vi e)
  with processing_writes_started[OF reg] show ?thesis by (simp add: processing_writes_progress)
next
  case (clips_failed vi scenes e)
  with processing_writes_clips[OF reg] show ?thesis by simp
next
  case (finishing vi scenes vus w1 sus s5 w2)
  from sound_stage_processing[OF processing_writes_clips[OF reg] finishing(5)]
  have "processing_writes job_id s s5" .
  from finish_generation_writes[OF this finishing(6)] show ?thesis .
qed

lemma run_video_generation_writes:
  assumes reg: "job_of s job_id = Some j"
    and run: "run_video_generation ev job_id cp inc s w = Some (x, s', w')"
  shows "x = None \<and> (\<exists>js n X. job_wrote job_id s js s' \<and> 0 < n \<and>
     (X = ''completed'' \<or> X = ''failed'') \<and>
     map status js = replicate n ''processing'' @ replicate 3 X)"
proof -
  from video_generation_body_halts obtain x1 s1 w1 where
    body: "video_generation_body ev job_id inc s w = Some (x1, s1, w1)" by (metis surj_pair)
  from video_generation_body_writes[OF reg body]
  show ?thesis
  proof
    assume "\<exists>e. x1 = Some e \<and> processing_writes job_id s s1"
    then obtain e where e: "x1 = Some e" and pw: "processing_writes job_id s s1" by blast
    from run reg body e have "x = None" "s' = fail_job job_id e s1"
      by (simp_all add: run_video_generation_def job_of_def)
    with fail_job_writes[OF pw, of e] show ?thesis by blast
  next
    assume a: "x1 = None \<and> (\<exists>js n. job_wrote job_id s js s1 \<and> 0 < n \<and>
        map status js = replicate n ''processing'' @ replicate 3 ''completed'')"
    with run reg body have "x = None" "s' = s1"
      by (simp_all add: run_video_generation_def job_of_def)
    with a show ?thesis by blast
  qed
qed

lemma sound_stage_with_sound:
  assumes "sounds_loop (net ev) vi vus [] w = Some (sus, w')"
  shows "\<exists>s5. sound_stage ev job_id True vi vus s w = Some (sus, s5, w') \<and>
     (s5 = s \<or> s5 = set_progress job_id ''Generating ASMR sounds...'' s)"
proof (cases "vus = []")
  case True
  with assms show ?thesis by (simp add: sound_stage_def)
next
  case False
  with assms show ?thesis by (simp add: sound_stage_def)
qed

lemma audio_keyframes_empty:
  "audio_keyframes sus = [] \<longleftrightarrow> \<not> list_ex truthy sus"
proof -
  have "set (map snd (enumerate 0 sus)) = set sus" by (simp add: map_snd_enumerate)
  then have "(\<forall>p\<in>set (enumerate 0 sus). \<not> truthy (snd p)) \<longleftrightarrow> (\<forall>u\<in>set sus. \<not> truthy u)"
    by (metis (no_types, lifting) image_iff set_map)
  then show ?thesis
    by (simp add: audio_keyframes_def filter_empty_conv list_ex_iff)
qed

lemma compose_tracks_eq:
  "compose_tracks vus sus =
     (if list_ex truthy sus then [video_track vus, audio_track sus] else [video_track vus])"
  by (auto simp: compose_tracks_def audio_keyframes_empty list_ex_iff)

lemma compose_payload_no_sound:
  "compose_payload vus (replicate n JNull) = JObj [(''tracks'', JArr [video_track vus])]"
  by (simp add: compose_payload_def compose_tracks_eq list_ex_iff)

lemma urls_distinct:
  "wavespeed_url \<noteq> fal_audio_url" "wavespeed_url \<noteq> fal_ffmpeg_url" "fal_audio_url \<noteq> fal_ffmpeg_url"
  by (simp_all add: wavespeed_url_def fal_audio_url_def fal_ffmpeg_url_def)

lemma is_get_not_submits: "is_get q \<Longrightarrow> \<not> submits_to u q"
  by (cases q) auto

lemma grows_requests:
  assumes "grows P w w'"
  obtains qs where "requests w' = requests w @ qs" "list_all P qs" "metadata_files w' = metadata_files w"
  using assms by (auto simp: grows_def)

lemma sound_stage_world:
  assumes "sound_stage ev job_id inc vi vus s w = Some (sus, s5, w')"
  shows "grows (\<lambda>q. submits_to fal_audio_url q \<or> is_get q) w w' \<and> length sus = length vus \<and>
    (\<not> inc \<longrightarrow> w' = w \<and> sus = replicate (length vus) JNull)"
  using assms
proof (cases rule: sound_stage_cases)
  case with_sound
  from sounds_loop_result[of "net ev" vi vus "[]" w] with_sound(3)
  show ?thesis using with_sound(1) by auto
next
  case without_sound
  then show ?thesis by (simp add: grows_refl)
qed

lemma generate_video_clips_grows:
  "generate_video_clips nt scenes vi w = Some (r, w') \<Longrightarrow>
     grows (\<lambda>q. submits_to wavespeed_url q \<or> is_get q) w w'"
  unfolding generate_video_clips_def by (rule clips_loop_grows)

lemma completed_run:
  assumes reg: "job_of s job_id = Some j"
    and run: "run_video_generation ev job_id cp inc s w = Some (x, s', w')"
    and comp: "job_of s' job_id = Some j'" "status j' = ''completed''"
  obtains vi scenes vus w1 sus s5 w2 final w3 fname w4 where
    "generator_init ev = None"
    "generate_creative_video_idea ev = Inr vi"
    "generate_detailed_video_prompts ev vi = Inr scenes"
    "generate_video_clips (net ev) scenes vi w = Some (Inr vus, w1)"
    "sound_stage ev job_id inc vi vus (clips_server job_id s) w1 = Some (sus, s5, w2)"
    "merge_video_clips (net ev) vus sus w2 = Some (Inr final, w3)"
    "download_and_save_video ev final job_id w3 = (Inr fname, w4)"
    "metadata_save ev = None"
    "w' = w4\<lparr>metadata_files := metadata_files w4 @
                 [(job_id @ ''.json'', metadata_of ev job_id vi scenes vus sus final fname inc)]\<rparr>"
proof -
  from video_generation_body_halts obtain x1 s1 w1' where
    body: "video_generation_body ev job_id inc s w = Some (x1, s1, w1')" by (metis surj_pair)
  have x1: "x1 = None"
  proof (rule ccontr)
    assume "x1 \<noteq> None"
    then obtain e where e: "x1 = Some e" by auto
    with video_generation_body_writes[OF reg body] have pw: "processing_writes job_id s s1" by auto
    from run reg body e have "s' = fail_job job_id e s1"
      by (simp add: run_video_generation_def job_of_def)
    with fail_job_writes[OF pw, of e] obtain js n where
      js: "job_wrote job_id s js s'" "map status js = replicate n ''processing'' @ replicate 3 ''failed''"
      by blast
    from js(2) have ne: "js \<noteq> []" by auto
    from js(2) have "map status js \<noteq> []" by auto
    have "status (last js) = last (map status js)" using ne by (simp add: last_map)
    also have "\<dots> = ''failed''" using js(2) by (simp add: numeral_3_eq_3)
    finally have "status (last js) = ''failed''" .
    moreover from job_wrote_current[OF js(1) ne] comp(1) have "j' = last js" by simp
    ultimately show False using comp(2) by simp
  qed
  with run reg body have eq: "s' = s1" "w' = w1'"
    by (simp_all add: run_video_generation_def job_of_def)
  from body x1 have body': "video_generation_body ev job_id inc s w = Some (None, s1, w1')" by simp
  from body' show ?thesis
  proof (cases rule: video_generation_body_cases)
    case (finishing vi scenes vus w1 sus s5 w2)
    from finishing(6) show ?thesis
    proof (cases rule: finish_generation_cases)
      case (completed final w3 fname w4)
      with finishing eq show ?thesis by (intro that[of vi scenes vus w1 sus s5 w2 final w3 fname w4]) simp_all
    qed simp_all
  qed simp_all
qed

lemma list_all_weaken: "list_all P xs \<Longrightarrow> (\<And>x. P x \<Longrightarrow> Q x) \<Longrightarrow> list_all Q xs"
  by (auto simp: list_all_iff)

lemma submits_to_other: "submits_to u q \<Longrightarrow> u \<noteq> v \<Longrightarrow> \<not> submits_to v q"
  by (induction u q rule: submits_to.induct) auto

lemma not_ffmpeg:
  "submits_to wavespeed_url q \<or> is_get q \<Longrightarrow> \<not> submits_to fal_ffmpeg_url q"
  "submits_to fal_audio_url q \<or> is_get q \<Longrightarrow> \<not> submits_to fal_ffmpeg_url q"
  using urls_distinct by (auto dest: submits_to_other is_get_not_submits)

lemma not_audio:
  "submits_to wavespeed_url q \<or> is_get q \<Longrightarrow> \<not> submits_to fal_audio_url q"
  "submits_to fal_ffmpeg_url q \<or> is_get q \<Longrightarrow> \<not> submits_to fal_audio_url q"
  using urls_distinct by (auto dest: submits_to_other is_get_not_submits)

lemma finish_generation_world:
  assumes "finish_generation ev job_id inc vi scenes vus sus s w = Some (x, s', w')"
  shows "\<exists>qs. requests w' = requests w @ POST (Url fal_ffmpeg_url) (compose_payload vus sus) # qs \<and>
      list_all is_get qs \<and>
      (metadata_files w' = metadata_files w \<or>
       (\<exists>final fname. metadata_files w' = metadata_files w @
          [(job_id @ ''.json'', metadata_of ev job_id vi scenes vus sus final fname inc)]))"
  using assms
proof (cases rule: finish_generation_cases)
  case (merge_failed e)
  from merge_video_clips_requests[OF merge_failed(1)] show ?thesis by blast
next
  case (download_failed final w1 e)
  from merge_video_clips_requests[OF download_failed(1)] obtain qc where
    qc: "requests w1 = requests w @ POST (Url fal_ffmpeg_url) (compose_payload vus sus) # qc"
      "list_all is_get qc" "metadata_files w1 = metadata_files w" by blast
  from download_world[OF download_failed(2)] qc
  have "requests w' = requests w @ POST (Url fal_ffmpeg_url) (compose_payload vus sus) #
      (qc @ [GET (UrlOf final)])" "list_all is_get (qc @ [GET (UrlOf final)])"
    "metadata_files w' = metadata_files w" by simp_all
  then show ?thesis by blast
next
  case (metadata_failed final w1 fname e)
  from merge_video_clips_requests[OF metadata_failed(1)] obtain qc where
    qc: "requests w1 = requests w @ POST (Url fal_ffmpeg_url) (compose_payload vus sus) # qc"
      "list_all is_get qc" "metadata_files w1 = metadata_files w" by blast
  from download_world[OF metadata_failed(2)] qc
  have "requests w' = requests w @ POST (Url fal_ffmpeg_url) (compose_payload vus sus) #
      (qc @ [GET (UrlOf final)])" "list_all is_get (qc @ [GET (UrlOf final)])"
    "metadata_files w' = metadata_files w" by simp_all
  then show ?thesis by blast
next
  case (completed final w1 fname w2)
  from merge_video_clips_requests[OF completed(1)] obtain qc where
    qc: "requests w1 = requests w @ POST (Url fal_ffmpeg_url) (compose_payload vus sus) # qc"
      "list_all is_get qc" "metadata_files w1 = metadata_files w" by blast
  from download_world[OF completed(2)] qc completed(6)
  have "requests w' = requests w @ POST (Url fal_ffmpeg_url) (compose_payload vus sus) #
      (qc @ [GET (UrlOf final)])" "list_all is_get (qc @ [GET (UrlOf final)])"
    "metadata_files w' = metadata_files w @
          [(job_id @ ''.json'', metadata_of ev job_id vi scenes vus sus final fname inc)]"
    by simp_all
  then show ?thesis by blast
qed

lemma run_video_generation_body:
  assumes "job_of s job_id = Some j"
    and "run_video_generation ev job_id cp inc s w = Some (x, s', w')"
  obtains x1 s1 where "video_generation_body ev job_id inc s w = Some (x1, s1, w')"
proof -
  from video_generation_body_halts obtain x1 s1 w1 where
    body: "video_generation_body ev job_id inc s w = Some (x1, s1, w1)" by (metis surj_pair)
  with assms have "w' = w1"
    by (cases x1) (simp_all add: run_video_generation_def job_of_def)
  with body that show ?thesis by blast
qed

lemma last_status:
  assumes "map status js = replicate n ''processing'' @ replicate 3 X"
  shows "js \<noteq> [] \<and> status (last js) = X"
proof -
  from assms have ne: "js \<noteq> []" by auto
  then have "status (last js) = last (map status js)" by (simp add: last_map)
  also have "\<dots> = X" using assms by (simp add: numeral_3_eq_3)
  finally show ?thesis using ne by simp
qed

lemma run_video_generation_status:
  assumes reg: "job_of s job_id = Some j"
    and body: "video_generation_body ev job_id inc s w = Some (x1, s1, w1)"
  shows "\<exists>s' j'. run_video_generation ev job_id cp inc s w = Some (None, s', w1) \<and>
     job_of s' job_id = Some j' \<and>
     status j' = (if x1 = None then ''completed'' else ''failed'')"
proof (cases x1)
  case None
  with video_generation_body_writes[OF reg body] obtain js n where
    js: "job_wrote job_id s js s1" "map status js = replicate n ''processing'' @ replicate 3 ''completed''"
    by auto
  from last_status[OF js(2)] job_wrote_current[OF js(1)]
  have "job_of s1 job_id = Some (last js)" "status (last js) = ''completed''" by simp_all
  moreover from reg body None have "run_video_generation ev job_id cp inc s w = Some (None, s1, w1)"
    by (simp add: run_video_generation_def job_of_def)
  ultimately show ?thesis using None by auto
next
  case (Some e)
  with video_generation_body_writes[OF reg body] have pw: "processing_writes job_id s s1" by auto
  from fail_job_writes[OF pw, of e] obtain js n where
    js: "job_wrote job_id s js (fail_job job_id e s1)"
      "map status js = replicate n ''processing'' @ replicate 3 ''failed''" by blast
  from last_status[OF js(2)] job_wrote_current[OF js(1)]
  have "job_of (fail_job job_id e s1) job_id = Some (last js)" "status (last js) = ''failed''"
    by simp_all
  moreover from reg body Some
  have "run_video_generation ev job_id cp inc s w = Some (None, fail_job job_id e s1, w1)"
    by (simp add: run_video_generation_def job_of_def)
  ultimately show ?thesis using Some by auto
qed

lemma scenes_of_lines_none:
  assumes "\<forall>line\<in>set ls. \<not> starts_with ''Scene '' (strip_where is_space line)"
  shows "scenes_of_lines ls acc = Inr acc"
  using assms by (induction ls arbitrary: acc) auto

lemma completed_run_intro:
  assumes reg: "job_of s job_id = Some j"
    and "generator_init ev = None"
    and "generate_creative_video_idea ev = Inr vi"
    and "generate_detailed_video_prompts ev vi = Inr scenes"
    and "generate_video_clips (net ev) scenes vi w = Some (Inr vus, w1)"
    and "sound_stage ev job_id inc vi vus (clips_server job_id s) w1 = Some (sus, s5, w2)"
    and "merge_video_clips (net ev) vus sus w2 = Some (Inr final, w3)"
    and "download_and_save_video ev final job_id w3 = (Inr fname, w4)"
    and "metadata_save ev = None"
  shows "\<exists>s' j' js n.
     run_video_generation ev job_id cp inc s w =
       Some (None, s',
             w4\<lparr>metadata_files := metadata_files w4 @
                  [(job_id @ ''.json'', metadata_of ev job_id vi scenes vus sus final fname inc)]\<rparr>) \<and>
     job_of s' job_id = Some j' \<and> status j' = ''completed'' \<and>
     job_wrote job_id s js s' \<and> 0 < n \<and>
     map status js = replicate n ''processing'' @ replicate 3 ''completed''"
proof -
  let ?w = "w4\<lparr>metadata_files := metadata_files w4 @
                  [(job_id @ ''.json'', metadata_of ev job_id vi scenes vus sus final fname inc)]\<rparr>"
  from finish_generation_halts obtain x s' w' where
    fin: "finish_generation ev job_id inc vi scenes vus sus s5 w2 = Some (x, s', w')"
    by (metis surj_pair)
  from finish_generation_completed[OF fin assms(7,8,9)]
  have x: "x = None" and w': "w' = ?w" by blast+
  from video_generation_body_finishing'[OF fin assms(2,3,4,5,6)]
  have body: "video_generation_body ev job_id inc s w = Some (None, s', ?w)" using x w' by simp
  with reg have run: "run_video_generation ev job_id cp inc s w = Some (None, s', ?w)"
    by (simp add: run_video_generation_def job_of_def)
  from video_generation_body_writes[OF reg body]
  obtain js n where js: "job_wrote job_id s js s'" "0 < n"
    "map status js = replicate n ''processing'' @ replicate 3 ''completed''" by auto
  from last_status[OF js(3)] job_wrote_current[OF js(1)]
  have "job_of s' job_id = Some (last js)" "status (last js) = ''completed''" by simp_all
  with run js show ?thesis by blast
qed

lemmas demo_eval =
  poll_wavespeed_completion_def poll_fal_completion_def poll_loop.simps
  wavespeed_body_def wavespeed_dispatch_def wavespeed_status_def
  wavespeed_succeeded_statuses_def wavespeed_processing_statuses_def
  fal_body_def fal_dispatch_def fal_completed_def find_video_url_def has_nested_def
  fal_completed_statuses_def fal_processing_statuses_def
  http_def http_error_def ebind_def post_json_def script_def ok_def w0_def asked_def
  clip_replies_def fal_replies_def clip_requests_def sound_requests_def merge_requests_def
  generate_video_clips_def generate_asmr_sound_def merge_video_clips_def
  download_and_save_video_def demo_env_def demo_job_id_def demo_video_file_def Let_def

lemma demo_registered: "job_of one_job demo_job_id = Some demo_job"
  by (simp add: job_of_def one_job_def generate_video_def initial_server_def demo_job_id_def
      demo_job_def str_of_nat.simps digit_char_def Let_def)

lemma demo_env_simps:
  "net (demo_env nt answer) = nt" "generator_init (demo_env nt answer) = None"
  "generate_creative_video_idea (demo_env nt answer) = Inr demo_idea"
  "metadata_save (demo_env nt answer) = None"
  by (simp_all add: demo_env_def generate_creative_video_idea_def)

lemma three_scenes_parsed:
  "generate_detailed_video_prompts (demo_env nt three_scenes_answer) demo_idea = Inr three_scenes"
  by (simp add: generate_detailed_video_prompts_def demo_env_def three_scenes_answer_def
      three_scenes_def strip_where_def is_space_def starts_with_def)

lemma three_clips_generated:
  "generate_video_clips second_audio_fails three_scenes demo_idea w0 =
     Some (Inr three_clips, asked three_clip_requests)"
  by (simp add: three_scenes_def three_clips_def three_clip_requests_def second_audio_fails_def
      demo_eval)

lemma three_sounds_generated:
  "sounds_loop second_audio_fails demo_idea three_clips [] (asked three_clip_requests) =
     Some (three_sounds, asked (three_clip_requests @ three_sound_requests))"
  by (simp add: three_clips_def three_sounds_def three_clip_requests_def
      three_sound_requests_def second_audio_fails_def demo_eval)

lemma three_sound_outcomes:
  "sound_outcomes second_audio_fails demo_idea three_clips (asked three_clip_requests) =
     [Inr (JStr ''https://cdn/s1.wav''), Inl RequestException, Inr (JStr ''https://cdn/s3.wav'')]"
  by (simp add: three_clips_def three_clip_requests_def second_audio_fails_def demo_eval)

lemma three_clips_merged:
  "merge_video_clips second_audio_fails three_clips three_sounds
     (asked (three_clip_requests @ three_sound_requests)) =
     Some (Inr (JStr ''https://cdn/final.mp4''),
           asked (three_clip_requests @ three_sound_requests @
                  merge_requests three_clips three_sounds))"
  by (simp add: three_clips_def three_sounds_def three_clip_requests_def
      three_sound_requests_def second_audio_fails_def demo_eval)

lemma three_clips_downloaded:
  "download_and_save_video (demo_env second_audio_fails three_scenes_answer) (JStr ''https://cdn/final.mp4'')
     demo_job_id
     (asked (three_clip_requests @ three_sound_requests @
             merge_requests three_clips three_sounds)) =
     (Inr demo_video_file,
      (asked (three_clip_requests @ three_sound_requests @
              merge_requests three_clips three_sounds @ [GET (UrlOf (JStr ''https://cdn/final.mp4''))]))
        \<lparr>video_files := [demo_video_file]\<rparr>)"
  by (simp add: three_clips_def three_sounds_def three_clip_requests_def
      three_sound_requests_def second_audio_fails_def demo_eval)

lemma one_scene_parsed:
  "generate_detailed_video_prompts (demo_env nt one_scene_answer) demo_idea =
     Inr [\<lparr>description = ''only cut''\<rparr>]"
  by (simp add: generate_detailed_video_prompts_def demo_env_def one_scene_answer_def
      strip_where_def is_space_def starts_with_def)

lemma empty_audio_run:
  "\<exists>s' j'.
     run_video_generation (demo_env empty_audio_url one_scene_answer) demo_job_id None True
       one_job w0 = Some (None, s', empty_audio_world) \<and>
     job_of s' demo_job_id = Some j' \<and> status j' = ''completed''"
proof -
  let ?ev = "demo_env empty_audio_url one_scene_answer"
  let ?w1 = "asked (clip_requests ''only cut'' ''p1'')"
  let ?w2 = "asked (clip_requests ''only cut'' ''p1'' @ sound_requests ''https://cdn/c1.mp4'' ''a1'')"
  let ?w3 = "asked (clip_requests ''only cut'' ''p1'' @ sound_requests ''https://cdn/c1.mp4'' ''a1'' @
             merge_requests [JStr ''https://cdn/c1.mp4''] [JStr []])"
  have c: "generate_video_clips (net ?ev) [\<lparr>description = ''only cut''\<rparr>] demo_idea w0 =
      Some (Inr [JStr ''https://cdn/c1.mp4''], ?w1)"
    by (simp add: empty_audio_url_def demo_eval)
  have "sounds_loop (net ?ev) demo_idea [JStr ''https://cdn/c1.mp4''] [] ?w1 = Some ([JStr []], ?w2)"
    by (simp add: empty_audio_url_def demo_eval)
  from sound_stage_with_sound[OF this, of demo_job_id "clips_server demo_job_id one_job"]
  obtain s5 where ss: "sound_stage ?ev demo_job_id True demo_idea [JStr ''https://cdn/c1.mp4'']
      (clips_server demo_job_id one_job) ?w1 = Some ([JStr []], s5, ?w2)" by blast
  have m: "merge_video_clips (net ?ev) [JStr ''https://cdn/c1.mp4''] [JStr []] ?w2 =
      Some (Inr (JStr ''https://cdn/final.mp4''), ?w3)"
    by (simp add: empty_audio_url_def demo_eval)
  have d: "download_and_save_video ?ev (JStr ''https://cdn/final.mp4'') demo_job_id ?w3 =
      (Inr demo_video_file,
       (asked (clip_requests ''only cut'' ''p1'' @ sound_requests ''https://cdn/c1.mp4'' ''a1'' @
             merge_requests [JStr ''https://cdn/c1.mp4''] [JStr []] @ [GET (UrlOf (JStr ''https://cdn/final.mp4''))]))
         \<lparr>video_files := [demo_video_file]\<rparr>)"
    by (simp add: empty_audio_url_def demo_eval)
  from completed_run_intro[OF demo_registered demo_env_simps(2,3) one_scene_parsed c ss m d
      demo_env_simps(4), of None]
  show ?thesis by (auto simp: empty_audio_world_def asked_def w0_def)
qed

lemma no_scene_parsed:
  "generate_detailed_video_prompts (demo_env nt no_scene_answer) demo_idea = Inr []"
  by (simp add: generate_detailed_video_prompts_def demo_env_def no_scene_answer_def
      strip_where_def is_space_def starts_with_def)

lemma no_scene_lines:
  "scenes_reply (demo_env compose_only no_scene_answer) = Inr no_scene_answer \<and>
   (\<forall>line\<in>set (split_on CHR 0x0A (strip_where is_space no_scene_answer)).
      \<not> starts_with ''Scene '' (strip_where is_space line))"
  by (simp add: demo_env_def no_scene_answer_def strip_where_def is_space_def starts_with_def)

lemma no_scene_merged:
  "merge_video_clips compose_only [] [] w0 =
     Some (Inr (JStr ''https://cdn/final.mp4''), asked (merge_requests [] []))"
  by (simp add: compose_only_def demo_eval)

lemma no_scene_downloaded:
  "download_and_save_video (demo_env compose_only no_scene_answer) (JStr ''https://cdn/final.mp4'')
     demo_job_id (asked (merge_requests [] [])) =
     (Inr demo_video_file,
      (asked (merge_requests [] [] @ [GET (UrlOf (JStr ''https://cdn/final.mp4''))]))
        \<lparr>video_files := [demo_video_file]\<rparr>)"
  by (simp add: compose_only_def demo_eval)

lemma no_scene_run:
  "\<exists>s' j'.
     run_video_generation (demo_env compose_only no_scene_answer) demo_job_id None True
       one_job w0 = Some (None, s', no_scene_world) \<and>
     job_of s' demo_job_id = Some j' \<and> status j' = ''completed''"
proof -
  let ?ev = "demo_env compose_only no_scene_answer"
  have c: "generate_video_clips (net ?ev) [] demo_idea w0 = Some (Inr [], w0)"
    by (simp add: generate_video_clips_def)
  have ss: "sound_stage ?ev demo_job_id True demo_idea [] (clips_server demo_job_id one_job) w0 =
      Some ([], clips_server demo_job_id one_job, w0)"
    by (simp add: sound_stage_def)
  have m: "merge_video_clips (net ?ev) [] [] w0 =
      Some (Inr (JStr ''https://cdn/final.mp4''), asked (merge_requests [] []))"
    by (simp add: demo_env_simps no_scene_merged)
  from completed_run_intro[OF demo_registered demo_env_simps(2,3) no_scene_parsed c ss m
      no_scene_downloaded demo_env_simps(4), of None]
  show ?thesis by (auto simp: no_scene_world_def asked_def w0_def)
qed

lemma silent_registered:
  "job_of silent_job demo_job_id = Some (demo_job\<lparr>request := silent_request\<rparr>)"
  by (simp add: job_of_def silent_job_def generate_video_def initial_server_def demo_job_id_def
      demo_job_def str_of_nat.simps digit_char_def Let_def)

lemma silent_run:
  "\<exists>s' j'.
     run_video_generation (demo_env no_audio_replies one_scene_answer) demo_job_id None False
       silent_job w0 = Some (None, s', silent_world) \<and>
     job_of s' demo_job_id = Some j' \<and> status j' = ''completed''"
proof -
  let ?ev = "demo_env no_audio_replies one_scene_answer"
  let ?w1 = "asked (clip_requests ''only cut'' ''p1'')"
  let ?w3 = "asked (clip_requests ''only cut'' ''p1'' @ merge_requests [JStr ''https://cdn/c1.mp4''] [JNull])"
  have c: "generate_video_clips (net ?ev) [\<lparr>description = ''only cut''\<rparr>] demo_idea w0 =
      Some (Inr [JStr ''https://cdn/c1.mp4''], ?w1)"
    by (simp add: no_audio_replies_def demo_eval)
  have ss: "sound_stage ?ev demo_job_id False demo_idea [JStr ''https://cdn/c1.mp4'']
      (clips_server demo_job_id silent_job) ?w1 =
      Some ([JNull], clips_server demo_job_id silent_job, ?w1)"
    by (simp add: sound_stage_def)
  have m: "merge_video_clips (net ?ev) [JStr ''https://cdn/c1.mp4''] [JNull] ?w1 =
      Some (Inr (JStr ''https://cdn/final.mp4''), ?w3)"
    by (simp add: no_audio_replies_def demo_eval)
  have d: "download_and_save_video ?ev (JStr ''https://cdn/final.mp4'') demo_job_id ?w3 =
      (Inr demo_video_file,
       (asked (clip_requests ''only cut'' ''p1'' @ merge_requests [JStr ''https://cdn/c1.mp4''] [JNull] @
               [GET (UrlOf (JStr ''https://cdn/final.mp4''))]))
         \<lparr>video_files := [demo_video_file]\<rparr>)"
    by (simp add: no_audio_replies_def demo_eval)
  from completed_run_intro[OF silent_registered demo_env_simps(2,3) one_scene_parsed c ss m d
      demo_env_simps(4), of None]
  show ?thesis by (auto simp: silent_world_def asked_def w0_def)
qed

lemma three_polls:
  assumes b0: "body w 5 = Again w1 7" and b1: "body w1 7 = Again w2 9"
    and b2: "body w2 9 = Leave r wc"
    and k1: "clock w1 - clock w < mw" and k2: "clock w2 - clock w < mw"
  shows "poll_loop body item mw (clock w) w 5 = Some (r, wc)"
proof -
  from k1 have k0: "clock w - clock w < mw" by simp
  have "poll_loop body item mw (clock w) w2 9 = Some (r, wc)"
    using k2 b2 by (subst poll_loop.simps) simp
  then have "poll_loop body item mw (clock w) w1 7 = Some (r, wc)"
    using k1 b1 by (subst poll_loop.simps) simp
  then show ?thesis using k0 b0 by (subst poll_loop.simps) simp
qed

lemma wavespeed_three_polls:
  assumes r0: "nt (length (requests w)) = (l0, Reply c0 (Some d0) t0)"
    and r1: "nt (length (requests w) + 1) = (l1, Reply c1 (Some d1) t1)"
    and r2: "nt (length (requests w) + 2) = (l2, Reply c2 (Some d2) t2)"
    and c: "\<not> http_error c0" "\<not> http_error c1" "\<not> http_error c2"
    and s0: "wavespeed_status d0 = Inr st0" "st0 \<in> set wavespeed_processing_statuses"
    and s1: "wavespeed_status d1 = Inr st1" "st1 \<in> set wavespeed_processing_statuses"
    and s2: "wavespeed_status d2 = Inr st2" "st2 \<in> set wavespeed_succeeded_statuses"
    and t: "l0 + 5 + l1 + 7 < max_wait_time"
  shows "poll_wavespeed_completion nt prediction_id item_name max_wait_time w =
     Some (ebind (py_item d2 ''data'') (\<lambda>x. ebind (py_item x ''outputs'') py_first),
           w\<lparr>clock := clock w + l0 + 5 + l1 + 7 + l2,
             requests := requests w @ [GET (wavespeed_result_url prediction_id),
                                       GET (wavespeed_result_url prediction_id),
                                       GET (wavespeed_result_url prediction_id)],
             sleeps := sleeps w @ [5, 7]\<rparr>)"
proof -
  let ?u = "wavespeed_result_url prediction_id"
  let ?body = "wavespeed_body nt ?u item_name"
  define wa where "wa = w\<lparr>clock := clock w + l0, requests := requests w @ [GET ?u]\<rparr>"
  define w1 where "w1 = sleep 5 wa"
  define wb where "wb = w1\<lparr>clock := clock w1 + l1, requests := requests w1 @ [GET ?u]\<rparr>"
  define w2 where "w2 = sleep 7 wb"
  define wc where "wc = w2\<lparr>clock := clock w2 + l2, requests := requests w2 @ [GET ?u]\<rparr>"
  have h0: "http nt (GET ?u) w = (Reply c0 (Some d0) t0, wa)"
    unfolding wa_def using r0 by (simp add: http_def)
  have b0: "?body w 5 = Again w1 7"
    using wavespeed_body_answered[OF h0 c(1)] wavespeed_dispatch_processing[OF s0]
    by (simp add: w1_def)
  have len1: "length (requests w1) = length (requests w) + 1"
    by (simp add: w1_def wa_def sleep_def)
  have h1: "http nt (GET ?u) w1 = (Reply c1 (Some d1) t1, wb)"
    unfolding wb_def using r1 len1 by (simp add: http_def)
  have b1: "?body w1 7 = Again w2 9"
    using wavespeed_body_answered[OF h1 c(2)] wavespeed_dispatch_processing[OF s1]
    by (simp add: w2_def)
  have len2: "length (requests w2) = length (requests w) + 2"
    by (simp add: w2_def wb_def len1 sleep_def)
  have h2: "http nt (GET ?u) w2 = (Reply c2 (Some d2) t2, wc)"
    unfolding wc_def using r2 len2 by (simp add: http_def)
  have b2: "?body w2 9 =
      Leave (ebind (py_item d2 ''data'') (\<lambda>x. ebind (py_item x ''outputs'') py_first)) wc"
    using wavespeed_body_answered[OF h2 c(3)] wavespeed_dispatch_succeeded[OF s2]
    by simp
  have k1: "clock w1 = clock w + l0 + 5" by (simp add: w1_def wa_def sleep_def)
  have k2: "clock w2 = clock w + l0 + 5 + l1 + 7" by (simp add: w2_def wb_def k1 sleep_def)
  have "poll_loop ?body item_name max_wait_time (clock w) w 5 =
      Some (ebind (py_item d2 ''data'') (\<lambda>x. ebind (py_item x ''outputs'') py_first), wc)"
    using b0 b1 b2 by (rule three_polls) (use t k1 k2 in simp_all)
  moreover have "wc = w\<lparr>clock := clock w + l0 + 5 + l1 + 7 + l2,
             requests := requests w @ [GET ?u, GET ?u, GET ?u],
             sleeps := sleeps w @ [5, 7]\<rparr>"
    by (simp add: wc_def w2_def wb_def w1_def wa_def sleep_def)
  ultimately show ?thesis by (simp add: poll_wavespeed_completion_def)
qed

lemma fal_dispatch_completed_direct:
  assumes "py_get d ''status'' (JStr ''unknown'') = Inr st" "st \<in> set fal_completed_statuses"
    "py_in ''response_url'' d = Inr False"
  shows "fal_dispatch nt item d w iv = Leave (find_video_url d (NoVideoURLInResponse item)) w"
  using assms by (simp add: fal_dispatch_def fal_completed_def)

lemma fal_three_polls:
  assumes r0: "nt (length (requests w)) = (l0, Reply c0 (Some d0) t0)"
    and r1: "nt (length (requests w) + 1) = (l1, Reply c1 (Some d1) t1)"
    and r2: "nt (length (requests w) + 2) = (l2, Reply c2 (Some d2) t2)"
    and c: "\<not> http_error c0" "\<not> http_error c1" "\<not> http_error c2"
    and n: "c0 \<noteq> 400" "c1 \<noteq> 400" "c2 \<noteq> 400"
    and s0: "py_get d0 ''status'' (JStr ''unknown'') = Inr st0"
      "st0 \<in> set fal_processing_statuses"
    and s1: "py_get d1 ''status'' (JStr ''unknown'') = Inr st1"
      "st1 \<in> set fal_processing_statuses"
    and s2: "py_get d2 ''status'' (JStr ''unknown'') = Inr st2"
      "st2 \<in> set fal_completed_statuses" "py_in ''response_url'' d2 = Inr False"
    and t: "l0 + 5 + l1 + 7 < max_wait_time"
  shows "poll_fal_completion nt request_id item_name base_url max_wait_time w =
     Some (find_video_url d2 (NoVideoURLInResponse item_name),
           w\<lparr>clock := clock w + l0 + 5 + l1 + 7 + l2,
             requests := requests w @ [GET (fal_status_url request_id),
                                       GET (fal_status_url request_id),
                                       GET (fal_status_url request_id)],
             sleeps := sleeps w @ [5, 7]\<rparr>)"
proof -
  let ?u = "fal_status_url request_id"
  let ?body = "fal_body nt ?u item_name"
  define wa where "wa = w\<lparr>clock := clock w + l0, requests := requests w @ [GET ?u]\<rparr>"
  define w1 where "w1 = sleep 5 wa"
  define wb where "wb = w1\<lparr>clock := clock w1 + l1, requests := requests w1 @ [GET ?u]\<rparr>"
  define w2 where "w2 = sleep 7 wb"
  define wc where "wc = w2\<lparr>clock := clock w2 + l2, requests := requests w2 @ [GET ?u]\<rparr>"
  have h0: "http nt (GET ?u) w = (Reply c0 (Some d0) t0, wa)"
    unfolding wa_def using r0 by (simp add: http_def)
  have b0: "?body w 5 = Again w1 7"
    using fal_body_answered[OF h0 n(1) c(1)] fal_dispatch_processing[OF s0]
    by (simp add: w1_def)
  have len1: "length (requests w1) = length (requests w) + 1"
    by (simp add: w1_def wa_def sleep_def)
  have h1: "http nt (GET ?u) w1 = (Reply c1 (Some d1) t1, wb)"
    unfolding wb_def using r1 len1 by (simp add: http_def)
  have b1: "?body w1 7 = Again w2 9"
    using fal_body_answered[OF h1 n(2) c(2)] fal_dispatch_processing[OF s1]
    by (simp add: w2_def)
  have len2: "length (requests w2) = length (requests w) + 2"
    by (simp add: w2_def wb_def len1 sleep_def)
  have h2: "http nt (GET ?u) w2 = (Reply c2 (Some d2) t2, wc)"
    unfolding wc_def using r2 len2 by (simp add: http_def)
  have b2: "?body w2 9 = Leave (find_video_url d2 (NoVideoURLInResponse item_name)) wc"
    using fal_body_answered[OF h2 n(3) c(3)] fal_dispatch_completed_direct[OF s2]
    by simp
  have k1: "clock w1 = clock w + l0 + 5" by (simp add: w1_def wa_def sleep_def)
  have k2: "clock w2 = clock w + l0 + 5 + l1 + 7" by (simp add: w2_def wb_def k1 sleep_def)
  have "poll_loop ?body item_name max_wait_time (clock w) w 5 =
      Some (find_video_url d2 (NoVideoURLInResponse item_name), wc)"
    using b0 b1 b2 by (rule three_polls) (use t k1 k2 in simp_all)
  moreover have "wc = w\<lparr>clock := clock w + l0 + 5 + l1 + 7 + l2,
             requests := requests w @ [GET ?u, GET ?u, GET ?u],
             sleeps := sleeps w @ [5, 7]\<rparr>"
    by (simp add: wc_def w2_def wb_def w1_def wa_def sleep_def)
  ultimately show ?thesis by (simp add: poll_fal_completion_def)
qed

lemma fal_body_failed:
  assumes "http nt (GET u) w = (Reply code (Some d) raw, w1)" "code \<noteq> 400" "\<not> http_error code"
    "py_get d ''status'' (JStr ''unknown'') = Inr (JStr ''failed'')"
  shows "\<exists>m. py_get d ''error'' (JStr ''Unknown error'') = Inr m \<and>
     fal_body nt u item w iv = Leave (Inl (GenerationFailed item m)) w1"
  using fal_dispatch_failed[OF assms(4), of nt item w1 iv] fal_body_answered[OF assms(1,2,3)]
  by simp

lemma fal_body_uppercase:
  assumes "http nt (GET u) w = (Reply code (Some d) raw, w1)" "code \<noteq> 400" "\<not> http_error code"
    "py_get d ''status'' (JStr ''unknown'') = Inr (JStr ''FAILED'')"
  shows "fal_body nt u item w iv = Again (sleep iv w1) iv"
  using fal_dispatch_unrecognized[OF assms(4) FAILED_unrecognized] fal_body_answered[OF assms(1,2,3)]
  by simp

lemma fal_session_failed:
  assumes "nt (length (requests w)) = (lat, Reply code (Some d) raw)" "code \<noteq> 400"
    "\<not> http_error code" "py_get d ''status'' (JStr ''unknown'') = Inr (JStr ''failed'')"
    "0 < max_wait_time"
  shows "\<exists>m. py_get d ''error'' (JStr ''Unknown error'') = Inr m \<and>
     poll_fal_completion nt request_id item base_url max_wait_time w =
       Some (Inl (GenerationFailed item m),
             w\<lparr>clock := clock w + lat,
               requests := requests w @ [GET (fal_status_url request_id)]\<rparr>)"
proof -
  let ?u = "fal_status_url request_id"
  have h: "http nt (GET ?u) w =
      (Reply code (Some d) raw, w\<lparr>clock := clock w + lat, requests := requests w @ [GET ?u]\<rparr>)"
    using assms(1) by (simp add: http_def)
  from fal_body_failed[OF h assms(2,3,4), of item 5] obtain m where
    m: "py_get d ''error'' (JStr ''Unknown error'') = Inr m"
    and b: "fal_body nt ?u item w 5 = Leave (Inl (GenerationFailed item m))
        (w\<lparr>clock := clock w + lat, requests := requests w @ [GET ?u]\<rparr>)" by blast
  have "poll_loop (fal_body nt ?u item) item max_wait_time (clock w) w 5 =
      Some (Inl (GenerationFailed item m),
            w\<lparr>clock := clock w + lat, requests := requests w @ [GET ?u]\<rparr>)"
    using assms(5) b by (subst poll_loop.simps) simp
  with m show ?thesis by (simp add: poll_fal_completion_def)
qed

lemma fal_session_never_terminal:
  assumes hyp: "\<forall>k\<ge>length (requests w). \<exists>lat code d raw st.
      nt k = (lat, Reply code (Some d) raw) \<and> code \<noteq> 400 \<and> \<not> http_error code \<and>
      py_get d ''status'' (JStr ''unknown'') = Inr st \<and>
      (st = JStr ''FAILED'' \<or> st \<in> set fal_processing_statuses)"
  shows "\<exists>w'. poll_fal_completion nt request_id item base_url max_wait_time w =
              Some (Inl (TimedOut item max_wait_time), w') \<and>
           max_wait_time \<le> clock w' - clock w"
proof -
  let ?u = "fal_status_url request_id"
  let ?body = "fal_body nt ?u item"
  let ?I = "\<lambda>w1 (iv::nat). length (requests w) \<le> length (requests w1)"
  have pb: "poller_body ?u item fal_raises ?body" by (rule poller_body_fal)
  have again: "\<exists>w2 iv2. ?body w1 iv = Again w2 iv2" if "?I w1 iv" for w1 iv
  proof -
    from hyp that obtain lat code d raw st where
      a: "nt (length (requests w1)) = (lat, Reply code (Some d) raw)" "code \<noteq> 400"
        "\<not> http_error code" "py_get d ''status'' (JStr ''unknown'') = Inr st"
      and st: "st = JStr ''FAILED'' \<or> st \<in> set fal_processing_statuses" by blast
    have h: "http nt (GET ?u) w1 = (Reply code (Some d) raw,
        w1\<lparr>clock := clock w1 + lat, requests := requests w1 @ [GET ?u]\<rparr>)"
      using a(1) by (simp add: http_def)
    from st show ?thesis
    proof
      assume "st = JStr ''FAILED''"
      with a(4) fal_body_uppercase[OF h a(2,3), of item iv] show ?thesis by simp
    next
      assume "st \<in> set fal_processing_statuses"
      from fal_dispatch_processing[OF a(4) this] fal_body_answered[OF h a(2,3)]
      show ?thesis by simp
    qed
  qed
  from poller_halts[OF pb, of 5 max_wait_time "clock w" w]
  obtain r w' where run: "poll_loop ?body item max_wait_time (clock w) w 5 = Some (r, w')"
    by auto
  have "r = Inl (TimedOut item max_wait_time)"
  proof (rule poll_loop_rule[OF run, where I = ?I])
    show "?I w 5" by simp
  next
    fix w1 iv w2 iv2
    assume "?I w1 iv" "?body w1 iv = Again w2 iv2"
    with pb have "polled ?u w1 w2" by (auto simp: poller_body_def)
    with \<open>?I w1 iv\<close> show "?I w2 iv2" by (auto simp: polled_def)
  next
    fix w1 iv r1 w2
    assume "?I w1 iv" "?body w1 iv = Leave r1 w2"
    with again[of w1 iv] show "r1 = Inl (TimedOut item max_wait_time)" by auto
  qed auto
  with run have run': "poll_loop ?body item max_wait_time (clock w) w 5 =
      Some (Inl (TimedOut item max_wait_time), w')" by simp
  from poller_timeout_late[OF pb _ run'] have "max_wait_time \<le> clock w' - clock w" by simp
  with run' show ?thesis by (auto simp: poll_fal_completion_def)
qed

lemma run_video_generation_outcome:
  assumes reg: "job_of s job_id = Some j"
    and body: "video_generation_body ev job_id inc s w = Some (x1, s1, w1)"
  shows "\<exists>s' j'. run_video_generation ev job_id cp inc s w = Some (None, s', w1) \<and>
     job_of s' job_id = Some j' \<and>
     status j' = (if x1 = None then ''completed'' else ''failed'') \<and>
     (x1 \<noteq> None \<longrightarrow> error j' = x1)"
proof (cases x1)
  case None
  from run_video_generation_status[OF reg body, of cp] None show ?thesis by auto
next
  case (Some e)
  with video_generation_body_writes[OF reg body] have pw: "processing_writes job_id s s1" by auto
  from fail_job_writes[OF pw, of e] obtain js n where
    js: "job_wrote job_id s js (fail_job job_id e s1)"
      "map status js = replicate n ''processing'' @ replicate 3 ''failed''"
      "error (last js) = Some e" by blast
  from last_status[OF js(2)] job_wrote_current[OF js(1)]
  have "job_of (fail_job job_id e s1) job_id = Some (last js)" "status (last js) = ''failed''"
    by simp_all
  moreover from reg body Some
  have "run_video_generation ev job_id cp inc s w = Some (None, fail_job job_id e s1, w1)"
    by (simp add: run_video_generation_def job_of_def)
  ultimately show ?thesis using Some js(3) by auto
qed

lemma digit_cases:
  assumes "d < (10::nat)"
  obtains "d = 0" | "d = 1" | "d = 2" | "d = 3" | "d = 4" | "d = 5" | "d = 6" | "d = 7"
    | "d = 8" | "d = 9"
  using assms by atomize_elim arith

lemma digit_val_digit_char: "d < 10 \<Longrightarrow> digit_val (digit_char d) = d"
  by (erule digit_cases) (simp_all add: digit_val_def digit_char_def)

lemma digit_char_not_underscore: "d < 10 \<Longrightarrow> digit_char d \<noteq> CHR ''_''"
  by (erule digit_cases) (simp_all add: digit_char_def)

lemma nat_of_str_of_nat: "nat_of_str (str_of_nat n) = n"
proof (induction n rule: str_of_nat.induct)
  case (1 n)
  show ?case
  proof (cases "n < 10")
    case True
    then show ?thesis
      by (subst str_of_nat.simps) (simp add: nat_of_str_def digit_val_digit_char)
  next
    case False
    with 1 have "nat_of_str (str_of_nat (n div 10)) = n div 10" by simp
    with False show ?thesis
      by (subst str_of_nat.simps) (simp add: nat_of_str_def digit_val_digit_char)
  qed
qed

lemma str_of_nat_no_underscore: "CHR ''_'' \<notin> set (str_of_nat n)"
proof (induction n rule: str_of_nat.induct)
  case (1 n)
  show ?case
  proof (cases "n < 10")
    case True
    then show ?thesis
      using digit_char_not_underscore[of n] by (subst str_of_nat.simps) auto
  next
    case False
    with 1 have "CHR ''_'' \<notin> set (str_of_nat (n div 10))" by simp
    with False show ?thesis
      using digit_char_not_underscore[of "n mod 10"] by (subst str_of_nat.simps) auto
  qed
qed

lemma after_last_append:
  assumes "c \<notin> set ys"
  shows "after_last c (xs @ c # ys) = ys"
proof -
  have "takeWhile (\<lambda>x. x \<noteq> c) (rev ys @ c # rev xs) =
      rev ys @ takeWhile (\<lambda>x. x \<noteq> c) (c # rev xs)"
    by (rule takeWhile_append2) (use assms in auto)
  then show ?thesis by (simp add: after_last_def)
qed

lemma job_number_key: "job_number (job_key ts n) = n"
proof -
  have "job_key ts n = (''job_'' @ ts) @ CHR ''_'' # str_of_nat n" by (simp add: job_key_def)
  then show ?thesis
    by (simp only: job_number_def after_last_append[OF str_of_nat_no_underscore]
        nat_of_str_of_nat)
qed

lemma generate_video_key:
  "fst (generate_video ts created rq s) = job_key ts (length (active_jobs s))"
  by (simp add: generate_video_def job_key_def Let_def)

lemma fresh_key:
  assumes "numbered al"
  shows "job_key ts (length al) \<notin> fst ` set al"
proof
  assume "job_key ts (length al) \<in> fst ` set al"
  then obtain i where i: "i < length al" "fst (al ! i) = job_key ts (length al)"
    by (auto simp: in_set_conv_nth)
  with assms have "job_number (job_key ts (length al)) = i" by (auto simp: numbered_def)
  with i(1) show False by (simp add: job_number_key)
qed

lemma update_fresh: "k \<notin> fst ` set al \<Longrightarrow> AList.update k v al = al @ [(k, v)]"
  by (induction al) auto

lemma numbered_append:
  "numbered al \<Longrightarrow> job_number k = length al \<Longrightarrow> numbered (al @ [(k, v)])"
  by (auto simp: numbered_def nth_append less_Suc_eq)

lemma numbered_keys:
  assumes "map fst al' = map fst al" "numbered al"
  shows "numbered al'"
proof -
  from assms(1) have len: "length al' = length al" by (rule map_eq_imp_length_eq)
  have "fst (al' ! i) = fst (al ! i)" if "i < length al" for i
  proof -
    from that len have "map fst al' ! i = fst (al' ! i)" by simp
    moreover from that have "map fst al ! i = fst (al ! i)" by simp
    ultimately show ?thesis using assms(1) by simp
  qed
  with assms(2) len show ?thesis by (simp add: numbered_def)
qed

lemma keys_set: "map fst al' = map fst al \<Longrightarrow> fst ` set al' = fst ` set al"
  by (metis set_map)

lemma generate_video_fresh:
  assumes "numbered (active_jobs s)"
  shows "snd (generate_video ts created rq s) =
     s\<lparr>active_jobs := active_jobs s @
          [(job_key ts (length (active_jobs s)),
            \<lparr>status = ''started'', progress = Progress ''Initializing video generation...'',
             created_at = created, request = rq, result = None, error = None\<rparr>)],
       background_tasks := background_tasks s @
          [(job_key ts (length (active_jobs s)), custom_prompt rq, include_sound rq)],
       updates := updates s @
          [(job_key ts (length (active_jobs s)),
            \<lparr>status = ''started'', progress = Progress ''Initializing video generation...'',
             created_at = created, request = rq, result = None, error = None\<rparr>)]\<rparr>"
  using fresh_key[OF assms, of ts]
  by (simp add: generate_video_def Let_def update_fresh job_key_def)

lemma job_writes_none: "job_id \<notin> fst ` set (updates s) \<Longrightarrow> job_writes job_id s = []"
  by (auto simp: job_writes_def filter_empty_conv)

lemma server_inv_initial: "server_inv initial_server"
  by (simp add: server_inv_def initial_server_def numbered_def job_writes_def lifecycle_def)

lemma server_inv_submit:
  assumes "server_inv s"
  shows "server_inv (snd (generate_video ts created rq s))"
proof -
  let ?k = "job_key ts (length (active_jobs s))"
  let ?j = "\<lparr>status = ''started'', progress = Progress ''Initializing video generation...'',
             created_at = created, request = rq, result = None, error = None\<rparr>"
  let ?s = "s\<lparr>active_jobs := active_jobs s @ [(?k, ?j)],
       background_tasks := background_tasks s @ [(?k, custom_prompt rq, include_sound rq)],
       updates := updates s @ [(?k, ?j)]\<rparr>"
  from assms have num: "numbered (active_jobs s)"
    and dis: "distinct (map fst (background_tasks s))"
    and tasks: "fst ` set (background_tasks s) \<subseteq> fst ` set (active_jobs s)"
    and upd: "fst ` set (updates s) \<subseteq> fst ` set (active_jobs s)"
    and pend: "\<forall>t\<in>set (background_tasks s). map status (job_writes (fst t) s) = [''started'']"
    and life: "\<forall>job_id. lifecycle (map status (job_writes job_id s))"
    by (simp_all add: server_inv_def)
  from fresh_key[OF num] have fresh: "?k \<notin> fst ` set (active_jobs s)" .
  with tasks upd have ft: "?k \<notin> fst ` set (background_tasks s)"
    and fu: "?k \<notin> fst ` set (updates s)" by blast+
  have w: "job_writes job_id ?s = (if job_id = ?k then [?j] else job_writes job_id s)" for job_id
    using job_writes_none[OF fu] by (simp add: job_writes_def)
  have 1: "numbered (active_jobs ?s)"
    using numbered_append[OF num, of ?k] by (simp add: job_number_key)
  have 2: "distinct (map fst (background_tasks ?s))" using dis ft by simp
  have 3: "fst ` set (background_tasks ?s) \<subseteq> fst ` set (active_jobs ?s)"
    using tasks by auto
  have 4: "fst ` set (updates ?s) \<subseteq> fst ` set (active_jobs ?s)"
    using upd by auto
  have 5: "\<forall>t\<in>set (background_tasks ?s). map status (job_writes (fst t) ?s) = [''started'']"
    using pend by (auto simp: w)
  have 6: "\<forall>job_id. lifecycle (map status (job_writes job_id ?s))"
    using life by (simp add: w lifecycle_def)
  from 1 2 3 4 5 6 have "server_inv ?s" unfolding server_inv_def by (intro conjI)
  with generate_video_fresh[OF num, of ts created rq] show ?thesis by simp
qed

lemma writes_same: "map snd (filter (\<lambda>u. fst u = k) (map (Pair k) js)) = js"
  by (induction js) auto

lemma writes_other: "k \<noteq> job_id \<Longrightarrow> filter (\<lambda>u. fst u = k) (map (Pair job_id) js) = []"
  by (induction js) auto

lemma job_writes_append:
  assumes "updates s' = updates s @ map (Pair job_id) js"
  shows "job_writes k s' = (if k = job_id then job_writes k s @ js else job_writes k s)"
proof (cases "k = job_id")
  case True
  with assms writes_same[of job_id js] show ?thesis by (simp add: job_writes_def)
next
  case False
  with assms writes_other[of k job_id js] show ?thesis by (simp add: job_writes_def)
qed

lemma remove1_task:
  assumes dis: "distinct (map fst ts)" and t: "t \<in> set ts"
  shows "distinct (map fst (remove1 t ts))" "fst ` set (remove1 t ts) \<subseteq> fst ` set ts"
    "\<And>u. u \<in> set (remove1 t ts) \<Longrightarrow> u \<in> set ts \<and> fst u \<noteq> fst t"
proof -
  from dis have dt: "distinct ts" "inj_on fst (set ts)" by (simp_all add: distinct_map)
  have rest: "set (remove1 t ts) = set ts - {t}" using dt(1) by (rule set_remove1_eq)
  from dt(2) have "inj_on fst (set (remove1 t ts))"
    by (rule inj_on_subset) (simp add: rest)
  with dt(1) show "distinct (map fst (remove1 t ts))" by (simp add: distinct_map)
  show "fst ` set (remove1 t ts) \<subseteq> fst ` set ts" unfolding rest by blast
  fix u assume u: "u \<in> set (remove1 t ts)"
  with rest have ut: "u \<in> set ts" "u \<noteq> t" by simp_all
  have "fst u \<noteq> fst t"
  proof
    assume "fst u = fst t"
    with dt(2) ut(1) t have "u = t" by (meson inj_onD)
    with ut(2) show False by simp
  qed
  with ut(1) show "u \<in> set ts \<and> fst u \<noteq> fst t" by simp
qed

lemma lifecycle_run:
  assumes "ss = [''started'']" "0 < n" "X = ''completed'' \<or> X = ''failed''"
    "ss' = replicate n ''processing'' @ replicate 3 X"
  shows "lifecycle (ss @ ss')"
  unfolding lifecycle_def using assms by (intro disjI2) auto

lemma server_inv_run:
  assumes inv: "server_inv s"
    and t: "(job_id, cp, inc) \<in> set (background_tasks s)"
    and run: "run_video_generation ev job_id cp inc
          (s\<lparr>background_tasks := remove1 (job_id, cp, inc) (background_tasks s)\<rparr>) w
          = Some (x, s', w')"
  shows "server_inv s'"
proof -
  let ?t = "(job_id, cp, inc)"
  let ?s0 = "s\<lparr>background_tasks := remove1 ?t (background_tasks s)\<rparr>"
  from inv have num: "numbered (active_jobs s)"
    and dis: "distinct (map fst (background_tasks s))"
    and tasks: "fst ` set (background_tasks s) \<subseteq> fst ` set (active_jobs s)"
    and upd: "fst ` set (updates s) \<subseteq> fst ` set (active_jobs s)"
    and pend: "\<forall>t\<in>set (background_tasks s). map status (job_writes (fst t) s) = [''started'']"
    and life: "\<forall>job_id. lifecycle (map status (job_writes job_id s))"
    by (simp_all add: server_inv_def)
  from t have "fst ?t \<in> fst ` set (background_tasks s)" by (rule imageI)
  with tasks have key: "job_id \<in> fst ` set (active_jobs s)" by auto
  then obtain j where "map_of (active_jobs s) job_id = Some j"
    by (cases "map_of (active_jobs s) job_id") (simp_all add: map_of_eq_None_iff)
  then have reg: "job_of ?s0 job_id = Some j" by (simp add: job_of_def)
  from run_video_generation_writes[OF reg run] obtain js n X where
    jw: "job_wrote job_id ?s0 js s'" and n: "0 < n" and X: "X = ''completed'' \<or> X = ''failed''"
    and js: "map status js = replicate n ''processing'' @ replicate 3 X" by blast
  from jw have keys: "map fst (active_jobs s') = map fst (active_jobs s)"
    and bt: "background_tasks s' = remove1 ?t (background_tasks s)"
    and us: "updates s' = updates s @ map (Pair job_id) js"
    by (simp_all add: job_wrote_def)
  note w = job_writes_append[OF us]
  note r = remove1_task[OF dis t]
  have ks: "fst ` set (active_jobs s') = fst ` set (active_jobs s)" by (rule keys_set[OF keys])
  have 1: "numbered (active_jobs s')" using keys num by (rule numbered_keys)
  have 2: "distinct (map fst (background_tasks s'))" unfolding bt by (rule r(1))
  have 3: "fst ` set (background_tasks s') \<subseteq> fst ` set (active_jobs s')"
    unfolding bt ks using r(2) tasks by (rule subset_trans)
  have "fst ` set (updates s') \<subseteq> fst ` set (updates s) \<union> {job_id}"
    unfolding us by auto
  with upd key have 4: "fst ` set (updates s') \<subseteq> fst ` set (active_jobs s')"
    unfolding ks by blast
  have 5: "\<forall>t\<in>set (background_tasks s'). map status (job_writes (fst t) s') = [''started'']"
  proof
    fix u assume "u \<in> set (background_tasks s')"
    with r(3)[of u] have "u \<in> set (background_tasks s)" "fst u \<noteq> job_id" by (simp_all add: bt)
    with pend show "map status (job_writes (fst u) s') = [''started'']" by (simp add: w)
  qed
  from pend t have "map status (job_writes (fst ?t) s) = [''started'']" by (rule bspec)
  then have "map status (job_writes job_id s) = [''started'']" by simp
  from lifecycle_run[OF this n X js]
  have "lifecycle (map status (job_writes job_id s'))" by (simp add: w)
  with life have 6: "\<forall>k. lifecycle (map status (job_writes k s'))" by (simp add: w)
  from 1 2 3 4 5 6 show ?thesis unfolding server_inv_def by (intro conjI)
qed

lemma server_inv_step: "server_step s s' \<Longrightarrow> server_inv s \<Longrightarrow> server_inv s'"
proof (induction rule: server_step.induct)
  case (submit s ts created rq)
  then show ?case by (rule server_inv_submit)
next
  case (run job_id cp inc s ev w x s' w')
  from run(3) run(1) run(2) show ?case by (rule server_inv_run)
qed

lemma server_inv_steps: "server_step\<^sup>*\<^sup>* s s' \<Longrightarrow> server_inv s \<Longrightarrow> server_inv s'"
  by (induction rule: rtranclp_induct) (auto intro: server_inv_step)

lemma server_inv_reachable: "reachable s \<Longrightarrow> server_inv s"
  unfolding reachable_def by (erule server_inv_steps) (rule server_inv_initial)

lemma sorted_wrt_replicate: "P x x \<Longrightarrow> sorted_wrt P (replicate n x)"
  by (induction n) auto

lemma lifecycle_monotonic:
  assumes "lifecycle ss"
  shows "set ss \<subseteq> {''started'', ''processing'', ''completed'', ''failed''}"
    "sorted_wrt (\<lambda>a b. job_state_rank a \<le> job_state_rank b \<and>
                       (a = ''completed'' \<or> a = ''failed'' \<longrightarrow> b = a)) ss"
    "ss \<noteq> [] \<longrightarrow> hd ss = ''started''"
  using assms
  by (auto simp: lifecycle_def sorted_wrt_append job_state_rank_def intro!: sorted_wrt_replicate)

lemma keys_grow_step:
  assumes "server_step s s'" "server_inv s"
  shows "\<exists>ks. map fst (active_jobs s') = map fst (active_jobs s) @ ks"
  using assms
proof (induction rule: server_step.induct)
  case (submit s ts created rq)
  then have "numbered (active_jobs s)" by (simp add: server_inv_def)
  from generate_video_fresh[OF this, of ts created rq] show ?case by simp
next
  case (run job_id cp inc s ev w x s' w')
  let ?s0 = "s\<lparr>background_tasks := remove1 (job_id, cp, inc) (background_tasks s)\<rparr>"
  show ?case
  proof (cases "job_of ?s0 job_id")
    case None
    with run(2) have "s' = ?s0" by (simp add: run_video_generation_def job_of_def)
    then show ?thesis by simp
  next
    case (Some j)
    from run_video_generation_writes[OF Some run(2)] show ?thesis
      by (auto simp: job_wrote_def)
  qed
qed

lemma keys_grow_steps:
  assumes "server_step\<^sup>*\<^sup>* s s'" "server_inv s"
  shows "server_inv s' \<and> (\<exists>ks. map fst (active_jobs s') = map fst (active_jobs s) @ ks)"
  using assms
proof (induction rule: rtranclp_induct)
  case base
  then show ?case by simp
next
  case (step y z)
  then have inv: "server_inv y"
    and ks: "\<exists>ks. map fst (active_jobs y) = map fst (active_jobs s) @ ks" by simp_all
  from server_inv_step[OF step(2) inv] keys_grow_step[OF step(2) inv] ks
  show ?case by auto
qed

lemma job_of_set_job_other: "k \<noteq> job_id \<Longrightarrow> job_of (set_job job_id f s) k = job_of s k"
  by (simp add: set_job_def job_of_def update_conv' split: option.splits)

lemma job_of_run_other:
  assumes "run_video_generation ev job_id cp inc s w = Some (x, s', w')" "k \<noteq> job_id"
  shows "job_of s' k = job_of s k"
proof (cases "job_of s job_id")
  case None
  with assms(1) have "s' = s" by (simp add: run_video_generation_def job_of_def)
  then show ?thesis by simp
next
  case (Some j)
  from run_video_generation_writes[OF Some assms(1)] assms(2) show ?thesis
    by (auto simp: job_wrote_def)
qed

lemma separate_submissions:
  assumes "reachable s"
    and g1: "generate_video ts1 created1 rq s = (job_id1, s1)"
    and steps: "server_step\<^sup>*\<^sup>* s1 s2"
    and g2: "generate_video ts2 created2 rq s2 = (job_id2, s3)"
  shows "job_id1 \<noteq> job_id2"
    "job_of s2 job_id1 \<noteq> None" "job_of s3 job_id1 = job_of s2 job_id1"
    "job_of s3 job_id2 =
       Some \<lparr>status = ''started'', progress = Progress ''Initializing video generation...'',
             created_at = created2, request = rq, result = None, error = None\<rparr>"
proof -
  from assms(1) have inv: "server_inv s" by (rule server_inv_reachable)
  then have num: "numbered (active_jobs s)" by (simp add: server_inv_def)
  from g1 have id1: "job_id1 = job_key ts1 (length (active_jobs s))"
    and s1: "s1 = snd (generate_video ts1 created1 rq s)"
    using generate_video_key[of ts1 created1 rq s] by simp_all
  from s1 generate_video_fresh[OF num, of ts1 created1 rq]
  have k1: "job_id1 \<in> fst ` set (active_jobs s1)" by (simp add: id1)
  from server_inv_submit[OF inv, of ts1 created1 rq] s1 have inv1: "server_inv s1" by simp
  from keys_grow_steps[OF steps inv1] obtain ks where inv2: "server_inv s2"
    and ks: "map fst (active_jobs s2) = map fst (active_jobs s1) @ ks" by blast
  from k1 have "job_id1 \<in> set (map fst (active_jobs s1))" by simp
  with ks have "job_id1 \<in> set (map fst (active_jobs s2))" by simp
  then have k2: "job_id1 \<in> fst ` set (active_jobs s2)" by simp
  from inv2 have num2: "numbered (active_jobs s2)" by (simp add: server_inv_def)
  from g2 have id2: "job_id2 = job_key ts2 (length (active_jobs s2))"
    and s3: "s3 = snd (generate_video ts2 created2 rq s2)"
    using generate_video_key[of ts2 created2 rq s2] by simp_all
  from fresh_key[OF num2, of ts2] id2 have f2: "job_id2 \<notin> fst ` set (active_jobs s2)" by simp
  with k2 show ne: "job_id1 \<noteq> job_id2" by auto
  from k2 show "job_of s2 job_id1 \<noteq> None" by (simp add: job_of_def map_of_eq_None_iff)
  from s3 generate_video_fresh[OF num2, of ts2 created2 rq] id2
  have a3: "active_jobs s3 = active_jobs s2 @
      [(job_id2, \<lparr>status = ''started'', progress = Progress ''Initializing video generation...'',
             created_at = created2, request = rq, result = None, error = None\<rparr>)]" by simp
  from ne show "job_of s3 job_id1 = job_of s2 job_id1"
    by (simp add: job_of_def a3 map_add_def split: option.splits)
  from f2 have "map_of (active_jobs s2) job_id2 = None" by (simp add: map_of_eq_None_iff)
  then show "job_of s3 job_id2 =
       Some \<lparr>status = ''started'', progress = Progress ''Initializing video generation...'',
             created_at = created2, request = rq, result = None, error = None\<rparr>"
    by (simp add: job_of_def a3 map_add_def)
qed

lemma reachable_initial: "reachable initial_server"
  by (simp add: reachable_def)

lemma reachable_one_job: "reachable one_job"
  unfolding reachable_def one_job_def
  by (rule r_into_rtranclp) (rule server_step.submit)

lemma one_job_task: "background_tasks one_job = [(demo_job_id, None, True)]"
  by (simp add: one_job_def generate_video_def initial_server_def demo_job_id_def
      demo_request_def str_of_nat.simps digit_char_def Let_def)

lemma one_job_running: "job_of (one_job\<lparr>background_tasks := []\<rparr>) demo_job_id = Some demo_job"
  using demo_registered by (simp add: job_of_def)

lemma three_clips_run:
  "run_video_generation (demo_env second_audio_fails three_scenes_answer) demo_job_id None True
     (one_job\<lparr>background_tasks := []\<rparr>) w0 = Some (None, three_clips_done, three_clips_world)"
proof -
  let ?ev = "demo_env second_audio_fails three_scenes_answer"
  let ?s = "one_job\<lparr>background_tasks := []\<rparr>"
  let ?s5 = "set_progress demo_job_id ''Generating ASMR sounds...'' (clips_server demo_job_id ?s)"
  let ?w2 = "asked (three_clip_requests @ three_sound_requests)"
  have c: "generate_video_clips (net ?ev) three_scenes demo_idea w0 =
      Some (Inr three_clips, asked three_clip_requests)"
    by (simp add: demo_env_simps three_clips_generated)
  have ss: "sound_stage ?ev demo_job_id True demo_idea three_clips
      (clips_server demo_job_id ?s) (asked three_clip_requests) = Some (three_sounds, ?s5, ?w2)"
    using three_sounds_generated
    by (simp add: sound_stage_def demo_env_simps) (simp add: three_clips_def)
  have m: "merge_video_clips (net ?ev) three_clips three_sounds ?w2 =
      Some (Inr (JStr ''https://cdn/final.mp4''),
            asked (three_clip_requests @ three_sound_requests @
                   merge_requests three_clips three_sounds))"
    by (simp add: demo_env_simps three_clips_merged)
  from finish_generation_halts obtain x s' w' where
    fin: "finish_generation ?ev demo_job_id True demo_idea three_scenes three_clips three_sounds
      ?s5 ?w2 = Some (x, s', w')" by (metis surj_pair)
  from finish_generation_completed[OF fin m three_clips_downloaded demo_env_simps(4)]
  have r: "x = None" "s' = three_clips_done" "w' = three_clips_world"
    by (simp_all add: three_clips_done_def three_clips_world_def asked_def w0_def)
  from video_generation_body_finishing'[OF fin demo_env_simps(2,3) three_scenes_parsed c ss] r
  have "video_generation_body ?ev demo_job_id True ?s w0 =
      Some (None, three_clips_done, three_clips_world)" by simp
  with one_job_running show ?thesis by (simp add: run_video_generation_def job_of_def)
qed

lemma reachable_three_clips_done: "reachable three_clips_done"
proof -
  have "(demo_job_id, None, True) \<in> set (background_tasks one_job)" by (simp add: one_job_task)
  moreover have "run_video_generation (demo_env second_audio_fails three_scenes_answer)
      demo_job_id None True
      (one_job\<lparr>background_tasks := remove1 (demo_job_id, None, True) (background_tasks one_job)\<rparr>)
      w0 = Some (None, three_clips_done, three_clips_world)"
    using three_clips_run by (simp add: one_job_task)
  ultimately have "server_step one_job three_clips_done" by (rule server_step.run)
  with reachable_one_job show ?thesis unfolding reachable_def by (rule rtranclp.rtrancl_into_rtrancl)
qed

lemma three_clips_done_states:
  "job_states demo_job_id three_clips_done =
     ''started'' # replicate 8 ''processing'' @ replicate 3 ''completed''"
  by (simp add: job_states_def job_writes_def three_clips_done_def completed_server_def
      clips_server_def started_server_def set_progress_def set_job_def one_job_def
      generate_video_def initial_server_def demo_job_id_def str_of_nat.simps digit_char_def
      Let_def numeral_eq_Suc)

section \<open>The claims\<close>

text \<open>
  C1. A failure of the audio synthesis of a single clip is tolerated. Whenever the stages
  around the audio stage succeed (generator construction, idea, scenes, clips, composition,
  download and the storage of the metadata), the list of audio references of a run with
  sound has one entry per clip, the entry of a clip being the URL that
  \<^verbatim>\<open>generate_asmr_sound\<close> returned for it and \<^verbatim>\<open>None\<close> when that call raised, whatever
  the exception; the background task returns normally, every record that it writes for the
  job carries the status \<^verbatim>\<open>processing\<close> until the last three, which carry \<^verbatim>\<open>completed\<close>, so
  that the status \<^verbatim>\<open>failed\<close> is never written; and \<^verbatim>\<open>run_pipeline\<close> of the generator
  returns its result with the same list instead of raising.
\<close>

theorem audio_failure_tolerated:
  assumes "job_of s job_id = Some j"
    and "generator_init ev = None"
    and "generate_creative_video_idea ev = Inr vi"
    and "generate_detailed_video_prompts ev vi = Inr scenes"
    and "generate_video_clips (net ev) scenes vi w = Some (Inr video_urls, w1)"
    and "sounds_loop (net ev) vi video_urls [] w1 = Some (sound_urls, w2)"
    and "merge_video_clips (net ev) video_urls sound_urls w2 = Some (Inr final_video_url, w3)"
    and "download_and_save_video ev final_video_url job_id w3 = (Inr video_filename, w4)"
    and "metadata_save ev = None"
  shows "sound_urls = map sound_entry (sound_outcomes (net ev) vi video_urls w1) \<and>
    length sound_urls = length video_urls \<and>
    (\<exists>s' js n.
       run_video_generation ev job_id custom_prmpt True s w =
         Some (None, s',
               w4\<lparr>metadata_files := metadata_files w4 @
                    [(job_id @ ''.json'',
                      metadata_of ev job_id vi scenes video_urls sound_urls final_video_url
                        video_filename True)]\<rparr>) \<and>
       job_wrote job_id s js s' \<and> 0 < n \<and>
       map status js = replicate n ''processing'' @ replicate 3 ''completed'') \<and>
    run_pipeline ev w =
      Some (Inr \<lparr>result_idea = vi, result_scenes = scenes, result_video_urls = video_urls,
                 result_sound_urls = sound_urls, result_final_video_url = final_video_url\<rparr>, w3)"
proof (intro conjI)
  from sounds_loop_result[of "net ev" vi video_urls "[]" w1] assms(6)
  show a: "sound_urls = map sound_entry (sound_outcomes (net ev) vi video_urls w1)"
    and "length sound_urls = length video_urls" by auto
next
  from sound_stage_with_sound[OF assms(6), of job_id "clips_server job_id s"]
  obtain s5 where ss: "sound_stage ev job_id True vi video_urls (clips_server job_id s) w1 =
      Some (sound_urls, s5, w2)" by blast
  let ?w = "w4\<lparr>metadata_files := metadata_files w4 @
                    [(job_id @ ''.json'',
                      metadata_of ev job_id vi scenes video_urls sound_urls final_video_url
                        video_filename True)]\<rparr>"
  from finish_generation_halts obtain x s' w' where
    fin: "finish_generation ev job_id True vi scenes video_urls sound_urls s5 w2 = Some (x, s', w')"
    by (metis surj_pair)
  from finish_generation_completed[OF fin assms(7,8,9)]
  have x: "x = None" and w': "w' = ?w" by blast+
  from video_generation_body_finishing'[OF fin assms(2,3,4,5) ss]
  have body: "video_generation_body ev job_id True s w = Some (None, s', ?w)" using x w' by simp
  with assms(1) have run: "run_video_generation ev job_id custom_prmpt True s w = Some (None, s', ?w)"
    by (simp add: run_video_generation_def job_of_def)
  from video_generation_body_writes[OF assms(1) body]
  obtain js n where "job_wrote job_id s js s'" "0 < n"
    "map status js = replicate n ''processing'' @ replicate 3 ''completed''" by auto
  with run show "\<exists>s' js n.
       run_video_generation ev job_id custom_prmpt True s w = Some (None, s', ?w) \<and>
       job_wrote job_id s js s' \<and> 0 < n \<and>
       map status js = replicate n ''processing'' @ replicate 3 ''completed''" by blast
next
  have "(if video_urls \<noteq> [] then sounds_loop (net ev) vi video_urls [] w1
            else Some (replicate (length video_urls) JNull, w1)) = Some (sound_urls, w2)"
    using assms(6) by (cases "video_urls = []") auto
  with assms(3,4,5,7)
  show "run_pipeline ev w =
      Some (Inr \<lparr>result_idea = vi, result_scenes = scenes, result_video_urls = video_urls,
                 result_sound_urls = sound_urls, result_final_video_url = final_video_url\<rparr>, w3)"
    by (simp add: run_pipeline_def)
qed

text \<open>
  The run of C1 with three clips in which the audio submission for the second clip is
  answered with HTTP 500: the audio references are those of clips 1 and 3 with \<^verbatim>\<open>None\<close>
  between them, and the job is completed.
\<close>

theorem audio_failure_tolerated_witness:
  "sound_outcomes second_audio_fails demo_idea three_clips (asked three_clip_requests) =
     [Inr (JStr ''https://cdn/s1.wav''), Inl RequestException, Inr (JStr ''https://cdn/s3.wav'')] \<and>
   three_sounds = [JStr ''https://cdn/s1.wav'', JNull, JStr ''https://cdn/s3.wav''] \<and>
   three_sounds =
     map sound_entry
       (sound_outcomes second_audio_fails demo_idea three_clips (asked three_clip_requests)) \<and>
   (\<exists>s' js n.
      run_video_generation (demo_env second_audio_fails three_scenes_answer) demo_job_id None
        True one_job w0 = Some (None, s', three_clips_world) \<and>
      job_wrote demo_job_id one_job js s' \<and> 0 < n \<and>
      map status js = replicate n ''processing'' @ replicate 3 ''completed'') \<and>
   run_pipeline (demo_env second_audio_fails three_scenes_answer) w0 =
     Some (Inr \<lparr>result_idea = demo_idea, result_scenes = three_scenes,
                result_video_urls = three_clips, result_sound_urls = three_sounds,
                result_final_video_url = JStr ''https://cdn/final.mp4''\<rparr>,
           asked (three_clip_requests @ three_sound_requests @
                  merge_requests three_clips three_sounds))"
  using audio_failure_tolerated[of one_job demo_job_id demo_job
      "demo_env second_audio_fails three_scenes_answer" demo_idea three_scenes w0 three_clips
      "asked three_clip_requests" three_sounds
      "asked (three_clip_requests @ three_sound_requests)" "JStr ''https://cdn/final.mp4''"
      "asked (three_clip_requests @ three_sound_requests @ merge_requests three_clips three_sounds)"
      demo_video_file
      "(asked (three_clip_requests @ three_sound_requests @
              merge_requests three_clips three_sounds @ [GET (UrlOf (JStr ''https://cdn/final.mp4''))]))
        \<lparr>video_files := [demo_video_file]\<rparr>" None]
    demo_registered three_scenes_parsed three_clips_generated three_sounds_generated
    three_sound_outcomes three_clips_merged three_clips_downloaded
  by (simp add: demo_env_simps three_clips_world_def three_sounds_def asked_def w0_def)

text \<open>
  C2, as the code has it. A job whose record ends with the status \<^verbatim>\<open>completed\<close> has stored
  metadata whose audio-reference list has exactly one entry per clip, and the run has sent
  exactly one composition request to the ffmpeg endpoint; its tracks are the video track
  followed by an audio track if and only if at least one entry of that list is truthy in
  the sense of Python (line 507, \<^verbatim>\<open>if sound_urls and any(sound_urls)\<close>), and the video
  track alone otherwise. An entry that is not \<^verbatim>\<open>None\<close> but falsy, such as an empty URL,
  does not count.
\<close>

theorem composition_request_of_completed_job:
  assumes "job_of s job_id = Some j"
    and "run_video_generation ev job_id custom_prmpt include_snd s w = Some (x, s', w')"
    and "job_of s' job_id = Some j'"
    and "status j' = ''completed''"
  shows "\<exists>vi scenes video_urls sound_urls final_video_url video_filename qs1 qs2.
    length sound_urls = length video_urls \<and>
    metadata_files w' = metadata_files w @
      [(job_id @ ''.json'',
        metadata_of ev job_id vi scenes video_urls sound_urls final_video_url video_filename
          include_snd)] \<and>
    requests w' = requests w @ qs1 @
      POST (Url fal_ffmpeg_url)
        (JObj [(''tracks'', JArr (compose_tracks video_urls sound_urls))]) # qs2 \<and>
    list_all (\<lambda>q. \<not> submits_to fal_ffmpeg_url q) (qs1 @ qs2) \<and>
    compose_tracks video_urls sound_urls =
      (if list_ex truthy sound_urls
       then [video_track video_urls, audio_track sound_urls]
       else [video_track video_urls])"
  using assms
proof (cases rule: completed_run)
  case (1 vi scenes vus w1 sus s5 w2 final w3 fname w4)
  from generate_video_clips_grows[OF 1(4)] obtain qa where
    qa: "requests w1 = requests w @ qa" "list_all (\<lambda>q. submits_to wavespeed_url q \<or> is_get q) qa"
      "metadata_files w1 = metadata_files w" by (rule grows_requests)
  from sound_stage_world[OF 1(5)] have g: "grows (\<lambda>q. submits_to fal_audio_url q \<or> is_get q) w1 w2"
    and len: "length sus = length vus" by blast+
  from g obtain qb where
    qb: "requests w2 = requests w1 @ qb" "list_all (\<lambda>q. submits_to fal_audio_url q \<or> is_get q) qb"
      "metadata_files w2 = metadata_files w1" by (rule grows_requests)
  from merge_video_clips_requests[OF 1(6)] obtain qc where
    qc: "requests w3 = requests w2 @ POST (Url fal_ffmpeg_url) (compose_payload vus sus) # qc"
      "list_all is_get qc" "metadata_files w3 = metadata_files w2" by blast
  from download_world[OF 1(7)] have
    qd: "requests w4 = requests w3 @ [GET (UrlOf final)]" "metadata_files w4 = metadata_files w3"
    by blast+
  let ?qs1 = "qa @ qb" and ?qs2 = "qc @ [GET (UrlOf final)]"
  have a: "list_all (\<lambda>q. \<not> submits_to fal_ffmpeg_url q) qa"
    using qa(2) by (rule list_all_weaken) (rule not_ffmpeg)
  have b: "list_all (\<lambda>q. \<not> submits_to fal_ffmpeg_url q) qb"
    using qb(2) by (rule list_all_weaken) (rule not_ffmpeg)
  have c: "list_all (\<lambda>q. \<not> submits_to fal_ffmpeg_url q) qc"
    using qc(2) by (rule list_all_weaken) (simp add: is_get_not_submits)
  have "requests w' = requests w @ ?qs1 @
      POST (Url fal_ffmpeg_url) (JObj [(''tracks'', JArr (compose_tracks vus sus))]) # ?qs2"
    using 1(9) qa qb qc qd by (simp add: compose_payload_def)
  moreover have "metadata_files w' = metadata_files w @
      [(job_id @ ''.json'', metadata_of ev job_id vi scenes vus sus final fname include_snd)]"
    using 1(9) qa qb qc qd by simp
  moreover have "list_all (\<lambda>q. \<not> submits_to fal_ffmpeg_url q) (?qs1 @ ?qs2)"
    using a b c by simp
  ultimately show ?thesis using len compose_tracks_eq[of vus sus] by blast
qed

text \<open>
  The three-clip run above is such a completed job.
\<close>

theorem composition_request_of_completed_job_witness:
  "\<exists>s' j'.
     run_video_generation (demo_env second_audio_fails three_scenes_answer) demo_job_id None
       True one_job w0 = Some (None, s', three_clips_world) \<and>
     job_of s' demo_job_id = Some j' \<and> status j' = ''completed'' \<and>
     (\<exists>vi scenes video_urls sound_urls final_video_url video_filename qs1 qs2.
        length sound_urls = length video_urls \<and>
        metadata_files three_clips_world = metadata_files w0 @
          [(demo_job_id @ ''.json'',
            metadata_of (demo_env second_audio_fails three_scenes_answer) demo_job_id vi scenes
              video_urls sound_urls final_video_url video_filename True)] \<and>
        requests three_clips_world = requests w0 @ qs1 @
          POST (Url fal_ffmpeg_url)
            (JObj [(''tracks'', JArr (compose_tracks video_urls sound_urls))]) # qs2 \<and>
        list_all (\<lambda>q. \<not> submits_to fal_ffmpeg_url q) (qs1 @ qs2) \<and>
        compose_tracks video_urls sound_urls =
          (if list_ex truthy sound_urls
           then [video_track video_urls, audio_track sound_urls]
           else [video_track video_urls]))"
proof -
  let ?ev = "demo_env second_audio_fails three_scenes_answer"
  have c: "generate_video_clips (net ?ev) three_scenes demo_idea w0 =
      Some (Inr three_clips, asked three_clip_requests)"
    by (simp add: demo_env_simps three_clips_generated)
  have "sounds_loop (net ?ev) demo_idea three_clips [] (asked three_clip_requests) =
      Some (three_sounds, asked (three_clip_requests @ three_sound_requests))"
    by (simp add: demo_env_simps three_sounds_generated)
  from sound_stage_with_sound[OF this, of demo_job_id "clips_server demo_job_id one_job"]
  obtain s5 where ss: "sound_stage ?ev demo_job_id True demo_idea three_clips
      (clips_server demo_job_id one_job) (asked three_clip_requests) =
      Some (three_sounds, s5, asked (three_clip_requests @ three_sound_requests))" by blast
  have m: "merge_video_clips (net ?ev) three_clips three_sounds
      (asked (three_clip_requests @ three_sound_requests)) =
      Some (Inr (JStr ''https://cdn/final.mp4''),
            asked (three_clip_requests @ three_sound_requests @
                   merge_requests three_clips three_sounds))"
    by (simp add: demo_env_simps three_clips_merged)
  from completed_run_intro[OF demo_registered demo_env_simps(2,3) three_scenes_parsed c ss m
      three_clips_downloaded demo_env_simps(4), of None]
  obtain s' j' where run: "run_video_generation ?ev demo_job_id None True one_job w0 =
      Some (None, s', three_clips_world)"
    and j': "job_of s' demo_job_id = Some j'" and st: "status j' = ''completed''"
    by (auto simp: three_clips_world_def asked_def w0_def)
  from composition_request_of_completed_job[OF demo_registered run j' st] run j' st
  show ?thesis by blast
qed

text \<open>
  C2 as stated, with "non-None" in place of "truthy", fails: when the audio task of the
  only clip is reported completed with the empty string as its URL, the job is completed,
  the stored audio-reference list is \<^verbatim>\<open>['']\<close>, whose entry is not \<^verbatim>\<open>None\<close>, and the one
  composition request holds the video track only.
\<close>

theorem composition_request_of_completed_job_counterexample:
  "map_option
     (\<lambda>(x, s', w').
        (map_option status (job_of s' demo_job_id),
         map (\<lambda>(f, md). py_item md ''sound_urls'') (metadata_files w'),
         filter (submits_to fal_ffmpeg_url) (requests w')))
     (run_video_generation (demo_env empty_audio_url one_scene_answer) demo_job_id None True
        one_job w0) =
   Some (Some ''completed'',
         [Inr (JArr [JStr []])],
         [POST (Url fal_ffmpeg_url) (JObj [(''tracks'', JArr [video_track [JStr ''https://cdn/c1.mp4'']])])])"
proof -
  from empty_audio_run obtain s' j' where
    run: "run_video_generation (demo_env empty_audio_url one_scene_answer) demo_job_id None True
       one_job w0 = Some (None, s', empty_audio_world)"
    and j: "job_of s' demo_job_id = Some j'" "status j' = ''completed''" by blast
  have md: "map (\<lambda>(f, md). py_item md ''sound_urls'') (metadata_files empty_audio_world) =
      [Inr (JArr [JStr []])]"
    by (simp add: empty_audio_world_def metadata_of_def)
  have rq: "filter (submits_to fal_ffmpeg_url) (requests empty_audio_world) =
      [POST (Url fal_ffmpeg_url) (JObj [(''tracks'', JArr [video_track [JStr ''https://cdn/c1.mp4'']])])]"
    by (simp add: empty_audio_world_def asked_def w0_def clip_requests_def sound_requests_def
        merge_requests_def compose_payload_def compose_tracks_def
        wavespeed_url_def fal_audio_url_def fal_ffmpeg_url_def)
  from run j md rq show ?thesis by simp
qed

text \<open>
  C3, as the code has it. Nothing in the code validates the number of parsed scenes. When
  the scripting stage parses no scene (which is what happens as soon as no line of the
  answer starts with \<^verbatim>\<open>Scene \<close>; second conjunct), the background task submits no
  clip-synthesis task, but it goes on: the first request that it sends is the composition
  request with an empty video track, all later requests are status queries and the
  download, and the job ends \<^verbatim>\<open>completed\<close> exactly when composition, download and the
  storage of the metadata succeed, and \<^verbatim>\<open>failed\<close> otherwise; the error recorded for a
  failed job is then the exception raised by the composition, by the download or by the
  storage of the metadata, never an input-validation error.
\<close>

theorem zero_scenes_not_rejected:
  assumes "job_of s job_id = Some j"
    and "generator_init ev = None"
    and "generate_creative_video_idea ev = Inr vi"
    and "generate_detailed_video_prompts ev vi = Inr []"
  shows "(\<exists>s' w' qs j'.
      run_video_generation ev job_id custom_prmpt include_snd s w = Some (None, s', w') \<and>
      requests w' = requests w @
        POST (Url fal_ffmpeg_url)
          (JObj [(''tracks'',
                  JArr [JObj [(''id'', JStr ''1''), (''type'', JStr ''video''),
                              (''keyframes'', JArr [])]])]) # qs \<and>
      list_all is_get qs \<and>
      job_of s' job_id = Some j' \<and>
      (status j' = ''completed'' \<or> status j' = ''failed'') \<and>
      (status j' = ''completed'' \<longleftrightarrow>
         (\<exists>final_video_url w1 video_filename w2.
            merge_video_clips (net ev) [] [] w = Some (Inr final_video_url, w1) \<and>
            download_and_save_video ev final_video_url job_id w1 = (Inr video_filename, w2) \<and>
            metadata_save ev = None)) \<and>
      (status j' = ''failed'' \<longrightarrow>
         (\<exists>e. error j' = Some e \<and>
            ((\<exists>w1. merge_video_clips (net ev) [] [] w = Some (Inl e, w1)) \<or>
             (\<exists>final_video_url w1 w2.
                merge_video_clips (net ev) [] [] w = Some (Inr final_video_url, w1) \<and>
                download_and_save_video ev final_video_url job_id w1 = (Inl e, w2)) \<or>
             (\<exists>final_video_url w1 video_filename w2.
                merge_video_clips (net ev) [] [] w = Some (Inr final_video_url, w1) \<and>
                download_and_save_video ev final_video_url job_id w1 =
                  (Inr video_filename, w2) \<and>
                metadata_save ev = Some e))))) \<and>
    (\<forall>ev' answer.
       scenes_reply ev' = Inr answer \<and>
       (\<forall>line\<in>set (split_on CHR 0x0A (strip_where is_space answer)).
           \<not> starts_with ''Scene '' (strip_where is_space line)) \<longrightarrow>
       generate_detailed_video_prompts ev' vi = Inr [])"
proof (intro conjI allI impI)
  fix ev' :: env and answer
  assume "scenes_reply ev' = Inr answer \<and>
       (\<forall>line\<in>set (split_on CHR 0x0A (strip_where is_space answer)).
           \<not> starts_with ''Scene '' (strip_where is_space line))"
  then show "generate_detailed_video_prompts ev' vi = Inr []"
    by (simp add: generate_detailed_video_prompts_def scenes_of_lines_none)
next
  let ?inc = include_snd
  let ?raised = "\<lambda>e. (\<exists>w1. merge_video_clips (net ev) [] [] w = Some (Inl e, w1)) \<or>
             (\<exists>final_video_url w1 w2.
                merge_video_clips (net ev) [] [] w = Some (Inr final_video_url, w1) \<and>
                download_and_save_video ev final_video_url job_id w1 = (Inl e, w2)) \<or>
             (\<exists>final_video_url w1 video_filename w2.
                merge_video_clips (net ev) [] [] w = Some (Inr final_video_url, w1) \<and>
                download_and_save_video ev final_video_url job_id w1 =
                  (Inr video_filename, w2) \<and>
                metadata_save ev = Some e)"
  from video_generation_body_halts obtain x1 s1 w1 where
    body: "video_generation_body ev job_id ?inc s w = Some (x1, s1, w1)" by (metis surj_pair)
  from run_video_generation_outcome[OF assms(1) body, of custom_prmpt] obtain s' j' where
    run: "run_video_generation ev job_id custom_prmpt ?inc s w = Some (None, s', w1)"
    and j': "job_of s' job_id = Some j'"
    and st: "status j' = (if x1 = None then ''completed'' else ''failed'')"
    and er: "x1 \<noteq> None \<longrightarrow> error j' = x1" by blast
  from body have
    "(\<exists>qs. requests w1 = requests w @ POST (Url fal_ffmpeg_url) (compose_payload [] []) # qs \<and>
        list_all is_get qs) \<and>
     (x1 = None \<longleftrightarrow>
         (\<exists>final w2 fname w3.
            merge_video_clips (net ev) [] [] w = Some (Inr final, w2) \<and>
            download_and_save_video ev final job_id w2 = (Inr fname, w3) \<and>
            metadata_save ev = None)) \<and>
     (\<forall>e. x1 = Some e \<longrightarrow> ?raised e)"
  proof (cases rule: video_generation_body_cases)
    case (init_failed e)
    with assms show ?thesis by simp
  next
    case (idea_failed e)
    with assms show ?thesis by simp
  next
    case (scenes_failed vi' e)
    with assms show ?thesis by simp
  next
    case (clips_failed vi' scenes e)
    with assms show ?thesis by (simp add: generate_video_clips_def)
  next
    case (finishing vi' scenes vus w1' sus s5 w2)
    with assms have sc: "vi' = vi" "scenes = []" by simp_all
    with finishing(4) have v: "vus = []" "w1' = w" by (simp_all add: generate_video_clips_def)
    from finishing(5) v have ss: "sus = []" "w2 = w"
      by (simp_all add: sound_stage_def)
    from finishing(6) v ss sc
    have fin: "finish_generation ev job_id ?inc vi [] [] [] s5 w = Some (x1, s1, w1)" by simp
    from finish_generation_world[OF fin]
    have rq: "\<exists>qs. requests w1 = requests w @ POST (Url fal_ffmpeg_url) (compose_payload [] []) # qs \<and>
        list_all is_get qs" by blast
    from fin have "(x1 = None \<longleftrightarrow>
         (\<exists>final w2 fname w3.
            merge_video_clips (net ev) [] [] w = Some (Inr final, w2) \<and>
            download_and_save_video ev final job_id w2 = (Inr fname, w3) \<and>
            metadata_save ev = None)) \<and> (\<forall>e. x1 = Some e \<longrightarrow> ?raised e)"
    proof (cases rule: finish_generation_cases)
      case (merge_failed e)
      then show ?thesis by simp
    next
      case (download_failed final w2 e)
      then show ?thesis by auto
    next
      case (metadata_failed final w2 fname e)
      then show ?thesis by auto
    next
      case (completed final w2 fname w3)
      then show ?thesis by auto
    qed
    with rq show ?thesis by blast
  qed
  then obtain qs where rq: "requests w1 = requests w @ POST (Url fal_ffmpeg_url) (compose_payload [] []) # qs"
    "list_all is_get qs"
    and iff: "x1 = None \<longleftrightarrow>
         (\<exists>final w2 fname w3.
            merge_video_clips (net ev) [] [] w = Some (Inr final, w2) \<and>
            download_and_save_video ev final job_id w2 = (Inr fname, w3) \<and>
            metadata_save ev = None)"
    and raised: "\<forall>e. x1 = Some e \<longrightarrow> ?raised e" by blast
  have pay: "compose_payload [] [] =
      JObj [(''tracks'', JArr [JObj [(''id'', JStr ''1''), (''type'', JStr ''video''),
                              (''keyframes'', JArr [])]])]"
    by (simp add: compose_payload_def compose_tracks_def video_track_def)
  have s1: "status j' = ''completed'' \<or> status j' = ''failed''" using st by simp
  have s2: "status j' = ''completed'' \<longleftrightarrow> x1 = None" using st by simp
  have s3: "status j' = ''failed'' \<longrightarrow> (\<exists>e. error j' = Some e \<and> ?raised e)"
  proof
    assume "status j' = ''failed''"
    with st obtain e where e: "x1 = Some e" by (cases x1) auto
    with er raised have "error j' = Some e" "?raised e" by simp_all
    then show "\<exists>e. error j' = Some e \<and> ?raised e" by blast
  qed
  have s2': "status j' = ''completed'' \<longleftrightarrow>
         (\<exists>final_video_url w1 video_filename w2.
            merge_video_clips (net ev) [] [] w = Some (Inr final_video_url, w1) \<and>
            download_and_save_video ev final_video_url job_id w1 = (Inr video_filename, w2) \<and>
            metadata_save ev = None)" using s2 iff by simp
  from run rq[unfolded pay] j' s1 s2' s3
  show "\<exists>s' w' qs j'.
      run_video_generation ev job_id custom_prmpt include_snd s w = Some (None, s', w') \<and>
      requests w' = requests w @
        POST (Url fal_ffmpeg_url)
          (JObj [(''tracks'',
                  JArr [JObj [(''id'', JStr ''1''), (''type'', JStr ''video''),
                              (''keyframes'', JArr [])]])]) # qs \<and>
      list_all is_get qs \<and>
      job_of s' job_id = Some j' \<and>
      (status j' = ''completed'' \<or> status j' = ''failed'') \<and>
      (status j' = ''completed'' \<longleftrightarrow>
         (\<exists>final_video_url w1 video_filename w2.
            merge_video_clips (net ev) [] [] w = Some (Inr final_video_url, w1) \<and>
            download_and_save_video ev final_video_url job_id w1 = (Inr video_filename, w2) \<and>
            metadata_save ev = None)) \<and>
      (status j' = ''failed'' \<longrightarrow> (\<exists>e. error j' = Some e \<and> ?raised e))"
    by - (rule exI[of _ s'], rule exI[of _ w1], rule exI[of _ qs], rule exI[of _ j'],
        intro conjI, assumption+)
qed

text \<open>
  Two runs whose scripting answer has no scene line: with a composition provider that
  renders the empty track the job is completed, with one that cannot be reached the job
  fails with the request exception of the composition stage.
\<close>

theorem zero_scenes_not_rejected_witness:
  "(\<exists>s' w' qs j'.
      run_video_generation (demo_env compose_only no_scene_answer) demo_job_id None True
        one_job w0 = Some (None, s', w') \<and>
      requests w' = requests w0 @
        POST (Url fal_ffmpeg_url)
          (JObj [(''tracks'',
                  JArr [JObj [(''id'', JStr ''1''), (''type'', JStr ''video''),
                              (''keyframes'', JArr [])]])]) # qs \<and>
      list_all is_get qs \<and>
      job_of s' demo_job_id = Some j' \<and> status j' = ''completed'') \<and>
   (\<exists>s' w' qs j'.
      run_video_generation (demo_env composition_unreachable no_scene_answer) demo_job_id None
        True one_job w0 = Some (None, s', w') \<and>
      requests w' = requests w0 @
        POST (Url fal_ffmpeg_url)
          (JObj [(''tracks'',
                  JArr [JObj [(''id'', JStr ''1''), (''type'', JStr ''video''),
                              (''keyframes'', JArr [])]])]) # qs \<and>
      list_all is_get qs \<and>
      job_of s' demo_job_id = Some j' \<and> status j' = ''failed'' \<and>
      error j' = Some RequestException) \<and>
   generate_detailed_video_prompts (demo_env compose_only no_scene_answer) demo_idea = Inr []"
proof -
  let ?ev = "demo_env compose_only no_scene_answer"
  let ?ev2 = "demo_env composition_unreachable no_scene_answer"
  note inst = zero_scenes_not_rejected[OF demo_registered demo_env_simps(2,3) no_scene_parsed,
      of compose_only None True w0]
  note inst2 = zero_scenes_not_rejected[OF demo_registered demo_env_simps(2,3) no_scene_parsed,
      of composition_unreachable None True w0]
  from inst have "\<forall>ev' answer.
       scenes_reply ev' = Inr answer \<and>
       (\<forall>line\<in>set (split_on CHR 0x0A (strip_where is_space answer)).
           \<not> starts_with ''Scene '' (strip_where is_space line)) \<longrightarrow>
       generate_detailed_video_prompts ev' demo_idea = Inr []" by (rule conjunct2)
  with no_scene_lines
  have 3: "generate_detailed_video_prompts ?ev demo_idea = Inr []" by blast
  have ok: "\<exists>final_video_url w1 video_filename w2.
            merge_video_clips (net ?ev) [] [] w0 = Some (Inr final_video_url, w1) \<and>
            download_and_save_video ?ev final_video_url demo_job_id w1 =
              (Inr video_filename, w2) \<and>
            metadata_save ?ev = None"
    using no_scene_merged no_scene_downloaded by (simp add: demo_env_simps)
  from inst[THEN conjunct1] ok
  have 1: "\<exists>s' w' qs j'.
      run_video_generation ?ev demo_job_id None True one_job w0 = Some (None, s', w') \<and>
      requests w' = requests w0 @
        POST (Url fal_ffmpeg_url)
          (JObj [(''tracks'',
                  JArr [JObj [(''id'', JStr ''1''), (''type'', JStr ''video''),
                              (''keyframes'', JArr [])]])]) # qs \<and>
      list_all is_get qs \<and>
      job_of s' demo_job_id = Some j' \<and> status j' = ''completed''"
    by blast
  have m: "merge_video_clips (net ?ev2) [] [] w0 =
      Some (Inl RequestException, asked [POST (Url fal_ffmpeg_url) (compose_payload [] [])])"
    by (simp add: composition_unreachable_def demo_eval)
  then have no: "\<not> (\<exists>final_video_url w1 video_filename w2.
            merge_video_clips (net ?ev2) [] [] w0 = Some (Inr final_video_url, w1) \<and>
            download_and_save_video ?ev2 final_video_url demo_job_id w1 =
              (Inr video_filename, w2) \<and>
            metadata_save ?ev2 = None)" by simp
  from m have only: "\<And>e.
     (\<exists>w1. merge_video_clips (net ?ev2) [] [] w0 = Some (Inl e, w1)) \<or>
     (\<exists>final_video_url w1 w2.
         merge_video_clips (net ?ev2) [] [] w0 = Some (Inr final_video_url, w1) \<and>
         download_and_save_video ?ev2 final_video_url demo_job_id w1 = (Inl e, w2)) \<or>
     (\<exists>final_video_url w1 video_filename w2.
         merge_video_clips (net ?ev2) [] [] w0 = Some (Inr final_video_url, w1) \<and>
         download_and_save_video ?ev2 final_video_url demo_job_id w1 =
           (Inr video_filename, w2) \<and>
         metadata_save ?ev2 = Some e) \<Longrightarrow> e = RequestException" by simp
  from inst2[THEN conjunct1] obtain s' w' qs j' where
    a: "run_video_generation ?ev2 demo_job_id None True one_job w0 = Some (None, s', w')"
      "requests w' = requests w0 @
        POST (Url fal_ffmpeg_url)
          (JObj [(''tracks'',
                  JArr [JObj [(''id'', JStr ''1''), (''type'', JStr ''video''),
                              (''keyframes'', JArr [])]])]) # qs"
      "list_all is_get qs" "job_of s' demo_job_id = Some j'"
    and b: "status j' = ''completed'' \<or> status j' = ''failed''"
      "status j' = ''completed'' \<longleftrightarrow>
         (\<exists>final_video_url w1 video_filename w2.
            merge_video_clips (net ?ev2) [] [] w0 = Some (Inr final_video_url, w1) \<and>
            download_and_save_video ?ev2 final_video_url demo_job_id w1 =
              (Inr video_filename, w2) \<and>
            metadata_save ?ev2 = None)"
    and c: "status j' = ''failed'' \<longrightarrow>
         (\<exists>e. error j' = Some e \<and>
            ((\<exists>w1. merge_video_clips (net ?ev2) [] [] w0 = Some (Inl e, w1)) \<or>
             (\<exists>final_video_url w1 w2.
                merge_video_clips (net ?ev2) [] [] w0 = Some (Inr final_video_url, w1) \<and>
                download_and_save_video ?ev2 final_video_url demo_job_id w1 = (Inl e, w2)) \<or>
             (\<exists>final_video_url w1 video_filename w2.
                merge_video_clips (net ?ev2) [] [] w0 = Some (Inr final_video_url, w1) \<and>
                download_and_save_video ?ev2 final_video_url demo_job_id w1 =
                  (Inr video_filename, w2) \<and>
                metadata_save ?ev2 = Some e)))"
    by blast
  from b no have f: "status j' = ''failed''" by blast
  with c only have "error j' = Some RequestException" by blast
  with a f have 2: "\<exists>s' w' qs j'.
      run_video_generation ?ev2 demo_job_id None True one_job w0 = Some (None, s', w') \<and>
      requests w' = requests w0 @
        POST (Url fal_ffmpeg_url)
          (JObj [(''tracks'',
                  JArr [JObj [(''id'', JStr ''1''), (''type'', JStr ''video''),
                              (''keyframes'', JArr [])]])]) # qs \<and>
      list_all is_get qs \<and>
      job_of s' demo_job_id = Some j' \<and> status j' = ''failed'' \<and>
      error j' = Some RequestException" by blast
  from 1 2 3 show ?thesis by (intro conjI)
qed

text \<open>
  C3 as stated fails: in the first of these runs the background task returns without an
  exception, the job ends with the status \<^verbatim>\<open>completed\<close>, not \<^verbatim>\<open>failed\<close>, and a
  composition request was sent.
\<close>

theorem zero_scenes_not_rejected_counterexample:
  "map_option
     (\<lambda>(x, s', w'). (x, map_option status (job_of s' demo_job_id), requests w'))
     (run_video_generation (demo_env compose_only no_scene_answer) demo_job_id None True
        one_job w0) =
   Some (None, Some ''completed'',
         [POST (Url fal_ffmpeg_url)
            (JObj [(''tracks'',
                    JArr [JObj [(''id'', JStr ''1''), (''type'', JStr ''video''),
                                (''keyframes'', JArr [])]])]),
          GET (fal_status_url (JStr ''m1'')),
          GET (UrlOf (JStr ''https://cdn/final.mp4''))])"
proof -
  from no_scene_run obtain s' j' where
    run: "run_video_generation (demo_env compose_only no_scene_answer) demo_job_id None True
       one_job w0 = Some (None, s', no_scene_world)"
    and j: "job_of s' demo_job_id = Some j'" "status j' = ''completed''" by blast
  have rq: "requests no_scene_world =
      [POST (Url fal_ffmpeg_url)
            (JObj [(''tracks'',
                    JArr [JObj [(''id'', JStr ''1''), (''type'', JStr ''video''),
                                (''keyframes'', JArr [])]])]),
          GET (fal_status_url (JStr ''m1'')),
          GET (UrlOf (JStr ''https://cdn/final.mp4''))]"
    by (simp add: no_scene_world_def asked_def w0_def merge_requests_def compose_payload_def
        compose_tracks_def video_track_def)
  from run j rq show ?thesis by simp
qed

text \<open>
  C4, as the code has it. Every polling session ends. When it does not end with a
  payload, the exception is one of: the provider-reported failure (carrying the
  provider's \<^verbatim>\<open>error\<close> field); the timeout, raised only once \<^verbatim>\<open>max_wait_time\<close> has
  elapsed; an exception raised on an answer of unexpected shape (for Fal the
  could-not-find-video-URL exception, \<^verbatim>\<open>KeyError\<close>, \<^verbatim>\<open>TypeError\<close> or
  \<^verbatim>\<open>AttributeError\<close>; for Wavespeed \<^verbatim>\<open>KeyError\<close>, \<^verbatim>\<open>IndexError\<close>, \<^verbatim>\<open>TypeError\<close> or
  \<^verbatim>\<open>AttributeError\<close>); and, for Fal only, the bad-request exception for an HTTP 400
  answer that is not the in-progress one. No \<^verbatim>\<open>RequestException\<close> leaves a poller.
\<close>

theorem poller_failures:
  "(\<exists>r w'. poll_fal_completion nt request_id item_name base_url max_wait_time w = Some (r, w')) \<and>
   (\<forall>e w'. poll_fal_completion nt request_id item_name base_url max_wait_time w = Some (Inl e, w') \<longrightarrow>
      fal_raises item_name e \<or>
      (e = TimedOut item_name max_wait_time \<and> max_wait_time \<le> clock w' - clock w)) \<and>
   (\<exists>r w'. poll_wavespeed_completion nt prediction_id item_name max_wait_time w = Some (r, w')) \<and>
   (\<forall>e w'. poll_wavespeed_completion nt prediction_id item_name max_wait_time w = Some (Inl e, w') \<longrightarrow>
      wavespeed_raises item_name e \<or>
      (e = TimedOut item_name max_wait_time \<and> max_wait_time \<le> clock w' - clock w))"
proof (intro conjI allI impI)
  show "\<exists>r w'. poll_fal_completion nt request_id item_name base_url max_wait_time w = Some (r, w')"
    using poll_fal_halts[of nt request_id item_name base_url max_wait_time w] by auto
  show "\<exists>r w'. poll_wavespeed_completion nt prediction_id item_name max_wait_time w = Some (r, w')"
    using poll_wavespeed_halts[of nt prediction_id item_name max_wait_time w] by auto
next
  fix e w'
  assume run: "poll_fal_completion nt request_id item_name base_url max_wait_time w = Some (Inl e, w')"
  show "fal_raises item_name e \<or>
      (e = TimedOut item_name max_wait_time \<and> max_wait_time \<le> clock w' - clock w)"
  proof (cases "e = TimedOut item_name max_wait_time")
    case True
    with run have "poll_loop (fal_body nt (fal_status_url request_id) item_name) item_name
        max_wait_time (clock w) w 5 = Some (Inl (TimedOut item_name max_wait_time), w')"
      by (simp add: poll_fal_completion_def)
    from poller_timeout_late[OF poller_body_fal _ this] True show ?thesis by simp
  next
    case False
    with poll_fal_summary(2)[OF run] show ?thesis by simp
  qed
next
  fix e w'
  assume run: "poll_wavespeed_completion nt prediction_id item_name max_wait_time w = Some (Inl e, w')"
  show "wavespeed_raises item_name e \<or>
      (e = TimedOut item_name max_wait_time \<and> max_wait_time \<le> clock w' - clock w)"
  proof (cases "e = TimedOut item_name max_wait_time")
    case True
    with run have "poll_loop (wavespeed_body nt (wavespeed_result_url prediction_id) item_name) item_name
        max_wait_time (clock w) w 5 = Some (Inl (TimedOut item_name max_wait_time), w')"
      by (simp add: poll_wavespeed_completion_def)
    from poller_timeout_late[OF poller_body_wavespeed _ this] True show ?thesis by simp
  next
    case False
    with poll_wavespeed_summary(2)[OF run] show ?thesis by simp
  qed
qed

text \<open>
  A session that ends with the could-not-find-video-URL exception, one of those the Fal
  poller raises.
\<close>

theorem poller_failures_witness:
  "poll_fal_completion completed_without_url (JStr ''r1'') ''video rendering''
      ''https://queue.fal.run/fal-ai/ffmpeg-api/requests/'' 300 w0 =
   Some (Inl (NoVideoURLInResponse ''video rendering''),
         \<lparr>clock = 0, requests = [GET (fal_status_url (JStr ''r1''))], sleeps = [],
          video_files = [], metadata_files = []\<rparr>) \<and>
   fal_raises ''video rendering'' (NoVideoURLInResponse ''video rendering'')"
  using completed_without_url_run
    poller_failures[THEN conjunct2, THEN conjunct1, rule_format, OF completed_without_url_run]
  by simp

text \<open>
  The claim as stated (provider failure and timeout are the only non-success outcomes)
  fails: a status answer \<^verbatim>\<open>{"status": "completed"}\<close> without any video URL ends the
  session at the first poll with the could-not-find-video-URL exception.
\<close>

theorem poller_failures_counterexample:
  "map_option fst
     (poll_fal_completion completed_without_url (JStr ''r1'') ''video rendering''
        ''https://queue.fal.run/fal-ai/ffmpeg-api/requests/'' 300 w0) =
   Some (Inl (NoVideoURLInResponse ''video rendering''))"
  by (simp add: completed_without_url_run)

text \<open>
  C5, as the code has it. The durations a polling session sleeps form a sequence that
  starts at 5 seconds in every session, never decreases, never exceeds 15, and in which
  each duration is its predecessor or its predecessor plus 2 (capped at 15); this holds
  for both pollers and any provider (first and second conjunct). The interval grows
  after a poll answered with a recognized in-progress status (for Fal also after the
  in-progress answer carried by HTTP 400) and stays as it is after a poll answered with
  an unrecognized status, an HTTP error code or no reply at all (third to ninth
  conjunct). For each poller, three answers within the waiting time whose statuses are,
  in the vocabulary of that poller, in progress, in progress and success give the payload
  after exactly three status queries and the sleeps 5 and 7 (last two conjuncts): for
  Wavespeed for instance \<^verbatim>\<open>pending\<close>, \<^verbatim>\<open>pending\<close>, \<^verbatim>\<open>succeeded\<close>; for Fal for
  instance \<^verbatim>\<open>IN_QUEUE\<close>, \<^verbatim>\<open>IN_PROGRESS\<close>, \<^verbatim>\<open>COMPLETED\<close>, the last answer carrying
  the payload itself and no \<^verbatim>\<open>response_url\<close>. The two vocabularies differ: a status
  that a poller does not recognize, such as \<^verbatim>\<open>pending\<close> for Fal, is covered by the
  conjuncts on unrecognized statuses.
\<close>

theorem backoff_schedule:
  "(poll_wavespeed_completion nt prediction_id item_name max_wait_time w = Some (r, w') \<longrightarrow>
      (\<exists>ss. sleeps w' = sleeps w @ ss \<and> backoff ss)) \<and>
   (poll_fal_completion nt request_id item_name base_url max_wait_time w = Some (r, w') \<longrightarrow>
      (\<exists>ss. sleeps w' = sleeps w @ ss \<and> backoff ss)) \<and>
   (http nt (GET u) w = (Reply code (Some d) raw, w1) \<and> \<not> http_error code \<and>
    wavespeed_status d = Inr st \<and> st \<in> set wavespeed_processing_statuses \<longrightarrow>
      wavespeed_body nt u item_name w iv = Again (sleep iv w1) (min (iv + 2) 15)) \<and>
   (http nt (GET u) w = (Reply code (Some d) raw, w1) \<and> \<not> http_error code \<and>
    wavespeed_status d = Inr st \<and> st \<notin> set wavespeed_succeeded_statuses \<and>
    st \<noteq> JStr ''failed'' \<and> st \<notin> set wavespeed_processing_statuses \<longrightarrow>
      wavespeed_body nt u item_name w iv = Again (sleep iv w1) iv) \<and>
   (http nt (GET u) w = (NoReply, w1) \<or>
    (http nt (GET u) w = (Reply code body raw, w1) \<and> http_error code) \<longrightarrow>
      wavespeed_body nt u item_name w iv = Again (sleep iv w1) iv) \<and>
   (http nt (GET u) w = (Reply code (Some d) raw, w1) \<and> code \<noteq> 400 \<and> \<not> http_error code \<and>
    py_get d ''status'' (JStr ''unknown'') = Inr st \<and> st \<in> set fal_processing_statuses \<longrightarrow>
      fal_body nt u item_name w iv = Again (sleep iv w1) (min (iv + 2) 15)) \<and>
   (http nt (GET u) w = (Reply 400 body raw, w1) \<and> still_in_progress body \<longrightarrow>
      fal_body nt u item_name w iv = Again (sleep iv w1) (min (iv + 2) 15)) \<and>
   (http nt (GET u) w = (Reply code (Some d) raw, w1) \<and> code \<noteq> 400 \<and> \<not> http_error code \<and>
    py_get d ''status'' (JStr ''unknown'') = Inr st \<and> st \<notin> set fal_completed_statuses \<and>
    st \<noteq> JStr ''failed'' \<and> st \<notin> set fal_processing_statuses \<longrightarrow>
      fal_body nt u item_name w iv = Again (sleep iv w1) iv) \<and>
   (http nt (GET u) w = (NoReply, w1) \<or>
    (http nt (GET u) w = (Reply code body raw, w1) \<and> http_error code \<and> code \<noteq> 400) \<longrightarrow>
      fal_body nt u item_name w iv = Again (sleep iv w1) iv) \<and>
   (nt (length (requests w)) = (l0, Reply c0 (Some d0) t0) \<and>
    nt (length (requests w) + 1) = (l1, Reply c1 (Some d1) t1) \<and>
    nt (length (requests w) + 2) = (l2, Reply c2 (Some d2) t2) \<and>
    \<not> http_error c0 \<and> \<not> http_error c1 \<and> \<not> http_error c2 \<and>
    wavespeed_status d0 = Inr st0 \<and> st0 \<in> set wavespeed_processing_statuses \<and>
    wavespeed_status d1 = Inr st1 \<and> st1 \<in> set wavespeed_processing_statuses \<and>
    wavespeed_status d2 = Inr st2 \<and> st2 \<in> set wavespeed_succeeded_statuses \<and>
    l0 + 5 + l1 + 7 < max_wait_time \<longrightarrow>
      poll_wavespeed_completion nt prediction_id item_name max_wait_time w =
        Some (ebind (py_item d2 ''data'') (\<lambda>x. ebind (py_item x ''outputs'') py_first),
              w\<lparr>clock := clock w + l0 + 5 + l1 + 7 + l2,
                requests := requests w @ [GET (wavespeed_result_url prediction_id),
                                          GET (wavespeed_result_url prediction_id),
                                          GET (wavespeed_result_url prediction_id)],
                sleeps := sleeps w @ [5, 7]\<rparr>)) \<and>
   (nt (length (requests w)) = (l0, Reply c0 (Some d0) t0) \<and>
    nt (length (requests w) + 1) = (l1, Reply c1 (Some d1) t1) \<and>
    nt (length (requests w) + 2) = (l2, Reply c2 (Some d2) t2) \<and>
    \<not> http_error c0 \<and> \<not> http_error c1 \<and> \<not> http_error c2 \<and>
    c0 \<noteq> 400 \<and> c1 \<noteq> 400 \<and> c2 \<noteq> 400 \<and>
    py_get d0 ''status'' (JStr ''unknown'') = Inr st0 \<and> st0 \<in> set fal_processing_statuses \<and>
    py_get d1 ''status'' (JStr ''unknown'') = Inr st1 \<and> st1 \<in> set fal_processing_statuses \<and>
    py_get d2 ''status'' (JStr ''unknown'') = Inr st2 \<and> st2 \<in> set fal_completed_statuses \<and>
    py_in ''response_url'' d2 = Inr False \<and>
    l0 + 5 + l1 + 7 < max_wait_time \<longrightarrow>
      poll_fal_completion nt request_id item_name base_url max_wait_time w =
        Some (find_video_url d2 (NoVideoURLInResponse item_name),
              w\<lparr>clock := clock w + l0 + 5 + l1 + 7 + l2,
                requests := requests w @ [GET (fal_status_url request_id),
                                          GET (fal_status_url request_id),
                                          GET (fal_status_url request_id)],
                sleeps := sleeps w @ [5, 7]\<rparr>))"
proof (intro conjI impI)
  assume "poll_wavespeed_completion nt prediction_id item_name max_wait_time w = Some (r, w')"
  from poll_wavespeed_summary(1)[OF this] show "\<exists>ss. sleeps w' = sleeps w @ ss \<and> backoff ss"
    by (auto simp: poll_post_def)
next
  assume "poll_fal_completion nt request_id item_name base_url max_wait_time w = Some (r, w')"
  from poll_fal_summary(1)[OF this] show "\<exists>ss. sleeps w' = sleeps w @ ss \<and> backoff ss"
    by (auto simp: poll_post_def)
next
  assume "http nt (GET u) w = (Reply code (Some d) raw, w1) \<and> \<not> http_error code \<and>
    wavespeed_status d = Inr st \<and> st \<in> set wavespeed_processing_statuses"
  then show "wavespeed_body nt u item_name w iv = Again (sleep iv w1) (min (iv + 2) 15)"
    by (simp add: wavespeed_body_answered wavespeed_dispatch_processing)
next
  assume "http nt (GET u) w = (Reply code (Some d) raw, w1) \<and> \<not> http_error code \<and>
    wavespeed_status d = Inr st \<and> st \<notin> set wavespeed_succeeded_statuses \<and>
    st \<noteq> JStr ''failed'' \<and> st \<notin> set wavespeed_processing_statuses"
  then show "wavespeed_body nt u item_name w iv = Again (sleep iv w1) iv"
    by (simp add: wavespeed_body_answered wavespeed_dispatch_unrecognized)
next
  assume "http nt (GET u) w = (NoReply, w1) \<or>
    (http nt (GET u) w = (Reply code body raw, w1) \<and> http_error code)"
  then show "wavespeed_body nt u item_name w iv = Again (sleep iv w1) iv"
    by (auto simp add: wavespeed_body_no_reply wavespeed_body_http_error)
next
  assume "http nt (GET u) w = (Reply code (Some d) raw, w1) \<and> code \<noteq> 400 \<and> \<not> http_error code \<and>
    py_get d ''status'' (JStr ''unknown'') = Inr st \<and> st \<in> set fal_processing_statuses"
  then show "fal_body nt u item_name w iv = Again (sleep iv w1) (min (iv + 2) 15)"
    by (simp add: fal_body_answered fal_dispatch_processing)
next
  assume "http nt (GET u) w = (Reply 400 body raw, w1) \<and> still_in_progress body"
  then show "fal_body nt u item_name w iv = Again (sleep iv w1) (min (iv + 2) 15)"
    by (simp add: fal_body_still_in_progress)
next
  assume "http nt (GET u) w = (Reply code (Some d) raw, w1) \<and> code \<noteq> 400 \<and> \<not> http_error code \<and>
    py_get d ''status'' (JStr ''unknown'') = Inr st \<and> st \<notin> set fal_completed_statuses \<and>
    st \<noteq> JStr ''failed'' \<and> st \<notin> set fal_processing_statuses"
  then show "fal_body nt u item_name w iv = Again (sleep iv w1) iv"
    by (simp add: fal_body_answered fal_dispatch_unrecognized)
next
  assume "http nt (GET u) w = (NoReply, w1) \<or>
    (http nt (GET u) w = (Reply code body raw, w1) \<and> http_error code \<and> code \<noteq> 400)"
  then show "fal_body nt u item_name w iv = Again (sleep iv w1) iv"
    by (auto simp add: fal_body_no_reply fal_body_http_error)
next
  assume "nt (length (requests w)) = (l0, Reply c0 (Some d0) t0) \<and>
    nt (length (requests w) + 1) = (l1, Reply c1 (Some d1) t1) \<and>
    nt (length (requests w) + 2) = (l2, Reply c2 (Some d2) t2) \<and>
    \<not> http_error c0 \<and> \<not> http_error c1 \<and> \<not> http_error c2 \<and>
    wavespeed_status d0 = Inr st0 \<and> st0 \<in> set wavespeed_processing_statuses \<and>
    wavespeed_status d1 = Inr st1 \<and> st1 \<in> set wavespeed_processing_statuses \<and>
    wavespeed_status d2 = Inr st2 \<and> st2 \<in> set wavespeed_succeeded_statuses \<and>
    l0 + 5 + l1 + 7 < max_wait_time"
  then show "poll_wavespeed_completion nt prediction_id item_name max_wait_time w =
        Some (ebind (py_item d2 ''data'') (\<lambda>x. ebind (py_item x ''outputs'') py_first),
              w\<lparr>clock := clock w + l0 + 5 + l1 + 7 + l2,
                requests := requests w @ [GET (wavespeed_result_url prediction_id),
                                          GET (wavespeed_result_url prediction_id),
                                          GET (wavespeed_result_url prediction_id)],
                sleeps := sleeps w @ [5, 7]\<rparr>)"
    by (elim conjE, intro wavespeed_three_polls) assumption+
next
  assume "nt (length (requests w)) = (l0, Reply c0 (Some d0) t0) \<and>
    nt (length (requests w) + 1) = (l1, Reply c1 (Some d1) t1) \<and>
    nt (length (requests w) + 2) = (l2, Reply c2 (Some d2) t2) \<and>
    \<not> http_error c0 \<and> \<not> http_error c1 \<and> \<not> http_error c2 \<and>
    c0 \<noteq> 400 \<and> c1 \<noteq> 400 \<and> c2 \<noteq> 400 \<and>
    py_get d0 ''status'' (JStr ''unknown'') = Inr st0 \<and> st0 \<in> set fal_processing_statuses \<and>
    py_get d1 ''status'' (JStr ''unknown'') = Inr st1 \<and> st1 \<in> set fal_processing_statuses \<and>
    py_get d2 ''status'' (JStr ''unknown'') = Inr st2 \<and> st2 \<in> set fal_completed_statuses \<and>
    py_in ''response_url'' d2 = Inr False \<and>
    l0 + 5 + l1 + 7 < max_wait_time"
  then show "poll_fal_completion nt request_id item_name base_url max_wait_time w =
        Some (find_video_url d2 (NoVideoURLInResponse item_name),
              w\<lparr>clock := clock w + l0 + 5 + l1 + 7 + l2,
                requests := requests w @ [GET (fal_status_url request_id),
                                          GET (fal_status_url request_id),
                                          GET (fal_status_url request_id)],
                sleeps := sleeps w @ [5, 7]\<rparr>)"
    by (elim conjE, intro fal_three_polls) assumption+
qed

text \<open>
  The two scripted sessions: \<^verbatim>\<open>pending\<close>, \<^verbatim>\<open>pending\<close>, \<^verbatim>\<open>succeeded\<close> for Wavespeed
  and \<^verbatim>\<open>IN_QUEUE\<close>, \<^verbatim>\<open>IN_PROGRESS\<close>, \<^verbatim>\<open>COMPLETED\<close> for Fal; and the first poll of
  a Fal session that is answered \<^verbatim>\<open>pending\<close>, which Fal does not recognize: it sleeps
  5 seconds and the interval stays 5.
\<close>

theorem backoff_schedule_witness:
  "poll_wavespeed_completion pending_pending_succeeded_script (JStr ''p1'') ''clip 1'' 300 w0 =
     Some (Inr (JStr ''https://cdn/c1.mp4''),
           \<lparr>clock = 12,
            requests = [GET (wavespeed_result_url (JStr ''p1'')),
                        GET (wavespeed_result_url (JStr ''p1'')),
                        GET (wavespeed_result_url (JStr ''p1''))],
            sleeps = [5, 7], video_files = [], metadata_files = []\<rparr>) \<and>
   poll_fal_completion in_queue_in_progress_completed_script (JStr ''r1'') ''ASMR sound''
       ''https://queue.fal.run/fal-ai/mmaudio-v2/requests/'' 300 w0 =
     Some (Inr (JStr ''https://cdn/s1.wav''),
           \<lparr>clock = 12,
            requests = [GET (fal_status_url (JStr ''r1'')),
                        GET (fal_status_url (JStr ''r1'')),
                        GET (fal_status_url (JStr ''r1''))],
            sleeps = [5, 7], video_files = [], metadata_files = []\<rparr>) \<and>
   fal_body pending_pending_succeeded_script (fal_status_url (JStr ''r1'')) ''ASMR sound'' w0 5 =
     Again (w0\<lparr>requests := [GET (fal_status_url (JStr ''r1''))], sleeps := [5], clock := 5\<rparr>) 5"
proof -
  have "poll_wavespeed_completion pending_pending_succeeded_script (JStr ''p1'') ''clip 1'' 300 w0 =
     Some (Inr (JStr ''https://cdn/c1.mp4''),
           \<lparr>clock = 12,
            requests = [GET (wavespeed_result_url (JStr ''p1'')),
                        GET (wavespeed_result_url (JStr ''p1'')),
                        GET (wavespeed_result_url (JStr ''p1''))],
            sleeps = [5, 7], video_files = [], metadata_files = []\<rparr>)"
    using backoff_schedule[where nt = pending_pending_succeeded_script and w = w0
      and ?l0.0 = 0 and ?c0.0 = 200 and ?d0.0 = "JObj [(''status'', JStr ''pending'')]" and ?t0.0 = "[]"
      and ?l1.0 = 0 and ?c1.0 = 200 and ?d1.0 = "JObj [(''status'', JStr ''pending'')]" and ?t1.0 = "[]"
      and ?l2.0 = 0 and ?c2.0 = 200
      and ?d2.0 = "JObj [(''status'', JStr ''succeeded''),
                       (''data'', JObj [(''outputs'', JArr [JStr ''https://cdn/c1.mp4''])])]"
      and ?t2.0 = "[]" and max_wait_time = 300 and prediction_id = "JStr ''p1''"
      and item_name = "''clip 1''" and ?st0.0 = "JStr ''pending''" and ?st1.0 = "JStr ''pending''"
      and ?st2.0 = "JStr ''succeeded''"]
    by (simp add: pending_pending_succeeded_script_def script_def ok_def w0_def http_error_def
        wavespeed_status_def ebind_def wavespeed_processing_statuses_def
        wavespeed_succeeded_statuses_def)
  moreover
  have "poll_fal_completion in_queue_in_progress_completed_script (JStr ''r1'') ''ASMR sound''
       ''https://queue.fal.run/fal-ai/mmaudio-v2/requests/'' 300 w0 =
     Some (Inr (JStr ''https://cdn/s1.wav''),
           \<lparr>clock = 12,
            requests = [GET (fal_status_url (JStr ''r1'')),
                        GET (fal_status_url (JStr ''r1'')),
                        GET (fal_status_url (JStr ''r1''))],
            sleeps = [5, 7], video_files = [], metadata_files = []\<rparr>)"
    using backoff_schedule[where nt = in_queue_in_progress_completed_script and w = w0
      and ?l0.0 = 0 and ?c0.0 = 200 and ?d0.0 = "JObj [(''status'', JStr ''IN_QUEUE'')]" and ?t0.0 = "[]"
      and ?l1.0 = 0 and ?c1.0 = 200 and ?d1.0 = "JObj [(''status'', JStr ''IN_PROGRESS'')]" and ?t1.0 = "[]"
      and ?l2.0 = 0 and ?c2.0 = 200
      and ?d2.0 = "JObj [(''status'', JStr ''COMPLETED''),
                       (''video_url'', JStr ''https://cdn/s1.wav'')]"
      and ?t2.0 = "[]" and max_wait_time = 300 and request_id = "JStr ''r1''"
      and item_name = "''ASMR sound''" and ?st0.0 = "JStr ''IN_QUEUE''"
      and ?st1.0 = "JStr ''IN_PROGRESS''" and ?st2.0 = "JStr ''COMPLETED''"
      and base_url = "''https://queue.fal.run/fal-ai/mmaudio-v2/requests/''"]
    by (simp add: in_queue_in_progress_completed_script_def script_def ok_def w0_def
        http_error_def ebind_def fal_processing_statuses_def fal_completed_statuses_def
        find_video_url_def has_nested_def)
  moreover
  have "fal_body pending_pending_succeeded_script (fal_status_url (JStr ''r1'')) ''ASMR sound'' w0 5 =
     Again (w0\<lparr>requests := [GET (fal_status_url (JStr ''r1''))], sleeps := [5], clock := 5\<rparr>) 5"
    using backoff_schedule[where nt = pending_pending_succeeded_script and w = w0
      and u = "fal_status_url (JStr ''r1'')" and code = 200
      and d = "JObj [(''status'', JStr ''pending'')]" and raw = "[]"
      and ?w1.0 = "w0\<lparr>requests := [GET (fal_status_url (JStr ''r1''))]\<rparr>"
      and st = "JStr ''pending''" and item_name = "''ASMR sound''" and iv = 5]
    by (simp add: pending_pending_succeeded_script_def script_def ok_def w0_def http_error_def
        http_def sleep_def fal_processing_statuses_def fal_completed_statuses_def)
  ultimately show ?thesis by (intro conjI)
qed

text \<open>
  The claim as stated (the interval grows after every non-terminal poll, also one that
  saw an unrecognized status or a transport failure) fails: after an unrecognized status
  and then an unanswered request the session sleeps 5 seconds twice.
\<close>

theorem backoff_schedule_counterexample:
  "poll_wavespeed_completion unrecognized_then_unreachable_script (JStr ''p1'') ''clip 1'' 300 w0 =
     Some (Inr (JStr ''https://cdn/c1.mp4''),
           \<lparr>clock = 10,
            requests = [GET (wavespeed_result_url (JStr ''p1'')),
                        GET (wavespeed_result_url (JStr ''p1'')),
                        GET (wavespeed_result_url (JStr ''p1''))],
            sleeps = [5, 5], video_files = [], metadata_files = []\<rparr>)"
  by (simp add: poll_wavespeed_completion_def poll_loop.simps wavespeed_body_def
      wavespeed_dispatch_def wavespeed_status_def wavespeed_succeeded_statuses_def
      wavespeed_processing_statuses_def
      unrecognized_then_unreachable_script_def script_def ok_def w0_def http_def sleep_def
      http_error_def ebind_def)

text \<open>
  C6. In every state the API process can reach, the states written for any one job, in
  the order of the writes, are among \<^verbatim>\<open>started\<close>, \<^verbatim>\<open>processing\<close>, \<^verbatim>\<open>completed\<close> and
  \<^verbatim>\<open>failed\<close>, begin with \<^verbatim>\<open>started\<close>, and for any two of them the earlier one is not
  further in the life of a job than the later one; if the earlier one is \<^verbatim>\<open>completed\<close>
  or \<^verbatim>\<open>failed\<close>, the later one is the same state. The journal holds every write to the
  registry, also those in the middle of a task, so this covers every sequence of
  updates an observer can see.
\<close>

theorem job_state_monotonic:
  assumes "reachable s"
  shows "set (job_states job_id s) \<subseteq> {''started'', ''processing'', ''completed'', ''failed''} \<and>
     sorted_wrt (\<lambda>a b. job_state_rank a \<le> job_state_rank b \<and>
                       (a = ''completed'' \<or> a = ''failed'' \<longrightarrow> b = a)) (job_states job_id s) \<and>
     (job_states job_id s \<noteq> [] \<longrightarrow> hd (job_states job_id s) = ''started'')"
proof -
  from assms have "server_inv s" by (rule server_inv_reachable)
  then have "lifecycle (job_states job_id s)" by (simp add: server_inv_def job_states_def)
  from lifecycle_monotonic[OF this] show ?thesis by (intro conjI)
qed

text \<open>
  The three-clip job after its task has run: written once as \<^verbatim>\<open>started\<close>, eight times
  as \<^verbatim>\<open>processing\<close> and three times as \<^verbatim>\<open>completed\<close>.
\<close>

theorem job_state_monotonic_witness:
  "reachable three_clips_done \<and>
   job_states demo_job_id three_clips_done =
     [''started'', ''processing'', ''processing'', ''processing'', ''processing'',
      ''processing'', ''processing'', ''processing'', ''processing'',
      ''completed'', ''completed'', ''completed''] \<and>
   sorted_wrt (\<lambda>a b. job_state_rank a \<le> job_state_rank b \<and>
                     (a = ''completed'' \<or> a = ''failed'' \<longrightarrow> b = a))
     [''started'', ''processing'', ''processing'', ''processing'', ''processing'',
      ''processing'', ''processing'', ''processing'', ''processing'',
      ''completed'', ''completed'', ''completed'']"
  using job_state_monotonic[OF reachable_three_clips_done, of demo_job_id]
    reachable_three_clips_done three_clips_done_states
  by (simp add: numeral_eq_Suc)

text \<open>
  C7. When the same request is submitted twice, at any two moments of the life of the
  process and with any other submissions and task runs between the two, the two
  submissions get different job identifiers; the second submission finds the record of
  the first in the registry, leaves it as it is and registers a fresh record of its own;
  and from then on a write to the record of one of the two jobs, be it a single
  assignment or the whole run of that job's background task, leaves the record of the
  other job unchanged. Each record is a dictionary of its own (line 108 builds a new one
  per submission), so two records share no part.
\<close>

theorem separate_jobs_are_independent:
  assumes "reachable s"
    and "generate_video ts1 created1 rq s = (job_id1, s1)"
    and "server_step\<^sup>*\<^sup>* s1 s2"
    and "generate_video ts2 created2 rq s2 = (job_id2, s3)"
  shows "job_id1 \<noteq> job_id2 \<and>
     job_of s2 job_id1 \<noteq> None \<and> job_of s3 job_id1 = job_of s2 job_id1 \<and>
     job_of s3 job_id2 =
       Some \<lparr>status = ''started'', progress = Progress ''Initializing video generation...'',
             created_at = created2, request = rq, result = None, error = None\<rparr> \<and>
     (\<forall>t f. job_of (set_job job_id1 f t) job_id2 = job_of t job_id2 \<and>
            job_of (set_job job_id2 f t) job_id1 = job_of t job_id1) \<and>
     (\<forall>t ev cp inc w x t' w'.
        run_video_generation ev job_id1 cp inc t w = Some (x, t', w') \<longrightarrow>
        job_of t' job_id2 = job_of t job_id2) \<and>
     (\<forall>t ev cp inc w x t' w'.
        run_video_generation ev job_id2 cp inc t w = Some (x, t', w') \<longrightarrow>
        job_of t' job_id1 = job_of t job_id1)"
proof -
  note sep = separate_submissions[OF assms]
  from sep(1) have ne: "job_id1 \<noteq> job_id2" "job_id2 \<noteq> job_id1" by simp_all
  have a: "\<forall>t f. job_of (set_job job_id1 f t) job_id2 = job_of t job_id2 \<and>
            job_of (set_job job_id2 f t) job_id1 = job_of t job_id1"
    using ne by (simp add: job_of_set_job_other)
  have b: "\<forall>t ev cp inc w x t' w'.
        run_video_generation ev job_id1 cp inc t w = Some (x, t', w') \<longrightarrow>
        job_of t' job_id2 = job_of t job_id2"
    using ne(2) by (blast intro: job_of_run_other)
  have c: "\<forall>t ev cp inc w x t' w'.
        run_video_generation ev job_id2 cp inc t w = Some (x, t', w') \<longrightarrow>
        job_of t' job_id1 = job_of t job_id1"
    using ne(1) by (blast intro: job_of_run_other)
  from sep a b c show ?thesis by (intro conjI)
qed

text \<open>
  The same request submitted twice within the same second to a fresh process.
\<close>

theorem separate_jobs_are_independent_witness:
  "generate_video ''20250101_000000'' ''2025-01-01T00:00:00'' demo_request initial_server =
     (''job_20250101_000000_0'', one_job) \<and>
   generate_video ''20250101_000000'' ''2025-01-01T00:00:00'' demo_request one_job =
     (''job_20250101_000000_1'', two_jobs) \<and>
   job_of two_jobs ''job_20250101_000000_0'' = Some demo_job \<and>
   job_of two_jobs ''job_20250101_000000_1'' = Some demo_job \<and>
   job_of (set_job ''job_20250101_000000_0'' (\<lambda>j. j\<lparr>status := ''failed''\<rparr>) two_jobs)
     ''job_20250101_000000_0'' = Some (demo_job\<lparr>status := ''failed''\<rparr>) \<and>
   job_of (set_job ''job_20250101_000000_0'' (\<lambda>j. j\<lparr>status := ''failed''\<rparr>) two_jobs)
     ''job_20250101_000000_1'' = Some demo_job"
proof -
  have g1: "generate_video ''20250101_000000'' ''2025-01-01T00:00:00'' demo_request
      initial_server = (''job_20250101_000000_0'', one_job)"
    by (simp add: one_job_def generate_video_def initial_server_def str_of_nat.simps
        digit_char_def Let_def)
  have g2: "generate_video ''20250101_000000'' ''2025-01-01T00:00:00'' demo_request one_job =
      (''job_20250101_000000_1'', two_jobs)"
    by (simp add: two_jobs_def one_job_def generate_video_def initial_server_def
        str_of_nat.simps digit_char_def Let_def)
  have r: "server_step\<^sup>*\<^sup>* one_job one_job" by simp
  note sep = separate_jobs_are_independent[OF reachable_initial g1 r g2]
  have j1: "job_of one_job ''job_20250101_000000_0'' = Some demo_job"
    using demo_registered by (simp add: demo_job_id_def)
  with sep have 3: "job_of two_jobs ''job_20250101_000000_0'' = Some demo_job" by simp
  from sep have 4: "job_of two_jobs ''job_20250101_000000_1'' = Some demo_job"
    by (simp add: demo_job_def)
  from 3 have 5: "job_of (set_job ''job_20250101_000000_0'' (\<lambda>j. j\<lparr>status := ''failed''\<rparr>)
      two_jobs) ''job_20250101_000000_0'' = Some (demo_job\<lparr>status := ''failed''\<rparr>)"
    by (simp add: job_of_def set_job_def update_conv')
  from sep 4 have 6: "job_of (set_job ''job_20250101_000000_0'' (\<lambda>j. j\<lparr>status := ''failed''\<rparr>)
      two_jobs) ''job_20250101_000000_1'' = Some demo_job" by simp
  from g1 g2 3 4 5 6 show ?thesis by (intro conjI)
qed

text \<open>
  C8. The Fal poller builds its status URL from the request identifier alone, under the
  \<^verbatim>\<open>mmaudio-v2\<close> endpoint: the result of a polling session does not depend on
  \<^verbatim>\<open>base_url\<close>, and every request a session issues is a status query at that URL or
  the fetch of a \<^verbatim>\<open>response_url\<close> the provider supplied. So the composition stage,
  which submits to the \<^verbatim>\<open>ffmpeg-api\<close> endpoint and passes the \<^verbatim>\<open>ffmpeg-api\<close> base
  URL, still queries the \<^verbatim>\<open>mmaudio-v2\<close> status endpoint after its submission.
\<close>

theorem fal_status_url_ignores_base_url:
  "poll_fal_completion nt request_id item_name base_url max_wait_time w =
     poll_fal_completion nt request_id item_name base_url' max_wait_time w \<and>
   (poll_fal_completion nt request_id item_name base_url max_wait_time w = Some (r, w') \<longrightarrow>
      (\<exists>qs. requests w' = requests w @ qs \<and>
         (\<forall>q\<in>set qs. q = GET (UrlFmt ''https://queue.fal.run/fal-ai/mmaudio-v2/requests/''
                                  request_id ''/status'') \<or>
                       (\<exists>x. q = GET (UrlOf x))))) \<and>
   (merge_video_clips nt video_urls sound_urls w = Some (r, w') \<longrightarrow>
      (\<exists>request_id qs.
         requests w' =
           requests w @ POST (Url fal_ffmpeg_url) (compose_payload video_urls sound_urls) # qs \<and>
         (\<forall>q\<in>set qs. q = GET (UrlFmt ''https://queue.fal.run/fal-ai/mmaudio-v2/requests/''
                                  request_id ''/status'') \<or>
                       (\<exists>x. q = GET (UrlOf x)))))"
proof (intro conjI impI)
  show "poll_fal_completion nt request_id item_name base_url max_wait_time w =
     poll_fal_completion nt request_id item_name base_url' max_wait_time w"
    by (simp add: poll_fal_completion_def)
next
  assume "poll_fal_completion nt request_id item_name base_url max_wait_time w = Some (r, w')"
  from poll_fal_summary(1)[OF this]
  show "\<exists>qs. requests w' = requests w @ qs \<and>
         (\<forall>q\<in>set qs. q = GET (UrlFmt ''https://queue.fal.run/fal-ai/mmaudio-v2/requests/''
                                  request_id ''/status'') \<or>
                       (\<exists>x. q = GET (UrlOf x)))"
    by (simp add: poll_post_def fal_status_url_def)
next
  assume run: "merge_video_clips nt video_urls sound_urls w = Some (r, w')"
  let ?p = "POST (Url fal_ffmpeg_url) (compose_payload video_urls sound_urls)"
  obtain r1 w1 where post: "post_json nt (Url fal_ffmpeg_url) (compose_payload video_urls sound_urls) w = (r1, w1)"
    by (cases "post_json nt (Url fal_ffmpeg_url) (compose_payload video_urls sound_urls) w") auto
  note pw = post_json_world[OF post]
  show "\<exists>request_id qs. requests w' = requests w @ ?p # qs \<and>
         (\<forall>q\<in>set qs. q = GET (UrlFmt ''https://queue.fal.run/fal-ai/mmaudio-v2/requests/''
                                  request_id ''/status'') \<or>
                       (\<exists>x. q = GET (UrlOf x)))"
  proof (cases "\<exists>result rid. r1 = Inr result \<and> py_item result ''request_id'' = Inr rid")
    case True
    then obtain result rid where "r1 = Inr result" "py_item result ''request_id'' = Inr rid" by blast
    with run post have "poll_fal_completion nt rid ''video rendering''
        ''https://queue.fal.run/fal-ai/ffmpeg-api/requests/'' 300 w1 = Some (r, w')"
      by (simp add: merge_video_clips_def)
    from poll_fal_summary(1)[OF this] obtain qs where
      "requests w' = requests w1 @ qs" "\<forall>q\<in>set qs. q = GET (fal_status_url rid) \<or> (\<exists>x. q = GET (UrlOf x))"
      by (auto simp: poll_post_def)
    with pw(3) show ?thesis by (auto simp: fal_status_url_def)
  next
    case False
    with run post have "w' = w1"
      by (auto simp: merge_video_clips_def split: sum.splits)
    with pw(3) show ?thesis by auto
  qed
qed

text \<open>
  A composition run: the submission goes to \<^verbatim>\<open>ffmpeg-api\<close>, the status query to
  \<^verbatim>\<open>mmaudio-v2\<close>.
\<close>

theorem fal_status_url_ignores_base_url_witness:
  "merge_video_clips compose_script [JStr ''https://cdn/c1.mp4''] [JNull] w0 =
     Some (Inr (JStr ''https://cdn/out.mp4''),
           \<lparr>clock = 0,
            requests = [POST (Url fal_ffmpeg_url) (compose_payload [JStr ''https://cdn/c1.mp4''] [JNull]),
                        GET (UrlFmt ''https://queue.fal.run/fal-ai/mmaudio-v2/requests/'' (JStr ''r1'') ''/status'')],
            sleeps = [], video_files = [], metadata_files = []\<rparr>) \<and>
   (\<exists>request_id qs.
      [POST (Url fal_ffmpeg_url) (compose_payload [JStr ''https://cdn/c1.mp4''] [JNull]),
       GET (UrlFmt ''https://queue.fal.run/fal-ai/mmaudio-v2/requests/'' (JStr ''r1'') ''/status'')] =
        POST (Url fal_ffmpeg_url) (compose_payload [JStr ''https://cdn/c1.mp4''] [JNull]) # qs \<and>
      (\<forall>q\<in>set qs. q = GET (UrlFmt ''https://queue.fal.run/fal-ai/mmaudio-v2/requests/''
                                  request_id ''/status'') \<or> (\<exists>x. q = GET (UrlOf x))))"
  using compose_run
    fal_status_url_ignores_base_url[THEN conjunct2, THEN conjunct2, rule_format, OF compose_run]
  by (simp add: w0_def)

text \<open>
  C9. In the Fal poller only the exact lowercase status \<^verbatim>\<open>'failed'\<close> is a
  provider-reported failure. A status answer (not HTTP 400, no HTTP error code) whose
  status is \<^verbatim>\<open>'failed'\<close> ends the iteration, at any poll, with the generation-failed
  exception that carries the provider's \<^verbatim>\<open>error\<close> field (first conjunct), and an
  iteration ends with that exception only for such an answer (second). An answer whose
  status is \<^verbatim>\<open>'FAILED'\<close> is none of the recognized ones: the iteration sleeps the
  current interval, leaves the interval as it is and the loop condition is tested again
  (third). For whole sessions: when the first answer says \<^verbatim>\<open>'failed'\<close> and
  \<^verbatim>\<open>max_wait_time\<close> is positive, the poller raises the generation-failed exception
  after this one query (fourth); when every answer of the session says \<^verbatim>\<open>'FAILED'\<close>
  or one of the in-progress statuses, in any order, so also when the provider reports
  \<^verbatim>\<open>'FAILED'\<close> only after some polls in progress, the poller keeps polling until
  \<^verbatim>\<open>max_wait_time\<close> has elapsed and then raises the timeout exception, never the
  provider's failure (fifth). This holds for every request identifier, item name,
  waiting time and starting world.
\<close>

theorem fal_uppercase_failed_times_out:
  "(http nt (GET u) w = (Reply code (Some d) raw, w1) \<and> code \<noteq> 400 \<and> \<not> http_error code \<and>
    py_get d ''status'' (JStr ''unknown'') = Inr (JStr ''failed'') \<longrightarrow>
      (\<exists>m. py_get d ''error'' (JStr ''Unknown error'') = Inr m \<and>
           fal_body nt u item_name w iv = Leave (Inl (GenerationFailed item_name m)) w1)) \<and>
   (\<forall>w iv i m w2.
      fal_body nt (fal_status_url request_id) item_name w iv = Leave (Inl (GenerationFailed i m)) w2 \<longrightarrow>
      (\<exists>code d raw w1. http nt (GET (fal_status_url request_id)) w = (Reply code (Some d) raw, w1) \<and>
          py_get d ''status'' (JStr ''unknown'') = Inr (JStr ''failed''))) \<and>
   (http nt (GET u) w = (Reply code (Some d) raw, w1) \<and> code \<noteq> 400 \<and> \<not> http_error code \<and>
    py_get d ''status'' (JStr ''unknown'') = Inr (JStr ''FAILED'') \<longrightarrow>
      fal_body nt u item_name w iv = Again (sleep iv w1) iv) \<and>
   (nt (length (requests w)) = (lat, Reply code (Some d) raw) \<and> code \<noteq> 400 \<and>
    \<not> http_error code \<and> py_get d ''status'' (JStr ''unknown'') = Inr (JStr ''failed'') \<and>
    0 < max_wait_time \<longrightarrow>
      (\<exists>m. py_get d ''error'' (JStr ''Unknown error'') = Inr m \<and>
           poll_fal_completion nt request_id item_name base_url max_wait_time w =
             Some (Inl (GenerationFailed item_name m),
                   w\<lparr>clock := clock w + lat,
                     requests := requests w @ [GET (fal_status_url request_id)]\<rparr>))) \<and>
   ((\<forall>k\<ge>length (requests w). \<exists>lat code d raw st.
        nt k = (lat, Reply code (Some d) raw) \<and> code \<noteq> 400 \<and> \<not> http_error code \<and>
        py_get d ''status'' (JStr ''unknown'') = Inr st \<and>
        (st = JStr ''FAILED'' \<or> st \<in> set fal_processing_statuses)) \<longrightarrow>
    (\<exists>w'. poll_fal_completion nt request_id item_name base_url max_wait_time w =
              Some (Inl (TimedOut item_name max_wait_time), w') \<and>
           max_wait_time \<le> clock w' - clock w))"
proof (intro conjI allI impI)
  assume "http nt (GET u) w = (Reply code (Some d) raw, w1) \<and> code \<noteq> 400 \<and> \<not> http_error code \<and>
    py_get d ''status'' (JStr ''unknown'') = Inr (JStr ''failed'')"
  then show "\<exists>m. py_get d ''error'' (JStr ''Unknown error'') = Inr m \<and>
           fal_body nt u item_name w iv = Leave (Inl (GenerationFailed item_name m)) w1"
    by (elim conjE, intro fal_body_failed) assumption+
next
  fix w iv i m w2
  assume "fal_body nt (fal_status_url request_id) item_name w iv = Leave (Inl (GenerationFailed i m)) w2"
  then show "\<exists>code d raw w1. http nt (GET (fal_status_url request_id)) w = (Reply code (Some d) raw, w1) \<and>
          py_get d ''status'' (JStr ''unknown'') = Inr (JStr ''failed'')"
    by (rule fal_body_failed_only)
next
  assume "http nt (GET u) w = (Reply code (Some d) raw, w1) \<and> code \<noteq> 400 \<and> \<not> http_error code \<and>
    py_get d ''status'' (JStr ''unknown'') = Inr (JStr ''FAILED'')"
  then show "fal_body nt u item_name w iv = Again (sleep iv w1) iv"
    by (elim conjE, intro fal_body_uppercase) assumption+
next
  assume "nt (length (requests w)) = (lat, Reply code (Some d) raw) \<and> code \<noteq> 400 \<and>
    \<not> http_error code \<and> py_get d ''status'' (JStr ''unknown'') = Inr (JStr ''failed'') \<and>
    0 < max_wait_time"
  then show "\<exists>m. py_get d ''error'' (JStr ''Unknown error'') = Inr m \<and>
           poll_fal_completion nt request_id item_name base_url max_wait_time w =
             Some (Inl (GenerationFailed item_name m),
                   w\<lparr>clock := clock w + lat,
                     requests := requests w @ [GET (fal_status_url request_id)]\<rparr>)"
    by (elim conjE, intro fal_session_failed) assumption+
next
  assume "\<forall>k\<ge>length (requests w). \<exists>lat code d raw st.
        nt k = (lat, Reply code (Some d) raw) \<and> code \<noteq> 400 \<and> \<not> http_error code \<and>
        py_get d ''status'' (JStr ''unknown'') = Inr st \<and>
        (st = JStr ''FAILED'' \<or> st \<in> set fal_processing_statuses)"
  then show "\<exists>w'. poll_fal_completion nt request_id item_name base_url max_wait_time w =
              Some (Inl (TimedOut item_name max_wait_time), w') \<and>
           max_wait_time \<le> clock w' - clock w"
    by (rule fal_session_never_terminal)
qed

text \<open>
  Three providers: one answers \<^verbatim>\<open>'FAILED'\<close> to every query, one answers
  \<^verbatim>\<open>'IN_PROGRESS'\<close> twice and \<^verbatim>\<open>'FAILED'\<close> from then on, one answers \<^verbatim>\<open>'failed'\<close>
  with the error \<^verbatim>\<open>out of memory\<close>. The first two sessions time out after 300 seconds;
  the third raises the provider's failure after one query.
\<close>

theorem fal_uppercase_failed_times_out_witness:
  "(\<exists>w'. poll_fal_completion always_FAILED (JStr ''r1'') ''ASMR sound'' [] 300 w0 =
          Some (Inl (TimedOut ''ASMR sound'' 300), w') \<and> 300 \<le> clock w' - clock w0) \<and>
   (\<exists>w'. poll_fal_completion in_progress_then_FAILED (JStr ''r1'') ''ASMR sound'' [] 300 w0 =
          Some (Inl (TimedOut ''ASMR sound'' 300), w') \<and> 300 \<le> clock w' - clock w0) \<and>
   poll_fal_completion reports_failed (JStr ''r1'') ''ASMR sound'' [] 300 w0 =
     Some (Inl (GenerationFailed ''ASMR sound'' (JStr ''out of memory'')),
           w0\<lparr>requests := [GET (fal_status_url (JStr ''r1''))]\<rparr>) \<and>
   fal_body reports_failed (fal_status_url (JStr ''r1'')) ''ASMR sound'' w0 5 =
     Leave (Inl (GenerationFailed ''ASMR sound'' (JStr ''out of memory'')))
       (w0\<lparr>requests := [GET (fal_status_url (JStr ''r1''))]\<rparr>) \<and>
   fal_body always_FAILED (fal_status_url (JStr ''r1'')) ''ASMR sound'' w0 5 =
     Again (w0\<lparr>clock := 6, requests := [GET (fal_status_url (JStr ''r1''))], sleeps := [5]\<rparr>) 5"
proof -
  let ?failed = "JObj [(''status'', JStr ''failed''), (''error'', JStr ''out of memory'')]"
  let ?FAILED = "JObj [(''status'', JStr ''FAILED'')]"
  let ?u = "fal_status_url (JStr ''r1'')"
  have 1: "\<exists>w'. poll_fal_completion always_FAILED (JStr ''r1'') ''ASMR sound'' [] 300 w0 =
          Some (Inl (TimedOut ''ASMR sound'' 300), w') \<and> 300 \<le> clock w' - clock w0"
    using fal_uppercase_failed_times_out[where nt = always_FAILED and request_id = "JStr ''r1''"
        and item_name = "''ASMR sound''" and base_url = "[]" and max_wait_time = 300 and w = w0]
    by (simp add: always_FAILED_def http_error_def)
  have 2: "\<exists>w'. poll_fal_completion in_progress_then_FAILED (JStr ''r1'') ''ASMR sound'' [] 300 w0 =
          Some (Inl (TimedOut ''ASMR sound'' 300), w') \<and> 300 \<le> clock w' - clock w0"
    using fal_uppercase_failed_times_out[where nt = in_progress_then_FAILED
        and request_id = "JStr ''r1''"
        and item_name = "''ASMR sound''" and base_url = "[]" and max_wait_time = 300 and w = w0]
    by (simp add: in_progress_then_FAILED_def http_error_def fal_processing_statuses_def)
  have 3: "poll_fal_completion reports_failed (JStr ''r1'') ''ASMR sound'' [] 300 w0 =
     Some (Inl (GenerationFailed ''ASMR sound'' (JStr ''out of memory'')),
           w0\<lparr>requests := [GET (fal_status_url (JStr ''r1''))]\<rparr>)"
    using fal_uppercase_failed_times_out[where nt = reports_failed and request_id = "JStr ''r1''"
        and item_name = "''ASMR sound''" and base_url = "[]" and max_wait_time = 300 and w = w0
        and lat = 0 and code = 200 and d = ?failed and raw = "[]"]
    by (simp add: reports_failed_def script_def ok_def http_error_def w0_def)
  have 4: "fal_body reports_failed ?u ''ASMR sound'' w0 5 =
     Leave (Inl (GenerationFailed ''ASMR sound'' (JStr ''out of memory'')))
       (w0\<lparr>requests := [GET ?u]\<rparr>)"
    using fal_uppercase_failed_times_out[where nt = reports_failed and u = ?u
        and item_name = "''ASMR sound''" and w = w0 and iv = 5
        and code = 200 and d = ?failed and raw = "[]" and ?w1.0 = "w0\<lparr>requests := [GET ?u]\<rparr>"]
    by (simp add: reports_failed_def script_def ok_def http_error_def w0_def http_def)
  have 5: "fal_body always_FAILED ?u ''ASMR sound'' w0 5 =
     Again (w0\<lparr>clock := 6, requests := [GET ?u], sleeps := [5]\<rparr>) 5"
    using fal_uppercase_failed_times_out[where nt = always_FAILED and u = ?u
        and item_name = "''ASMR sound''" and w = w0 and iv = 5
        and code = 200 and d = ?FAILED and raw = "[]"
        and ?w1.0 = "w0\<lparr>clock := 1, requests := [GET ?u]\<rparr>"]
    by (simp add: always_FAILED_def http_error_def w0_def http_def sleep_def)
  from 1 2 3 4 5 show ?thesis by (intro conjI)
qed

text \<open>
  C10. A background task started with \<^verbatim>\<open>include_sound\<close> false, whatever the providers
  answer and however it ends, sends no request to the audio endpoint; every composition
  request that it sends holds exactly one track, the video track; and if it stores metadata
  at all, the stored audio-reference list is one \<^verbatim>\<open>None\<close> per clip.
\<close>

theorem no_sound_when_not_requested:
  assumes "job_of s job_id = Some j"
    and "run_video_generation ev job_id custom_prmpt False s w = Some (x, s', w')"
  shows "\<exists>qs. requests w' = requests w @ qs \<and>
      list_all (\<lambda>q. \<not> submits_to fal_audio_url q) qs \<and>
      (\<forall>payload. POST (Url fal_ffmpeg_url) payload \<in> set qs \<longrightarrow>
         (\<exists>video_urls. payload = JObj [(''tracks'', JArr [video_track video_urls])])) \<and>
      (metadata_files w' = metadata_files w \<or>
       (\<exists>vi scenes video_urls final_video_url video_filename.
          metadata_files w' = metadata_files w @
            [(job_id @ ''.json'',
              metadata_of ev job_id vi scenes video_urls
                (replicate (length video_urls) JNull) final_video_url video_filename False)]))"
proof -
  from assms obtain x1 s1 where
    body: "video_generation_body ev job_id False s w = Some (x1, s1, w')"
    by (rule run_video_generation_body)
  have trivial: ?thesis if "w' = w"
    using that by (intro exI[of _ "[]"]) simp
  from body show ?thesis
  proof (cases rule: video_generation_body_cases)
    case (init_failed e)
    then show ?thesis by (intro trivial)
  next
    case (idea_failed e)
    then show ?thesis by (intro trivial)
  next
    case (scenes_failed vi e)
    then show ?thesis by (intro trivial)
  next
    case (clips_failed vi scenes e)
    from generate_video_clips_grows[OF clips_failed(4)] obtain qa where
      qa: "requests w' = requests w @ qa" "list_all (\<lambda>q. submits_to wavespeed_url q \<or> is_get q) qa"
        "metadata_files w' = metadata_files w" by (rule grows_requests)
    have "list_all (\<lambda>q. \<not> submits_to fal_audio_url q) qa"
      using qa(2) by (rule list_all_weaken) (rule not_audio)
    moreover have "\<forall>payload. POST (Url fal_ffmpeg_url) payload \<notin> set qa"
      using qa(2) not_ffmpeg(1) by (fastforce simp: list_all_iff)
    ultimately show ?thesis using qa(1,3) by blast
  next
    case (finishing vi scenes vus w1 sus s5 w2)
    from generate_video_clips_grows[OF finishing(4)] obtain qa where
      qa: "requests w1 = requests w @ qa" "list_all (\<lambda>q. submits_to wavespeed_url q \<or> is_get q) qa"
        "metadata_files w1 = metadata_files w" by (rule grows_requests)
    from sound_stage_world[OF finishing(5)]
    have ss: "w2 = w1" "sus = replicate (length vus) JNull" by simp_all
    from finish_generation_world[OF finishing(6)] obtain qc where
      qc: "requests w' = requests w2 @ POST (Url fal_ffmpeg_url) (compose_payload vus sus) # qc"
        "list_all is_get qc"
        "metadata_files w' = metadata_files w2 \<or>
         (\<exists>final fname. metadata_files w' = metadata_files w2 @
            [(job_id @ ''.json'', metadata_of ev job_id vi scenes vus sus final fname False)])"
      by blast
    let ?p = "POST (Url fal_ffmpeg_url) (JObj [(''tracks'', JArr [video_track vus])])"
    let ?qs = "qa @ ?p # qc"
    have p: "compose_payload vus sus = JObj [(''tracks'', JArr [video_track vus])]"
      using ss(2) by (simp add: compose_payload_no_sound)
    have r: "requests w' = requests w @ ?qs" using qc(1) qa(1) ss(1) p by simp
    have a: "list_all (\<lambda>q. \<not> submits_to fal_audio_url q) qa"
      using qa(2) by (rule list_all_weaken) (rule not_audio)
    have c: "list_all (\<lambda>q. \<not> submits_to fal_audio_url q) qc"
      using qc(2) by (rule list_all_weaken) (simp add: is_get_not_submits)
    have "\<not> submits_to fal_audio_url ?p" using urls_distinct by simp
    with a c have n: "list_all (\<lambda>q. \<not> submits_to fal_audio_url q) ?qs" by simp
    have na: "\<forall>payload. POST (Url fal_ffmpeg_url) payload \<notin> set qa"
      using qa(2) not_ffmpeg(1) by (fastforce simp: list_all_iff)
    have nc: "\<forall>payload. POST (Url fal_ffmpeg_url) payload \<notin> set qc"
      using qc(2) by (fastforce simp: list_all_iff)
    have o: "\<forall>payload. POST (Url fal_ffmpeg_url) payload \<in> set ?qs \<longrightarrow>
         (\<exists>video_urls. payload = JObj [(''tracks'', JArr [video_track video_urls])])"
      using na nc by auto
    have m: "metadata_files w' = metadata_files w \<or>
       (\<exists>vi scenes video_urls final_video_url video_filename.
          metadata_files w' = metadata_files w @
            [(job_id @ ''.json'',
              metadata_of ev job_id vi scenes video_urls
                (replicate (length video_urls) JNull) final_video_url video_filename False)])"
    proof (rule disjE[OF qc(3)])
      assume "metadata_files w' = metadata_files w2"
      with qa(3) ss show ?thesis by simp
    next
      assume "\<exists>final fname. metadata_files w' = metadata_files w2 @
            [(job_id @ ''.json'', metadata_of ev job_id vi scenes vus sus final fname False)]"
      then obtain final fname where "metadata_files w' = metadata_files w2 @
            [(job_id @ ''.json'', metadata_of ev job_id vi scenes vus sus final fname False)]"
        by blast
      with qa(3) ss have "metadata_files w' = metadata_files w @
            [(job_id @ ''.json'', metadata_of ev job_id vi scenes vus
                (replicate (length vus) JNull) final fname False)]" by simp
      then show ?thesis by blast
    qed
    from r n o m show ?thesis by blast
  qed
qed

text \<open>
  A one-clip run without sound: the stored list is \<^verbatim>\<open>[None]\<close> and the only composition
  request holds the video track of that clip.
\<close>

theorem no_sound_when_not_requested_witness:
  "\<exists>s'.
     run_video_generation (demo_env no_audio_replies one_scene_answer) demo_job_id None False
       silent_job w0 = Some (None, s', silent_world) \<and>
     (\<exists>qs. requests silent_world = requests w0 @ qs \<and>
        list_all (\<lambda>q. \<not> submits_to fal_audio_url q) qs \<and>
        (\<forall>payload. POST (Url fal_ffmpeg_url) payload \<in> set qs \<longrightarrow>
           (\<exists>video_urls. payload = JObj [(''tracks'', JArr [video_track video_urls])])) \<and>
        (metadata_files silent_world = metadata_files w0 \<or>
         (\<exists>vi scenes video_urls final_video_url video_filename.
            metadata_files silent_world = metadata_files w0 @
              [(demo_job_id @ ''.json'',
                metadata_of (demo_env no_audio_replies one_scene_answer) demo_job_id vi scenes
                  video_urls (replicate (length video_urls) JNull) final_video_url
                  video_filename False)]))) \<and>
     map (\<lambda>(f, md). py_item md ''sound_urls'') (metadata_files silent_world) =
       [Inr (JArr [JNull])] \<and>
     filter (submits_to fal_ffmpeg_url) (requests silent_world) =
       [POST (Url fal_ffmpeg_url) (JObj [(''tracks'', JArr [video_track [JStr ''https://cdn/c1.mp4'']])])]"
proof -
  from silent_run obtain s' where
    run: "run_video_generation (demo_env no_audio_replies one_scene_answer) demo_job_id None False
       silent_job w0 = Some (None, s', silent_world)" by blast
  have md: "map (\<lambda>(f, md). py_item md ''sound_urls'') (metadata_files silent_world) =
      [Inr (JArr [JNull])]"
    by (simp add: silent_world_def metadata_of_def)
  have rq: "filter (submits_to fal_ffmpeg_url) (requests silent_world) =
      [POST (Url fal_ffmpeg_url) (JObj [(''tracks'', JArr [video_track [JStr ''https://cdn/c1.mp4'']])])]"
    by (simp add: silent_world_def asked_def w0_def clip_requests_def
        merge_requests_def compose_payload_def compose_tracks_def
        wavespeed_url_def fal_audio_url_def fal_ffmpeg_url_def)
  from no_sound_when_not_requested[OF silent_registered run] run md rq
  show ?thesis by - (rule exI[of _ s'], intro conjI, assumption+)
qed

end
